(* ===== verification/Prelude.thy ===== *)
theory Prelude
  imports Main
begin

text \<open>
  Shared vocabulary of the development: the names of the model's types, the lemma
  collections the component theories add to, and the generic facts on lists, options and
  maps that several components use. Strings are \<open>char list\<close>; a \<open>char\<close> stands for one
  Python code point in the range U+0000 to U+00FF (Latin-1), which covers the text that the
  bridge reads from \<open>upsc\<close> and from its configuration in practice.
\<close>

named_theorems py_simps
  \<open>evaluation equations of the Python built-ins used by the bridge\<close>
named_theorems model_simps
  \<open>unfolding equations of the bridge's own functions, used in concrete runs\<close>

text \<open>Python exceptions that the modelled code can raise.\<close>

datatype py_error =
    OSError
  | UnicodeDecodeError
  | ValueError
  | OverflowError
  | KeyError string
  | TypeError
  | AttributeError
  | YAMLError

type_synonym 'a py_result = "py_error + 'a"

text \<open>Sequencing of statements that may raise: the first exception propagates.\<close>

definition py_bind :: "'a py_result \<Rightarrow> ('a \<Rightarrow> 'b py_result) \<Rightarrow> 'b py_result" where
  "py_bind r f = (case r of Inl e \<Rightarrow> Inl e | Inr x \<Rightarrow> f x)"

text \<open>A Python \<open>dict\<close> from strings to strings, read only through \<open>d.get(k)\<close>.\<close>

type_synonym str_dict = "string \<rightharpoonup> string"

subsection \<open>Exceptions\<close>

lemma py_bind_Inl [simp]: "py_bind (Inl e) f = Inl e"
  by (simp add: py_bind_def)

lemma py_bind_Inr [simp]: "py_bind (Inr x) f = f x"
  by (simp add: py_bind_def)

lemma py_bind_eq_Inr:
  "py_bind r f = Inr y \<longleftrightarrow> (\<exists>x. r = Inr x \<and> f x = Inr y)"
  by (cases r) (auto simp: py_bind_def)

subsection \<open>Lists\<close>

lemma dropWhile_idem [simp]: "dropWhile P (dropWhile P xs) = dropWhile P xs"
  by (induction xs) auto

lemma hd_dropWhile_not:
  "dropWhile P xs \<noteq> [] \<Longrightarrow> \<not> P (hd (dropWhile P xs))"
  by (induction xs) auto

lemma takeWhile_not_mem:
  "x \<in> set (takeWhile (\<lambda>c. c \<noteq> a) xs) \<Longrightarrow> x \<noteq> a"
  by (induction xs) (auto split: if_splits)

lemma takeWhile_dropWhile_split:
  "a \<in> set xs \<Longrightarrow>
   xs = takeWhile (\<lambda>c. c \<noteq> a) xs @ a # tl (dropWhile (\<lambda>c. c \<noteq> a) xs)"
  by (induction xs) auto

lemma takeWhile_neq_append [simp]:
  "a \<notin> set xs \<Longrightarrow> takeWhile (\<lambda>c. c \<noteq> a) (xs @ a # ys) = xs"
  by (induction xs) auto

lemma dropWhile_neq_append [simp]:
  "a \<notin> set xs \<Longrightarrow> dropWhile (\<lambda>c. c \<noteq> a) (xs @ a # ys) = a # ys"
  by (induction xs) auto

subsection \<open>Maps\<close>

text \<open>Folding updates into a map: the key set grows by the updated keys.\<close>

lemma dom_fold_upd:
  "dom (fold (\<lambda>(k, v) m. m(k \<mapsto> v)) kvs m) = dom m \<union> fst ` set kvs"
  by (induction kvs arbitrary: m) auto

lemma fold_upd_map_of:
  "fold (\<lambda>(k, v) m. m(k \<mapsto> v)) kvs m = m ++ map_of (rev kvs)"
  by (induction kvs arbitrary: m) (auto simp: map_add_def fun_eq_iff split: option.splits)

end
