(* ===== verification/Py_Str.thy ===== *)
theory Py_Str
  imports Prelude
begin

text \<open>
  The Python \<open>str\<close> built-ins that \<open>src/ha-ups-mqtt.py\<close> calls, with CPython's semantics on
  code points U+0000 to U+00FF: \<open>isspace\<close>, \<open>strip\<close>, \<open>lower\<close>, \<open>splitlines\<close>, the
  substring test \<open>in\<close>, \<open>split(sep, 1)\<close> and \<open>replace\<close>. Each is defined for every
  argument the built-in accepts, not only for the single-character arguments the bridge passes;
  the lemmas then specialise them to those arguments.
\<close>

subsection \<open>Character classes\<close>

text \<open>\<open>str.isspace\<close> on Latin-1: tab to carriage return, the separators U+001C to U+001F,
  space, NEL (U+0085) and the no-break space (U+00A0).\<close>

definition py_space_chars :: "char list" where
  "py_space_chars = [CHR 0x09, CHR 0x0A, CHR 0x0B, CHR 0x0C, CHR 0x0D,
                     CHR 0x1C, CHR 0x1D, CHR 0x1E, CHR 0x1F, CHR 0x20, CHR 0x85, CHR 0xA0]"

definition py_isspace :: "char \<Rightarrow> bool" where
  "py_isspace c \<longleftrightarrow> c \<in> set py_space_chars"

text \<open>Line boundaries of \<open>str.splitlines\<close> on Latin-1 (\<open>\r\n\<close> counts as one).\<close>

definition py_linebreak_chars :: "char list" where
  "py_linebreak_chars = [CHR 0x0A, CHR 0x0B, CHR 0x0C, CHR 0x0D, CHR 0x1C, CHR 0x1D, CHR 0x1E,
                         CHR 0x85]"

definition py_is_linebreak :: "char \<Rightarrow> bool" where
  "py_is_linebreak c \<longleftrightarrow> c \<in> set py_linebreak_chars"

subsection \<open>\<open>str.strip()\<close>\<close>

definition py_lstrip :: "string \<Rightarrow> string" where
  "py_lstrip s = dropWhile py_isspace s"

definition py_rstrip :: "string \<Rightarrow> string" where
  "py_rstrip s = rev (dropWhile py_isspace (rev s))"

definition py_strip :: "string \<Rightarrow> string" where
  "py_strip s = py_rstrip (py_lstrip s)"

subsection \<open>\<open>str.lower()\<close>\<close>

text \<open>Unicode lower-case mapping restricted to Latin-1: \<open>A\<close>..\<open>Z\<close> and U+00C0..U+00DE
  except the multiplication sign U+00D7 move up by 0x20; every other code point is kept.\<close>

definition py_lower_char :: "char \<Rightarrow> char" where
  "py_lower_char c =
     (let n = (of_char c :: nat) in
      if (65 \<le> n \<and> n \<le> 90) \<or> (192 \<le> n \<and> n \<le> 222 \<and> n \<noteq> 215) then char_of (n + 32) else c)"

definition py_lower :: "string \<Rightarrow> string" where
  "py_lower s = map py_lower_char s"

subsection \<open>\<open>str.splitlines()\<close>\<close>

text \<open>\<open>cur\<close> is the current line, reversed. A boundary ends the line; \<open>\r\n\<close> is one
  boundary; a final line is kept only when it is not empty, so a trailing boundary adds no
  empty line.\<close>

function splitlines_from :: "string \<Rightarrow> string \<Rightarrow> string list" where
  "splitlines_from cur [] = (if cur = [] then [] else [rev cur])"
| "splitlines_from cur (c # cs) =
     (if py_is_linebreak c
      then rev cur #
           splitlines_from [] (if c = CHR 0x0D \<and> cs \<noteq> [] \<and> hd cs = CHR 0x0A then tl cs else cs)
      else splitlines_from (c # cur) cs)"
  by pat_completeness auto
termination
  by (relation "measure (\<lambda>(cur, cs). length cs)") auto

definition py_splitlines :: "string \<Rightarrow> string list" where
  "py_splitlines s = splitlines_from [] s"

subsection \<open>Substring search: \<open>in\<close> and \<open>str.split(sep, 1)\<close>\<close>

text \<open>\<open>find_sub sep s\<close> is \<open>s.find(sep)\<close> (the first index of \<open>sep\<close> in \<open>s\<close>),
  with \<open>None\<close> for -1.\<close>

fun find_sub :: "string \<Rightarrow> string \<Rightarrow> nat option" where
  "find_sub sep [] = (if sep = [] then Some 0 else None)"
| "find_sub sep (c # cs) =
     (if take (length sep) (c # cs) = sep then Some 0 else map_option Suc (find_sub sep cs))"

definition py_in :: "string \<Rightarrow> string \<Rightarrow> bool" where
  "py_in sub s \<longleftrightarrow> find_sub sub s \<noteq> None"

text \<open>\<open>s.split(sep, 1)\<close>: \<open>ValueError\<close> for an empty separator, \<open>[s]\<close> when \<open>sep\<close>
  does not occur, otherwise the parts before and after its first occurrence.\<close>

definition py_split1 :: "string \<Rightarrow> string \<Rightarrow> string list py_result" where
  "py_split1 s sep =
     (if sep = [] then Inl ValueError
      else case find_sub sep s of
             None \<Rightarrow> Inr [s]
           | Some i \<Rightarrow> Inr [take i s, drop (i + length sep) s])"

subsection \<open>\<open>str.replace(old, new)\<close>\<close>

text \<open>Left to right, non-overlapping; an empty \<open>old\<close> inserts \<open>new\<close> before every
  character and at the end, as CPython does.\<close>

fun replace_nonempty :: "char \<Rightarrow> string \<Rightarrow> string \<Rightarrow> string \<Rightarrow> string" where
  "replace_nonempty o1 os new [] = []"
| "replace_nonempty o1 os new (c # cs) =
     (if take (Suc (length os)) (c # cs) = o1 # os
      then new @ replace_nonempty o1 os new (drop (length os) cs)
      else c # replace_nonempty o1 os new cs)"

definition py_replace :: "string \<Rightarrow> string \<Rightarrow> string \<Rightarrow> string" where
  "py_replace s old new =
     (case old of
        [] \<Rightarrow> new @ concat (map (\<lambda>c. c # new) s)
      | o1 # os \<Rightarrow> replace_nonempty o1 os new s)"

subsection \<open>Shapes of strings\<close>

text \<open>A string with no line boundary is one line of \<open>splitlines\<close>; a string with no
  white space at either end is a fixed point of \<open>strip\<close>.\<close>

text \<open>\<open>str(i)\<close> of a Python \<open>int\<close>: its decimal digits, with a minus sign when negative.\<close>

fun nat_digits :: "nat \<Rightarrow> string" where
  "nat_digits n = (if n < 10 then [char_of (48 + n)] else nat_digits (n div 10) @ [char_of (48 + n mod 10)])"

definition py_str_int :: "int \<Rightarrow> string" where
  "py_str_int i = (if i < 0 then CHR ''-'' # nat_digits (nat (- i)) else nat_digits (nat i))"

definition no_linebreak :: "string \<Rightarrow> bool" where
  "no_linebreak s \<longleftrightarrow> (\<forall>c\<in>set s. \<not> py_is_linebreak c)"

definition stripped :: "string \<Rightarrow> bool" where
  "stripped s \<longleftrightarrow> s = [] \<or> (\<not> py_isspace (hd s) \<and> \<not> py_isspace (last s))"

lemmas py_str_defs [py_simps] =
  py_isspace_def py_space_chars_def py_is_linebreak_def py_linebreak_chars_def
  py_lstrip_def py_rstrip_def py_strip_def py_lower_def py_lower_char_def
  py_splitlines_def py_in_def py_split1_def py_replace_def py_str_int_def char_of_def bit_0

subsection \<open>splitlines\<close>

lemma splitlines_from_line:
  "no_linebreak l \<Longrightarrow>
   splitlines_from cur (l @ CHR 0x0A # rest) = (rev cur @ l) # splitlines_from [] rest"
proof (induction l arbitrary: cur)
  case Nil
  then show ?case by (simp add: py_is_linebreak_def py_linebreak_chars_def)
next
  case (Cons c l)
  then show ?case by (simp add: no_linebreak_def)
qed

lemma splitlines_lines:
  "\<forall>l\<in>set ls. no_linebreak l \<Longrightarrow>
   py_splitlines (concat (map (\<lambda>l. l @ [CHR 0x0A]) ls)) = ls"
  unfolding py_splitlines_def
proof (induction ls)
  case Nil
  then show ?case by simp
next
  case (Cons l ls)
  then have "splitlines_from [] (l @ CHR 0x0A # concat (map (\<lambda>l. l @ [CHR 0x0A]) ls)) = l # ls"
    by (simp only: splitlines_from_line list.set_intros) simp
  then show ?case by simp
qed

lemma splitlines_from_no_linebreak:
  "no_linebreak cur \<Longrightarrow> l \<in> set (splitlines_from cur s) \<Longrightarrow> no_linebreak l"
proof (induction cur s rule: splitlines_from.induct)
  case (1 cur)
  then show ?case by (simp add: no_linebreak_def split: if_splits)
next
  case (2 cur c cs)
  show ?case
  proof (cases "py_is_linebreak c")
    case True
    with "2.prems"(2) have "l = rev cur \<or> l \<in> set (splitlines_from [] (if c = CHR 0x0D \<and> cs \<noteq> [] \<and> hd cs = CHR 0x0A then tl cs else cs))"
      by simp
    then show ?thesis
    proof
      assume "l = rev cur"
      with "2.prems"(1) show ?thesis by (simp add: no_linebreak_def)
    next
      assume "l \<in> set (splitlines_from [] (if c = CHR 0x0D \<and> cs \<noteq> [] \<and> hd cs = CHR 0x0A then tl cs else cs))"
      with True show ?thesis by (intro "2.IH"(1)) (simp_all add: no_linebreak_def)
    qed
  next
    case False
    with "2.prems" have "no_linebreak (c # cur)" and "l \<in> set (splitlines_from (c # cur) cs)"
      by (simp_all add: no_linebreak_def)
    with False show ?thesis by (intro "2.IH"(2))
  qed
qed


lemma splitlines_no_linebreak:
  "l \<in> set (py_splitlines s) \<Longrightarrow> no_linebreak l"
  unfolding py_splitlines_def
  by (rule splitlines_from_no_linebreak) (simp_all add: no_linebreak_def)

subsection \<open>Substring search, split and replace\<close>

lemma find_sub_single:
  "find_sub [a] s = (if a \<in> set s then Some (length (takeWhile (\<lambda>c. c \<noteq> a) s)) else None)"
  by (induction s) auto

lemma py_in_single [simp]: "py_in [a] s \<longleftrightarrow> a \<in> set s"
  by (simp add: py_in_def find_sub_single)

lemma drop_takeWhile_neq:
  "a \<in> set s \<Longrightarrow> drop (Suc (length (takeWhile (\<lambda>c. c \<noteq> a) s))) s = tl (dropWhile (\<lambda>c. c \<noteq> a) s)"
  by (induction s) auto

lemma py_split1_single:
  "py_split1 s [a] =
     Inr (if a \<in> set s then [takeWhile (\<lambda>c. c \<noteq> a) s, tl (dropWhile (\<lambda>c. c \<noteq> a) s)] else [s])"
  by (simp add: py_split1_def find_sub_single takeWhile_eq_take [symmetric] drop_takeWhile_neq)

lemma replace_nonempty_single:
  "replace_nonempty a [] new s = concat (map (\<lambda>c. if c = a then new else [c]) s)"
  by (induction s) auto

lemma py_replace_char:
  "py_replace s [a] [b] = map (\<lambda>c. if c = a then b else c) s"
  by (induction s) (auto simp: py_replace_def replace_nonempty_single)

lemma rev_dropWhile_rev_prefix:
  "rev (dropWhile P (rev t)) @ rev (takeWhile P (rev t)) = t"
  by (metis rev_append rev_rev_ident takeWhile_dropWhile_id)

lemma py_strip_stripped: "stripped (py_strip s)"
proof -
  let ?t = "dropWhile py_isspace s"
  let ?r = "rev (dropWhile py_isspace (rev ?t))"
  have r: "py_strip s = ?r" by (simp add: py_strip_def py_lstrip_def py_rstrip_def)
  show ?thesis
  proof (cases "?r = []")
    case True
    with r show ?thesis by (simp add: stripped_def)
  next
    case False
    then have ne: "dropWhile py_isspace (rev ?t) \<noteq> []" by simp
    have last_r: "\<not> py_isspace (last ?r)"
      using hd_dropWhile_not [OF ne] by (simp add: last_rev)
    have "?t = ?r @ rev (takeWhile py_isspace (rev ?t))"
      by (simp only: rev_dropWhile_rev_prefix)
    with False have "hd ?t = hd ?r" by (metis hd_append2)
    moreover have "?t \<noteq> []"
    proof
      assume "?t = []"
      with False show False by simp
    qed
    ultimately have "\<not> py_isspace (hd ?r)" by (metis hd_dropWhile_not)
    with last_r r show ?thesis by (simp add: stripped_def)
  qed
qed

lemma dropWhile_stripped:
  "stripped s \<Longrightarrow> s \<noteq> [] \<Longrightarrow> dropWhile py_isspace (s @ ys) = s @ ys"
  by (cases s) (auto simp: stripped_def)

lemma py_strip_pad:
  assumes "\<forall>c\<in>set xs. py_isspace c" and "\<forall>c\<in>set ys. py_isspace c" and "stripped s"
  shows "py_strip (xs @ s @ ys) = s"
proof (cases "s = []")
  case True
  have "py_lstrip (xs @ s @ ys) = []"
    unfolding py_lstrip_def dropWhile_eq_Nil_conv using assms(1,2) True by auto
  with True show ?thesis by (simp add: py_strip_def py_rstrip_def)
next
  case False
  have l: "py_lstrip (xs @ s @ ys) = s @ ys"
    using assms dropWhile_stripped [OF assms(3) False] by (simp add: py_lstrip_def)
  have "stripped (rev s)" using assms(3) False
    by (simp add: stripped_def hd_rev last_rev)
  then have "dropWhile py_isspace (rev s @ []) = rev s @ []"
    using False by (intro dropWhile_stripped) simp_all
  moreover have "dropWhile py_isspace (rev ys @ rev s) = dropWhile py_isspace (rev s)"
    using assms(2) by (intro dropWhile_append2) simp
  ultimately have "py_rstrip (s @ ys) = s" by (simp add: py_rstrip_def)
  with l show ?thesis by (simp add: py_strip_def)
qed

lemma py_strip_id: "stripped s \<Longrightarrow> py_strip s = s"
  using py_strip_pad [of "[]" "[]" s] by simp

lemma set_py_strip: "set (py_strip s) \<subseteq> set s"
  by (auto simp: py_strip_def py_lstrip_def py_rstrip_def dest!: set_dropWhileD)

lemma py_lower_char_idem [simp]: "py_lower_char (py_lower_char c) = py_lower_char c"
  by (simp add: py_lower_char_def Let_def)

lemma py_lower_idem: "py_lower (py_lower s) = py_lower s"
  by (simp add: py_lower_def)

lemma nat_digits_nonempty [simp]: "nat_digits n \<noteq> []"
  by (induction n rule: nat_digits.induct) simp

lemma py_str_int_nonempty [simp]: "py_str_int i \<noteq> []"
  by (simp add: py_str_int_def)

lemma set_nat_digits: "set (nat_digits n) \<subseteq> char_of ` {48..57::nat}"
proof (induction n rule: nat_digits.induct)
  case (1 n)
  have "48 + n mod 10 \<in> {48..57::nat}" by simp
  then show ?case using 1 by (auto simp del: nat_digits.simps simp: nat_digits.simps [of n])
qed

lemma splitlines_example: "py_splitlines ''a\<newline>b'' = [''a'', ''b'']" by (simp add: py_simps)
lemma splitlines_crlf_example: "py_splitlines (''a'' @ [CHR 0x0D, CHR 0x0A] @ ''b'') = [''a'', ''b'']" by (simp add: py_simps)
lemma strip_example: "py_strip '' ab c  '' = ''ab c''" by (simp add: py_simps)
lemma lower_example: "py_lower ''Office UPS'' = ''office ups''" by (simp add: py_simps)
lemma replace_example: "py_replace ''a.b.c'' ''.'' ''_'' = ''a_b_c''" by (simp add: py_simps)
lemma replace_empty_example: "py_replace ''ab'' '''' ''-'' = ''-a-b-''" by (simp add: py_simps)
lemma str_int_example: "py_str_int (-1883) = ''-1883''" by (simp add: py_simps)
lemma split1_example: "py_split1 ''k: v: w'' '':'' = Inr [''k'', '' v: w'']" by (simp add: py_simps)

subsection \<open>Lengths\<close>

lemma splitlines_from_len: "l \<in> set (splitlines_from cur s) \<Longrightarrow> length l \<le> length cur + length s"
proof (induction cur s rule: splitlines_from.induct)
  case (1 cur)
  then show ?case by (simp split: if_splits)
next
  case (2 cur c cs)
  then show ?case by (fastforce split: if_splits simp: length_tl)
qed

lemma length_py_strip: "length (py_strip s) \<le> length s"
  using length_dropWhile_le [of py_isspace s] length_dropWhile_le [of py_isspace "rev (py_lstrip s)"]
  by (simp add: py_strip_def py_rstrip_def py_lstrip_def)

lemma py_lower_char_low:
  assumes "py_lower_char c = d" and "(of_char d :: nat) < 65"
  shows "c = d"
proof (cases "(65 \<le> (of_char c :: nat) \<and> of_char c \<le> (90::nat)) \<or>
              (192 \<le> (of_char c :: nat) \<and> of_char c \<le> (222::nat) \<and> of_char c \<noteq> (215::nat))")
  case True
  then have "(of_char (char_of (of_char c + 32 :: nat) :: char) :: nat) = of_char c + 32"
    by (auto simp: of_char_of)
  then show ?thesis using assms True by (auto simp: py_lower_char_def Let_def)
next
  case False
  then show ?thesis using assms by (auto simp: py_lower_char_def Let_def split: if_splits)
qed

lemma space_in_lower: "CHR '' '' \<in> set (py_lower s) \<longleftrightarrow> CHR '' '' \<in> set s"
proof
  assume "CHR '' '' \<in> set (py_lower s)"
  then obtain c where "c \<in> set s" and "py_lower_char c = CHR '' ''" by (auto simp: py_lower_def)
  moreover have "c = CHR '' ''" using py_lower_char_low [OF calculation(2)] by simp
  ultimately show "CHR '' '' \<in> set s" by simp
next
  assume "CHR '' '' \<in> set s"
  moreover have "py_lower_char CHR '' '' = CHR '' ''" by (simp add: py_lower_char_def)
  ultimately show "CHR '' '' \<in> set (py_lower s)" by (force simp: py_lower_def)
qed

end
