(* ===== verification/Status_Reader.thy ===== *)
theory Status_Reader
  imports Py_Str
begin

text \<open>
  The status reader, \<open>read_ups\<close> of \<open>src/ha-ups-mqtt.py\<close> (lines 15-25): it runs
  \<open>upsc <ups_name>\<close> and turns its output into a dictionary. The process call is an input of the
  model: its outcome is a \<open>run_result\<close>, either the completed process (return code and
  decoded standard output) or the exception that \<open>subprocess.run\<close> raised (\<open>OSError\<close> when
  \<open>upsc\<close> cannot be started, \<open>UnicodeDecodeError\<close> when its output does not decode). The
  parsing loop is \<open>parse_lines\<close>, one equation per branch of the \<open>for\<close> body, with the
  unpacking \<open>key, val = ...\<close> as \<open>unpack2\<close>, which raises \<open>ValueError\<close> on a list that
  does not have two elements.
\<close>

datatype run_result =
    Completed (returncode: int) (stdout: string)
  | Raised py_error

definition upsc_argv :: "string \<Rightarrow> string list" where
  "upsc_argv ups_name = [''upsc'', ups_name]"

fun unpack2 :: "'a list \<Rightarrow> ('a \<times> 'a) py_result" where
  "unpack2 [a, b] = Inr (a, b)"
| "unpack2 _ = Inl ValueError"

fun parse_lines :: "string list \<Rightarrow> str_dict \<Rightarrow> str_dict py_result" where
  "parse_lines [] data = Inr data"
| "parse_lines (line # lines) data =
     (if py_in '':'' line then
        (case py_split1 line '':'' of
           Inl e \<Rightarrow> Inl e
         | Inr parts \<Rightarrow>
             (case unpack2 parts of
                Inl e \<Rightarrow> Inl e
              | Inr (key, val) \<Rightarrow> parse_lines lines (data(py_strip key \<mapsto> py_strip val))))
      else parse_lines lines data)"

definition read_ups :: "run_result \<Rightarrow> str_dict py_result" where
  "read_ups result =
     (case result of
        Raised e \<Rightarrow> Inl e
      | Completed rc out \<Rightarrow>
          if rc \<noteq> 0 then Inr Map.empty else parse_lines (py_splitlines out) Map.empty)"

subsection \<open>Specification of the parser\<close>

text \<open>
  What the reader promises, stated without the loop: the significant lines are those with a
  colon; each gives the pair of its stripped text before and after the first colon; later
  lines overwrite earlier ones.
\<close>

definition colon_line :: "string \<Rightarrow> bool" where
  "colon_line line \<longleftrightarrow> CHR '':'' \<in> set line"

definition split_line :: "string \<Rightarrow> string \<times> string" where
  "split_line line =
     (py_strip (takeWhile (\<lambda>c. c \<noteq> CHR '':'') line),
      py_strip (tl (dropWhile (\<lambda>c. c \<noteq> CHR '':'') line)))"

definition status_pairs :: "string \<Rightarrow> (string \<times> string) list" where
  "status_pairs out = map split_line (filter colon_line (py_splitlines out))"

definition parse_spec :: "string \<Rightarrow> str_dict" where
  "parse_spec out = map_of (rev (status_pairs out))"

text \<open>\<open>upsc\<close>'s output format, \<open>key: value\<close> one per line, for the round trip.\<close>

definition render_status :: "(string \<times> string) list \<Rightarrow> string" where
  "render_status kvs = concat (map (\<lambda>(k, v). k @ '': '' @ v @ ''\<newline>'') kvs)"

definition status_key_ok :: "string \<Rightarrow> bool" where
  "status_key_ok k \<longleftrightarrow> stripped k \<and> no_linebreak k \<and> CHR '':'' \<notin> set k"

definition status_value_ok :: "string \<Rightarrow> bool" where
  "status_value_ok v \<longleftrightarrow> stripped v \<and> no_linebreak v"

definition wf_status :: "str_dict \<Rightarrow> bool" where
  "wf_status d \<longleftrightarrow> (\<forall>k v. d k = Some v \<longrightarrow> stripped k \<and> CHR '':'' \<notin> set k \<and> stripped v)"

subsection \<open>The parsing loop against its specification\<close>

lemma parse_lines_spec:
  "parse_lines lines data =
     Inr (fold (\<lambda>(k, v) m. m(k \<mapsto> v)) (map split_line (filter colon_line lines)) data)"
proof (induction lines arbitrary: data)
  case Nil
  then show ?case by simp
next
  case (Cons line lines)
  then show ?case
    by (simp add: py_split1_single colon_line_def split_line_def)
qed

lemma read_ups_zero: "read_ups (Completed 0 out) = Inr (parse_spec out)"
  by (simp add: read_ups_def parse_lines_spec parse_spec_def status_pairs_def fold_upd_map_of)

lemma split_line_ok:
  "stripped (fst (split_line l)) \<and> CHR '':'' \<notin> set (fst (split_line l)) \<and>
   stripped (snd (split_line l))"
  using set_py_strip takeWhile_not_mem by (fastforce simp: split_line_def py_strip_stripped)

subsection \<open>Rendering \<open>upsc\<close> output\<close>

lemma render_line_ok:
  assumes "status_key_ok k" and "status_value_ok v"
  shows "colon_line (k @ '': '' @ v) \<and> split_line (k @ '': '' @ v) = (k, v)"
proof -
  have k: "CHR '':'' \<notin> set k" and ks: "stripped k" and vs: "stripped v"
    using assms by (simp_all add: status_key_ok_def status_value_ok_def)
  have sp: "\<forall>c\<in>set [CHR '' '']. py_isspace c"
    by (simp add: py_isspace_def py_space_chars_def)
  have v: "py_strip (CHR '' '' # v) = v"
    using py_strip_pad [OF sp _ vs, of "[]"] by simp
  have eq: "k @ '': '' @ v = k @ CHR '':'' # (CHR '' '' # v)" by simp
  have t: "takeWhile (\<lambda>c. c \<noteq> CHR '':'') (k @ CHR '':'' # (CHR '' '' # v)) = k"
    using k by (rule takeWhile_neq_append)
  have d: "dropWhile (\<lambda>c. c \<noteq> CHR '':'') (k @ CHR '':'' # (CHR '' '' # v)) =
           CHR '':'' # CHR '' '' # v"
    using k by (rule dropWhile_neq_append)
  have "split_line (k @ '': '' @ v) = (k, v)"
    unfolding eq split_line_def t d using v py_strip_id [OF ks] by simp
  moreover have "colon_line (k @ '': '' @ v)"
    unfolding eq colon_line_def by simp
  ultimately show ?thesis by simp
qed

lemma render_line_no_linebreak:
  "status_key_ok k \<Longrightarrow> status_value_ok v \<Longrightarrow> no_linebreak (k @ '': '' @ v)"
  unfolding status_key_ok_def status_value_ok_def no_linebreak_def
  by (auto simp: py_is_linebreak_def py_linebreak_chars_def)

lemma render_status_lines:
  "render_status kvs = concat (map (\<lambda>l. l @ [CHR 0x0A]) (map (\<lambda>(k, v). k @ '': '' @ v) kvs))"
  by (induction kvs) (auto simp: render_status_def)

subsection \<open>Properties of the reader\<close>

text \<open>C7: \<open>read_ups\<close> implements its specification: an exception of the process call
  propagates, a non-zero return code gives the empty dictionary, and return code 0 gives the
  dictionary of the colon lines, each split at its first colon and stripped, a later line
  overwriting an earlier one with the same key.\<close>

theorem read_ups_refines_spec:
  "read_ups r =
     (case r of
        Raised e \<Rightarrow> Inl e
      | Completed rc out \<Rightarrow> Inr (if rc = 0 then parse_spec out else Map.empty))"
proof (cases r)
  case (Completed rc out)
  then show ?thesis
    by (cases "rc = 0") (simp add: read_ups_zero, simp add: read_ups_def)
next
  case (Raised e)
  then show ?thesis by (simp add: read_ups_def)
qed

text \<open>C18: round trip with \<open>upsc\<close>'s output format: rendering a list of key/value pairs
  as \<open>key: value\<close> lines and reading it back gives the dictionary of the pairs (the last
  pair for a key wins), for keys and values without surrounding white space or line
  boundaries and keys without a colon.\<close>

theorem read_ups_roundtrip:
  assumes ok: "\<forall>(k, v) \<in> set kvs. status_key_ok k \<and> status_value_ok v"
  shows "read_ups (Completed 0 (render_status kvs)) = Inr (map_of (rev kvs))"
proof -
  let ?line = "\<lambda>(k, v). k @ '': '' @ v"
  have lb: "\<forall>l\<in>set (map ?line kvs). no_linebreak l"
    using ok render_line_no_linebreak by fastforce
  have lines: "py_splitlines (render_status kvs) = map ?line kvs"
    unfolding render_status_lines using lb by (rule splitlines_lines)
  have "filter colon_line (map ?line kvs) = map ?line kvs"
    using ok render_line_ok by (fastforce intro: filter_True)
  moreover have "map split_line (map ?line kvs) = kvs"
    using ok render_line_ok by (induction kvs) auto
  ultimately show ?thesis
    by (simp add: read_ups_zero parse_spec_def status_pairs_def lines)
qed

theorem read_ups_roundtrip_witness:
  "status_key_ok ''battery.charge'' \<and> status_value_ok ''90'' \<and>
   status_key_ok ''battery.voltage'' \<and> status_value_ok ''13.5'' \<and>
   read_ups (Completed 0 (render_status [(''battery.charge'', ''90''), (''battery.voltage'', ''13.5'')]))
     = Inr (map_of (rev [(''battery.charge'', ''90''), (''battery.voltage'', ''13.5'')]))"
proof -
  have h: "\<forall>(k, v) \<in> set [(''battery.charge'', ''90''), (''battery.voltage'', ''13.5'')].
      status_key_ok k \<and> status_value_ok v"
    by (simp add: status_key_ok_def status_value_ok_def stripped_def no_linebreak_def py_simps)
  show ?thesis using h read_ups_roundtrip [OF h] by simp
qed

text \<open>C19: every dictionary the reader returns is well formed: its keys and values carry no
  surrounding white space and its keys contain no colon.\<close>

theorem read_ups_wf:
  "read_ups (Completed rc out) = Inr d \<Longrightarrow> wf_status d"
proof (cases "rc = 0")
  case True
  assume "read_ups (Completed rc out) = Inr d"
  with True have d: "d = map_of (rev (status_pairs out))"
    by (simp add: read_ups_zero parse_spec_def)
  show ?thesis
    unfolding wf_status_def
  proof (intro allI impI)
    fix k v
    assume "d k = Some v"
    with d have "(k, v) \<in> set (status_pairs out)" by (auto dest: map_of_SomeD)
    then obtain l where "(k, v) = split_line l" by (auto simp: status_pairs_def)
    then show "stripped k \<and> CHR '':'' \<notin> set k \<and> stripped v"
      using split_line_ok [of l] by (metis fst_conv snd_conv)
  qed
next
  case False
  assume "read_ups (Completed rc out) = Inr d"
  with False have "d = Map.empty" by (simp add: read_ups_def)
  then show ?thesis by (simp add: wf_status_def)
qed

theorem read_ups_wf_witness:
  "read_ups (Completed 0 ''ups.status: OL\<newline>'') = Inr [''ups.status'' \<mapsto> ''OL''] \<and>
   wf_status [''ups.status'' \<mapsto> ''OL'']"
proof -
  have h: "read_ups (Completed 0 ''ups.status: OL\<newline>'') = Inr [''ups.status'' \<mapsto> ''OL'']"
    by (simp add: read_ups_def py_simps)
  show ?thesis using h read_ups_wf [OF h] by simp
qed

subsection \<open>Lengths of the values read\<close>

lemma parse_spec_len: "parse_spec out k = Some v \<Longrightarrow> length v \<le> length out"
proof -
  assume "parse_spec out k = Some v"
  then have "(k, v) \<in> set (status_pairs out)"
    by (auto simp: parse_spec_def dest: map_of_SomeD)
  then obtain l where l: "l \<in> set (py_splitlines out)" and v: "v = snd (split_line l)"
    by (auto simp: status_pairs_def) (metis snd_conv)
  have "length v \<le> length l"
    using v length_py_strip [of "tl (dropWhile (\<lambda>c. c \<noteq> CHR '':'') l)"]
      length_dropWhile_le [of "\<lambda>c. c \<noteq> CHR '':''" l]
    by (simp add: split_line_def)
  also have "\<dots> \<le> length out" using splitlines_from_len l by (fastforce simp: py_splitlines_def)
  finally show ?thesis .
qed

lemma read_ups_len:
  "read_ups (Completed rc out) = Inr d \<Longrightarrow> d k = Some v \<Longrightarrow> length v \<le> length out"
  by (auto simp: read_ups_def parse_lines_spec fold_upd_map_of parse_spec_def status_pairs_def
      intro: parse_spec_len [unfolded parse_spec_def status_pairs_def] split: if_splits)

end
