(* ===== verification/Json.thy ===== *)
theory Json
  imports Py_Str
begin

text \<open>
  \<open>json.dumps\<close> with its default arguments (\<open>ensure_ascii=True\<close>, separators
  \<open>", "\<close> and \<open>": "\<close>), for the values the bridge serialises: strings, lists and
  dicts in insertion order, and the \<open>None\<close>, booleans and integers that a configuration
  file can put into a payload. \<open>json_escape_char\<close> follows CPython's
  \<open>py_encode_basestring_ascii\<close>: the quote and the backslash are escaped, the control
  characters with a short escape use it, and every other code point outside the printable
  ASCII range \<open>' '\<close>..\<open>'~'\<close> becomes \<open>\uXXXX\<close> with lower-case hex digits.
  \<open>json_unescape\<close> decodes a JSON string body; the round trip between the two is proved.
\<close>

datatype json =
    JString string
  | JArray "json list"
  | JObject "(string \<times> json) list"
  | JNull
  | JBool bool
  | JInt int

definition hex_digit :: "nat \<Rightarrow> char" where
  "hex_digit n = (if n < 10 then char_of (48 + n) else char_of (87 + n))"

definition hex4 :: "nat \<Rightarrow> string" where
  "hex4 n = map hex_digit [n div 4096 mod 16, n div 256 mod 16, n div 16 mod 16, n mod 16]"

definition json_short_escapes :: "(char \<times> char) list" where
  "json_short_escapes =
     [(CHR 0x22, CHR 0x22), (CHR 0x5C, CHR 0x5C), (CHR 0x0A, CHR ''n''), (CHR 0x0D, CHR ''r''),
      (CHR 0x09, CHR ''t''), (CHR 0x08, CHR ''b''), (CHR 0x0C, CHR ''f'')]"

definition json_escape_char :: "char \<Rightarrow> string" where
  "json_escape_char c =
     (case map_of json_short_escapes c of
        Some e \<Rightarrow> [CHR 0x5C, e]
      | None \<Rightarrow>
          (let n = (of_char c :: nat) in
           if 32 \<le> n \<and> n \<le> 126 then [c] else CHR 0x5C # CHR ''u'' # hex4 n))"

definition json_str :: "string \<Rightarrow> string" where
  "json_str s = CHR 0x22 # concat (map json_escape_char s) @ [CHR 0x22]"

definition join_sep :: "string \<Rightarrow> string list \<Rightarrow> string" where
  "join_sep sep xs = (case xs of [] \<Rightarrow> [] | x # ys \<Rightarrow> x @ concat (map (\<lambda>y. sep @ y) ys))"

fun json_dumps :: "json \<Rightarrow> string" where
  "json_dumps (JString s) = json_str s"
| "json_dumps (JArray xs) = ''['' @ join_sep '', '' (map json_dumps xs) @ '']''"
| "json_dumps (JObject kvs) =
     ''{'' @ join_sep '', '' (map (\<lambda>(k, v). json_str k @ '': '' @ json_dumps v) kvs) @ ''}''"
| "json_dumps JNull = ''null''"
| "json_dumps (JBool b) = (if b then ''true'' else ''false'')"
| "json_dumps (JInt i) = py_str_int i"

text \<open>An upper bound on the length of what \<open>json_dumps\<close> writes: at most six characters
  (\<open>\uXXXX\<close>) per character of a string, two quotes, and the brackets and separators.\<close>

fun json_bound :: "json \<Rightarrow> nat" where
  "json_bound (JString s) = 6 * length s + 2"
| "json_bound (JArray xs) = 2 + sum_list (map (\<lambda>x. json_bound x + 2) xs)"
| "json_bound (JObject kvs) = 2 + sum_list (map (\<lambda>(k, v). 6 * length k + 6 + json_bound v) kvs)"
| "json_bound JNull = 4"
| "json_bound (JBool b) = 5"
| "json_bound (JInt i) = length (py_str_int i)"

subsection \<open>Decoding a string body\<close>

definition hex_value :: "char \<Rightarrow> nat option" where
  "hex_value c =
     (let n = (of_char c :: nat) in
      if 48 \<le> n \<and> n \<le> 57 then Some (n - 48)
      else if 97 \<le> n \<and> n \<le> 102 then Some (n - 87)
      else if 65 \<le> n \<and> n \<le> 70 then Some (n - 55)
      else None)"

definition unescape_short :: "char \<Rightarrow> char option" where
  "unescape_short e = map_of (map (\<lambda>(c, d). (d, c)) json_short_escapes) e"

fun json_unescape :: "string \<Rightarrow> string option" where
  "json_unescape [] = Some []"
| "json_unescape (c # cs) =
     (if c \<noteq> CHR 0x5C then map_option (Cons c) (json_unescape cs)
      else case cs of
        [] \<Rightarrow> None
      | e # rest \<Rightarrow>
          if e = CHR ''u'' then
            (case rest of
               a # b # d # f # rest' \<Rightarrow>
                 (case (hex_value a, hex_value b, hex_value d, hex_value f) of
                    (Some x1, Some x2, Some x3, Some x4) \<Rightarrow>
                      let n = 4096 * x1 + 256 * x2 + 16 * x3 + x4 in
                      if n < 256 then map_option (Cons (char_of n)) (json_unescape rest') else None
                  | _ \<Rightarrow> None)
             | _ \<Rightarrow> None)
          else (case unescape_short e of
                  Some d \<Rightarrow> map_option (Cons d) (json_unescape rest)
                | None \<Rightarrow> None))"

definition printable_ascii :: "char \<Rightarrow> bool" where
  "printable_ascii c \<longleftrightarrow> 32 \<le> (of_char c :: nat) \<and> (of_char c :: nat) \<le> 126"

lemmas json_defs [py_simps] =
  hex_digit_def hex4_def json_short_escapes_def json_escape_char_def json_str_def join_sep_def

subsection \<open>Escaping round trip\<close>

lemma hex_value_digit: "k < 16 \<Longrightarrow> hex_value (hex_digit k) = Some k"
  by (simp add: hex_value_def hex_digit_def Let_def)

lemma hex4_value:
  assumes "n < 256"
  shows "hex4 n = [hex_digit 0, hex_digit 0, hex_digit (n div 16), hex_digit (n mod 16)]"
  using assms by (simp add: hex4_def)

lemma unescape_short_inv:
  "map_of json_short_escapes c = Some e \<Longrightarrow> unescape_short e = Some c \<and> e \<noteq> CHR ''u''"
  by (auto simp: json_short_escapes_def unescape_short_def split: if_splits)

lemma json_unescape_escape_char:
  "json_unescape (json_escape_char c @ rest) = map_option (Cons c) (json_unescape rest)"
proof (cases "map_of json_short_escapes c")
  case (Some e)
  then show ?thesis using unescape_short_inv [OF Some] by (simp add: json_escape_char_def)
next
  case None
  then have c: "c \<noteq> CHR 0x5C" by (auto simp: json_short_escapes_def split: if_splits)
  let ?n = "of_char c :: nat"
  show ?thesis
  proof (cases "32 \<le> ?n \<and> ?n \<le> 126")
    case True
    with None c show ?thesis by (simp add: json_escape_char_def)
  next
    case False
    have lt: "?n < 256" by simp
    have e: "json_escape_char c = CHR 0x5C # CHR ''u'' # hex4 ?n"
      using None False by (simp add: json_escape_char_def Let_def)
    have h0: "hex_value (hex_digit 0) = Some 0" by (simp add: hex_value_digit)
    have h1: "hex_value (hex_digit (?n div 16)) = Some (?n div 16)"
      using lt by (intro hex_value_digit less_mult_imp_div_less) simp
    have h2: "hex_value (hex_digit (?n mod 16)) = Some (?n mod 16)"
      by (intro hex_value_digit) simp
    have n: "16 * (?n div 16) + ?n mod 16 = ?n" by simp
    show ?thesis
      by (simp add: e hex4_value [OF lt] h0 h1 h2 n Let_def)
  qed
qed

text \<open>round trip of the string escaping of \<open>json.dumps\<close>: decoding the escaped
  body of any string gives the string back, so distinct strings are serialised distinctly.\<close>

lemma json_unescape_escape:
  "json_unescape (concat (map json_escape_char s)) = Some s"
  by (induction s) (simp_all add: json_unescape_escape_char)

subsection \<open>Output alphabet\<close>

lemma hex_digit_printable: "k < 16 \<Longrightarrow> printable_ascii (hex_digit k)"
  by (simp add: printable_ascii_def hex_digit_def)

lemma hex4_printable: "list_all printable_ascii (hex4 n)"
  by (simp add: hex4_def hex_digit_printable)

lemma json_escape_char_printable: "list_all printable_ascii (json_escape_char c)"
proof (cases "map_of json_short_escapes c")
  case (Some e)
  then have "(c, e) \<in> set json_short_escapes" by (rule map_of_SomeD)
  then show ?thesis
    using Some by (auto simp: json_escape_char_def json_short_escapes_def printable_ascii_def)
next
  case None
  then show ?thesis
    using hex4_printable [of "of_char c"]
    by (simp add: json_escape_char_def printable_ascii_def Let_def)
qed

lemma json_str_printable: "list_all printable_ascii (json_str s)"
  using json_escape_char_printable
  by (simp add: json_str_def list_all_iff printable_ascii_def)

lemma join_sep_printable:
  "list_all printable_ascii sep \<Longrightarrow> \<forall>x\<in>set xs. list_all printable_ascii x \<Longrightarrow>
   list_all printable_ascii (join_sep sep xs)"
  by (cases xs) (auto simp: join_sep_def list_all_iff)

lemma digit_printable: "n \<in> {48..57::nat} \<Longrightarrow> printable_ascii (char_of n)"
  by (simp add: printable_ascii_def of_char_of)

lemma py_str_int_printable: "list_all printable_ascii (py_str_int i)"
proof -
  have "list_all printable_ascii (nat_digits n)" for n
    using set_nat_digits [of n] digit_printable unfolding list_all_iff by blast
  moreover have "printable_ascii CHR ''-''" by (simp add: printable_ascii_def)
  ultimately show ?thesis by (simp add: py_str_int_def)
qed

lemma punctuation_printable [simp]:
  "printable_ascii CHR ''[''" "printable_ascii CHR '']''" "printable_ascii CHR ''{''"
  "printable_ascii CHR ''}''" "printable_ascii CHR '',''" "printable_ascii CHR '':''"
  "printable_ascii CHR '' ''"
  by (simp_all add: printable_ascii_def)

text \<open>with \<open>ensure_ascii\<close>, every character \<open>json.dumps\<close> emits for a value
  of the bridge is printable ASCII, whatever the strings it contains.\<close>

lemma json_dumps_printable: "list_all printable_ascii (json_dumps j)"
proof (induction j)
  case (JString s)
  then show ?case by (simp add: json_str_printable)
next
  case (JArray xs)
  then show ?case
    by (auto simp: punctuation_printable intro!: join_sep_printable)
next
  case (JObject kvs)
  then show ?case
    by (auto simp: punctuation_printable json_str_printable intro!: join_sep_printable)
next
  case (JInt i)
  then show ?case by (simp add: py_str_int_printable)
qed (simp_all add: printable_ascii_def)

subsection \<open>Length of the output\<close>

lemma json_escape_char_len: "length (json_escape_char c) \<le> 6"
  by (auto simp: json_escape_char_def hex4_def Let_def split: option.splits)

lemma json_escapes_len: "length (concat (map json_escape_char s)) \<le> 6 * length s"
proof (induction s)
  case Nil
  then show ?case by simp
next
  case (Cons c s)
  then show ?case using json_escape_char_len [of c] by simp
qed

lemma json_str_len: "length (json_str s) \<le> 6 * length s + 2"
  using json_escapes_len [of s] by (simp add: json_str_def)

lemma join_sep_len: "length (join_sep sep xs) \<le> sum_list (map (\<lambda>x. length x + length sep) xs)"
  by (cases xs) (simp_all add: join_sep_def length_concat comp_def add.commute)

lemma json_dumps_len: "length (json_dumps j) \<le> json_bound j"
proof (induction j rule: json_dumps.induct)
  case (1 s)
  then show ?case using json_str_len [of s] by simp
next
  case (2 xs)
  have "length (join_sep '', '' (map json_dumps xs)) \<le> sum_list (map (\<lambda>x. length (json_dumps x) + 2) xs)"
    using join_sep_len [of "'', ''" "map json_dumps xs"] by (simp add: comp_def)
  also have "\<dots> \<le> sum_list (map (\<lambda>x. json_bound x + 2) xs)"
    using 2 by (intro sum_list_mono) simp
  finally show ?case by simp
next
  case (3 kvs)
  let ?f = "\<lambda>(k, v). json_str k @ '': '' @ json_dumps v"
  have "length (join_sep '', '' (map ?f kvs)) \<le> sum_list (map (\<lambda>kv. length (?f kv) + 2) kvs)"
    using join_sep_len [of "'', ''" "map ?f kvs"] by (simp add: comp_def)
  also have "\<dots> \<le> sum_list (map (\<lambda>(k, v). 6 * length k + 6 + json_bound v) kvs)"
  proof (intro sum_list_mono)
    fix kv assume kv: "kv \<in> set kvs"
    obtain k v where kv_eq: "kv = (k, v)" by fastforce
    have "length (json_dumps v) \<le> json_bound v" using 3 kv kv_eq by simp
    then show "length (?f kv) + 2 \<le> (\<lambda>(k, v). 6 * length k + 6 + json_bound v) kv"
      using json_str_len [of k] kv_eq by simp
  qed
  finally show ?case by simp
qed simp_all

end
