(* ===== verification/Field_Mapper.thy ===== *)
theory Field_Mapper
  imports Json
begin

text \<open>
  The field mapper of \<open>src/ha-ups-mqtt.py\<close>: \<open>build_discovery_topic\<close> (lines 27-29),
  \<open>build_state_topic\<close> (lines 31-32) and \<open>build_payload\<close> (lines 34-57). A sensor of the
  configuration (a dict with the keys \<open>key\<close>, \<open>friendly_name\<close> and optionally
  \<open>unit\<close>, \<open>icon\<close>, \<open>device_class\<close>) is a record whose optional keys are options;
  the device info dict built in \<open>main\<close> is a record; the discovery payload dict is a record
  whose optional keys are options, and \<open>payload_json\<close> is the dict as \<open>json.dumps\<close>
  sees it, keys in insertion order. \<open>build_payload\<close> reads the global
  \<open>config["mqtt"]["base_topic"]\<close>; here it is the first argument.
\<close>

record sensor =
  key :: string
  friendly_name :: string
  unit :: "string option"
  icon :: "string option"
  device_class :: "string option"

record device_info =
  identifiers :: "string list"
  name :: string
  model :: string
  manufacturer :: string
  sw_version :: string

record discovery_payload =
  pl_name :: string
  pl_state_topic :: string
  pl_unique_id :: string
  pl_device :: device_info
  pl_unit_of_measurement :: "string option"
  pl_icon :: "string option"
  pl_device_class :: "string option"

definition build_discovery_topic :: "string \<Rightarrow> string" where
  "build_discovery_topic entity_id = ''homeassistant/sensor/'' @ entity_id @ ''/config''"

definition build_state_topic :: "string \<Rightarrow> string \<Rightarrow> string" where
  "build_state_topic base_topic entity_id = base_topic @ ''/'' @ entity_id @ ''/state''"

text \<open>Line 41: \<open>f"{device_info['name'].lower().replace(' ', '_')}_{key.replace('.', '_')}"\<close>.\<close>

definition entity_id :: "string \<Rightarrow> string \<Rightarrow> string" where
  "entity_id device_name k =
     py_replace (py_lower device_name) '' '' ''_'' @ ''_'' @ py_replace k ''.'' ''_''"

definition build_payload ::
  "string \<Rightarrow> sensor \<Rightarrow> str_dict \<Rightarrow> device_info \<Rightarrow> (discovery_payload \<times> string) option" where
  "build_payload base_topic s ups_data dev =
     (let k = key s in
      case ups_data k of
        None \<Rightarrow> None
      | Some value \<Rightarrow>
          let eid = entity_id (name dev) k in
          Some (\<lparr>pl_name = name dev @ '' '' @ friendly_name s,
                  pl_state_topic = build_state_topic base_topic eid,
                  pl_unique_id = eid,
                  pl_device = dev,
                  pl_unit_of_measurement = unit s,
                  pl_icon = icon s,
                  pl_device_class = device_class s\<rparr>, value))"

definition device_json :: "device_info \<Rightarrow> json" where
  "device_json d =
     JObject [(''identifiers'', JArray (map JString (identifiers d))),
              (''name'', JString (name d)),
              (''model'', JString (model d)),
              (''manufacturer'', JString (manufacturer d)),
              (''sw_version'', JString (sw_version d))]"

definition opt_field :: "string \<Rightarrow> string option \<Rightarrow> (string \<times> json) list" where
  "opt_field k v = (case v of None \<Rightarrow> [] | Some x \<Rightarrow> [(k, JString x)])"

definition payload_json :: "discovery_payload \<Rightarrow> json" where
  "payload_json p =
     JObject ([(''name'', JString (pl_name p)),
               (''state_topic'', JString (pl_state_topic p)),
               (''unique_id'', JString (pl_unique_id p)),
               (''device'', device_json (pl_device p))]
              @ opt_field ''unit_of_measurement'' (pl_unit_of_measurement p)
              @ opt_field ''icon'' (pl_icon p)
              @ opt_field ''device_class'' (pl_device_class p))"

fun json_keys :: "json \<Rightarrow> string list" where
  "json_keys (JObject kvs) = map fst kvs"
| "json_keys _ = []"

text \<open>\<open>str.replace\<close> of one character by the underscore, as a map over the characters.\<close>

definition underscore_of :: "char \<Rightarrow> char \<Rightarrow> char" where
  "underscore_of a c = (if c = a then CHR ''_'' else c)"

text \<open>The specification's formula for the entity id (section 3):
  \<open>lower(device_name) + "_" + key_with_dots_replaced_by_underscores\<close>.\<close>

definition spec_entity_id :: "string \<Rightarrow> string \<Rightarrow> string" where
  "spec_entity_id n k = py_lower n @ ''_'' @ py_replace k ''.'' ''_''"

subsection \<open>Topics, entity ids and payloads\<close>

lemma map_underscore_id: "a \<noteq> CHR ''_'' \<Longrightarrow> map (underscore_of a) xs = xs \<longleftrightarrow> a \<notin> set xs"
  by (induction xs) (auto simp: underscore_of_def)

lemma underscore_dot_eq:
  "underscore_of CHR ''.'' a = underscore_of CHR ''.'' b \<longleftrightarrow> a = b \<or> {a, b} = {CHR ''.'', CHR ''_''}"
  by (auto simp: underscore_of_def doubleton_eq_iff)


lemma entity_id_chars:
  "entity_id n k = map (underscore_of CHR '' '') (py_lower n) @ ''_'' @ map (underscore_of CHR ''.'') k"
  by (simp add: entity_id_def py_replace_char underscore_of_def)

lemma build_state_topic_inj:
  "build_state_topic b e1 = build_state_topic b e2 \<longleftrightarrow> e1 = e2"
  by (simp add: build_state_topic_def)

lemma build_discovery_topic_inj:
  "build_discovery_topic e1 = build_discovery_topic e2 \<longleftrightarrow> e1 = e2"
  by (simp add: build_discovery_topic_def)

lemma discovery_neq_state_topic: "build_discovery_topic e1 \<noteq> build_state_topic b e2"
proof
  assume "build_discovery_topic e1 = build_state_topic b e2"
  then have "last (build_discovery_topic e1) = last (build_state_topic b e2)" by simp
  then show False by (simp add: build_discovery_topic_def build_state_topic_def)
qed

lemma build_payload_Some:
  "build_payload b s d dev = Some (p, v) \<longleftrightarrow>
   d (key s) = Some v \<and>
   p = \<lparr>pl_name = name dev @ '' '' @ friendly_name s,
        pl_state_topic = build_state_topic b (entity_id (name dev) (key s)),
        pl_unique_id = entity_id (name dev) (key s),
        pl_device = dev, pl_unit_of_measurement = unit s, pl_icon = icon s,
        pl_device_class = device_class s\<rparr>"
  by (auto simp: build_payload_def Let_def split: option.splits)

lemma build_payload_absent: "d (key s) = None \<Longrightarrow> build_payload b s d dev = None"
  by (simp add: build_payload_def)

lemma build_payload_present:
  "d (key s) = Some v \<Longrightarrow>
   \<exists>p. build_payload b s d dev = Some (p, v) \<and> pl_unique_id p = entity_id (name dev) (key s)"
  by (simp add: build_payload_def Let_def)

text \<open>C21: a sensor whose key is not in the status dict gives no payload, and every sensor
  whose key is there gives one.\<close>

theorem build_payload_none: "build_payload b s d dev = None \<longleftrightarrow> d (key s) = None"
  by (simp add: build_payload_def Let_def split: option.split)

text \<open>C20: the payload of a sensor carries the value read for its key, its unique id is the
  entity id derived from the device name and the key, and its state topic ends in that same id:
  the unique id, the tracker's key and the state topic's suffix agree.\<close>

theorem build_payload_ids:
  "build_payload b s d dev = Some (p, v) \<Longrightarrow>
   d (key s) = Some v \<and> pl_unique_id p = entity_id (name dev) (key s) \<and>
   pl_state_topic p = build_state_topic b (pl_unique_id p)"
  by (simp add: build_payload_Some)

theorem build_payload_ids_witness:
  "\<exists>p. build_payload ''ups''
          \<lparr>key = ''battery.charge'', friendly_name = ''Battery Charge'', unit = Some ''%'',
           icon = None, device_class = Some ''battery''\<rparr>
          [''battery.charge'' \<mapsto> ''90'']
          \<lparr>identifiers = [''ups''], name = ''Office UPS'', model = ''model'',
           manufacturer = ''manufacturer'', sw_version = ''nut-upsc-bridge-1''\<rparr> = Some (p, ''90'') \<and>
       pl_unique_id p = ''office_ups_battery_charge'' \<and>
       pl_state_topic p = ''ups/office_ups_battery_charge/state''"
proof -
  let ?s = "\<lparr>key = ''battery.charge'', friendly_name = ''Battery Charge'', unit = Some ''%'',
           icon = None, device_class = Some ''battery''\<rparr>"
  let ?d = "\<lparr>identifiers = [''ups''], name = ''Office UPS'', model = ''model'',
           manufacturer = ''manufacturer'', sw_version = ''nut-upsc-bridge-1''\<rparr>"
  obtain p where p: "build_payload ''ups'' ?s [''battery.charge'' \<mapsto> ''90''] ?d = Some (p, ''90'')"
    by (simp add: build_payload_def Let_def)
  from build_payload_ids [OF p] have
    "pl_unique_id p = entity_id ''Office UPS'' ''battery.charge''"
    "pl_state_topic p = build_state_topic ''ups'' (pl_unique_id p)"
    by simp_all
  with p show ?thesis
    by (simp add: entity_id_def build_state_topic_def py_simps)
qed

text \<open>C22: the discovery JSON object has the keys name, state_topic, unique_id and device,
  in this order, followed by unit_of_measurement, icon and device_class each exactly when the
  sensor configures it.\<close>

theorem build_payload_keys:
  "build_payload b s d dev = Some (p, v) \<Longrightarrow>
   json_keys (payload_json p) =
     [''name'', ''state_topic'', ''unique_id'', ''device'']
     @ (if unit s = None then [] else [''unit_of_measurement''])
     @ (if icon s = None then [] else [''icon''])
     @ (if device_class s = None then [] else [''device_class''])"
  by (auto simp: build_payload_Some payload_json_def opt_field_def split: option.split)

theorem build_payload_keys_witness:
  "\<exists>p. build_payload ''ups''
          \<lparr>key = ''battery.charge'', friendly_name = ''Battery Charge'', unit = Some ''%'',
           icon = None, device_class = Some ''battery''\<rparr>
          [''battery.charge'' \<mapsto> ''90'']
          \<lparr>identifiers = [''ups''], name = ''Office UPS'', model = ''model'',
           manufacturer = ''manufacturer'', sw_version = ''nut-upsc-bridge-1''\<rparr> = Some (p, ''90'') \<and>
       json_keys (payload_json p) =
         [''name'', ''state_topic'', ''unique_id'', ''device'', ''unit_of_measurement'', ''device_class'']"
proof -
  let ?s = "\<lparr>key = ''battery.charge'', friendly_name = ''Battery Charge'', unit = Some ''%'',
           icon = None, device_class = Some ''battery''\<rparr>"
  let ?d = "\<lparr>identifiers = [''ups''], name = ''Office UPS'', model = ''model'',
           manufacturer = ''manufacturer'', sw_version = ''nut-upsc-bridge-1''\<rparr>"
  obtain p where p: "build_payload ''ups'' ?s [''battery.charge'' \<mapsto> ''90''] ?d = Some (p, ''90'')"
    by (simp add: build_payload_def Let_def)
  with build_payload_keys [OF p] show ?thesis by auto
qed

text \<open>C23: the code's entity id agrees with the specification's formula exactly for device
  names without a space: line 41 also replaces the spaces of the lower-cased device name by
  underscores, which the formula leaves out (the specification's own example, \<open>Office UPS\<close>
  giving \<open>office_ups_battery_charge\<close>, follows the code).\<close>

theorem entity_id_spec_divergence:
  "entity_id n k = spec_entity_id n k \<longleftrightarrow> CHR '' '' \<notin> set n"
  by (simp add: entity_id_chars spec_entity_id_def py_replace_char underscore_of_def [symmetric]
      map_underscore_id space_in_lower)

text \<open>C24: on one device two keys give the same entity id exactly when they have the same
  length and differ only at positions where one has a dot and the other an underscore: those
  are the sensors that share a state topic and a tracker entry.\<close>

theorem entity_id_collision:
  "entity_id n k1 = entity_id n k2 \<longleftrightarrow>
   length k1 = length k2 \<and> (\<forall>i<length k1. k1 ! i = k2 ! i \<or> {k1 ! i, k2 ! i} = {CHR ''.'', CHR ''_''})"
proof -
  have "entity_id n k1 = entity_id n k2 \<longleftrightarrow> map (underscore_of CHR ''.'') k1 = map (underscore_of CHR ''.'') k2"
    by (simp add: entity_id_chars)
  also have "\<dots> \<longleftrightarrow> length k1 = length k2 \<and>
      (\<forall>i<length k1. k1 ! i = k2 ! i \<or> {k1 ! i, k2 ! i} = {CHR ''.'', CHR ''_''})"
    by (simp add: list_eq_iff_nth_eq underscore_dot_eq cong: conj_cong)
  finally show ?thesis .
qed




lemma length_entity_id: "length (entity_id n k) = length n + 1 + length k"
  by (simp add: entity_id_def py_replace_char py_lower_def)

theorem entity_id_spec_divergence_witness:
  "entity_id ''Office UPS'' ''battery.charge'' \<noteq> spec_entity_id ''Office UPS'' ''battery.charge''"
  using entity_id_spec_divergence [of "''Office UPS''" "''battery.charge''"] by simp

theorem entity_id_collision_witness:
  "entity_id ''UPS'' ''a.b'' = entity_id ''UPS'' ''a_b''"
  using entity_id_collision [of "''UPS''" "''a.b''" "''a_b''"]
  by (simp add: less_Suc_eq numeral_3_eq_3 doubleton_eq_iff)

end
