(* ===== verification/Change_Tracker.thy ===== *)
theory Change_Tracker
  imports Prelude
begin

text \<open>
  The change tracker of \<open>main\<close> in \<open>src/ha-ups-mqtt.py\<close>: the dict \<open>last_values\<close>
  (line 86) from entity id to the last state value published, the test
  \<open>last_values.get(entity_id) != value\<close> (line 105) and the update
  \<open>last_values[entity_id] = value\<close> (line 107). \<open>track\<close> is the two together, as the
  loop body runs them for one sensor; \<open>track_seq\<close> runs it over the successive values one
  entity takes in successive cycles.
\<close>

type_synonym last_values = str_dict

definition should_publish :: "last_values \<Rightarrow> string \<Rightarrow> string \<Rightarrow> bool" where
  "should_publish last_values eid value \<longleftrightarrow> last_values eid \<noteq> Some value"

definition record_value :: "last_values \<Rightarrow> string \<Rightarrow> string \<Rightarrow> last_values" where
  "record_value last_values eid value = last_values(eid \<mapsto> value)"

definition track :: "last_values \<Rightarrow> string \<Rightarrow> string \<Rightarrow> bool \<times> last_values" where
  "track lv eid value =
     (if should_publish lv eid value then (True, record_value lv eid value) else (False, lv))"

fun track_seq :: "last_values \<Rightarrow> string \<Rightarrow> string list \<Rightarrow> bool list" where
  "track_seq lv eid [] = []"
| "track_seq lv eid (v # vs) = (let (b, lv') = track lv eid v in b # track_seq lv' eid vs)"

text \<open>The promise of the specification: a publish on the first value and on every value
  that differs from the one before it.\<close>

definition changed_at :: "string list \<Rightarrow> nat \<Rightarrow> bool" where
  "changed_at vs i \<longleftrightarrow> i = 0 \<or> vs ! i \<noteq> vs ! (i - 1)"

subsection \<open>Behaviour over a sequence of values\<close>

lemma track_after: "snd (track lv eid v) eid = Some v"
  by (simp add: track_def should_publish_def record_value_def)

lemma track_other: "e \<noteq> eid \<Longrightarrow> snd (track lv eid v) e = lv e"
  by (simp add: track_def record_value_def)

lemma track_seq_from:
  "track_seq lv eid vs =
     map (\<lambda>i. (if i = 0 then lv eid else Some (vs ! (i - 1))) \<noteq> Some (vs ! i)) [0..<length vs]"
proof (induction vs arbitrary: lv)
  case Nil
  then show ?case by simp
next
  case (Cons v vs)
  let ?lv = "snd (track lv eid v)"
  have hd: "fst (track lv eid v) = (lv eid \<noteq> Some v)"
    by (simp add: track_def should_publish_def)
  have "track_seq lv eid (v # vs) = fst (track lv eid v) # track_seq ?lv eid vs"
    by (simp add: case_prod_beta)
  also have "\<dots> = (lv eid \<noteq> Some v) #
      map (\<lambda>i. (if i = 0 then Some v else Some (vs ! (i - 1))) \<noteq> Some (vs ! i)) [0..<length vs]"
    using Cons.IH [of ?lv] by (simp add: hd track_after)
  also have "\<dots> = map (\<lambda>i. (if i = 0 then lv eid else Some ((v # vs) ! (i - 1))) \<noteq> Some ((v # vs) ! i))
      [0..<length (v # vs)]"
    by (simp add: map_upt_Suc del: upt_Suc)
  finally show ?case .
qed

text \<open>C17: for every sequence of values one entity takes, starting from an empty
  \<open>last_values\<close>, the tracker asks for a state publish exactly at the first value and at
  every value that differs from the previous one.\<close>

theorem track_seq_changed:
  "track_seq Map.empty eid vs = map (changed_at vs) [0..<length vs]"
  by (auto simp: track_seq_from changed_at_def intro!: map_cong)

end
