(* ===== verification/Bus.thy ===== *)
theory Bus
  imports Prelude
begin

text \<open>
  The message bus as the bridge sees it through paho-mqtt's \<open>client.publish(topic, payload,
  retain=True)\<close> (lines 102 and 106 of \<open>src/ha-ups-mqtt.py\<close>), with QoS 0. The client and
  the broker are not code of the repository; their behaviour is taken from paho-mqtt's
  documentation and the MQTT 3.1.1 standard: a publish while the client is disconnected
  returns \<open>MQTT_ERR_NO_CONN\<close> and the QoS 0 message is dropped; a delivered message with the
  retain flag replaces the broker's retained message for its topic, and one with an empty
  payload removes it. Whether the client is connected is decided by paho's network thread
  (\<open>loop_start\<close>), outside the poll loop.
\<close>

record message =
  topic :: string
  payload :: string
  retain :: bool

datatype mqtt_rc = MQTT_ERR_SUCCESS | MQTT_ERR_NO_CONN

record bus_state =
  connected :: bool
  retained :: "string \<rightharpoonup> string"
  delivered :: "message list"

definition retain_update :: "message \<Rightarrow> (string \<rightharpoonup> string) \<Rightarrow> (string \<rightharpoonup> string)" where
  "retain_update m r =
     (if \<not> retain m then r
      else if payload m = [] then r(topic m := None)
      else r(topic m \<mapsto> payload m))"

definition publish :: "bus_state \<Rightarrow> message \<Rightarrow> mqtt_rc \<times> bus_state" where
  "publish b m =
     (if connected b
      then (MQTT_ERR_SUCCESS,
            b\<lparr>retained := retain_update m (retained b), delivered := delivered b @ [m]\<rparr>)
      else (MQTT_ERR_NO_CONN, b))"

text \<open>The bridge discards the result of every \<open>publish\<close> call.\<close>

fun publish_all :: "bus_state \<Rightarrow> message list \<Rightarrow> bus_state" where
  "publish_all b [] = b"
| "publish_all b (m # ms) = publish_all (snd (publish b m)) ms"

text \<open>The argument checks of paho-mqtt 2.x \<open>Client.publish\<close>, made before it looks at the
  connection: an empty topic, a topic with a wildcard \<open>+\<close> or \<open>#\<close>, a topic longer
  than 65535 bytes or a payload longer than 268435455 bytes in UTF-8 raise \<open>ValueError\<close>.\<close>

definition utf8_len :: "string \<Rightarrow> nat" where
  "utf8_len s = sum_list (map (\<lambda>c. if (of_char c :: nat) < 128 then 1 else 2) s)"

definition publish_check :: "message \<Rightarrow> py_error option" where
  "publish_check m =
     (if topic m = [] then Some ValueError
      else if CHR ''+'' \<in> set (topic m) \<or> CHR ''#'' \<in> set (topic m) then Some ValueError
      else if 65535 < utf8_len (topic m) then Some ValueError
      else if 268435455 < utf8_len (payload m) then Some ValueError
      else None)"

lemma publish_connected [simp]: "connected (snd (publish b m)) = connected b"
  by (simp add: publish_def)

lemma publish_all_connected [simp]: "connected (publish_all b ms) = connected b"
  by (induction ms arbitrary: b) simp_all

lemma publish_all_append:
  "publish_all b (ms @ ns) = publish_all (publish_all b ms) ns"
  by (induction ms arbitrary: b) simp_all

lemma publish_all_disconnected: "\<not> connected b \<Longrightarrow> publish_all b ms = b"
  by (induction ms arbitrary: b) (simp_all add: publish_def)

lemma publish_retained:
  "connected b \<Longrightarrow> retained (snd (publish b m)) = retain_update m (retained b)"
  by (simp add: publish_def)

lemma utf8_len_le: "utf8_len s \<le> 2 * length s"
  by (induction s) (auto simp: utf8_len_def)

end
