(* ===== verification/Poll_Loop.thy ===== *)
theory Poll_Loop
  imports Status_Reader Field_Mapper Change_Tracker Bus
begin

text \<open>
  \<open>main\<close> of \<open>src/ha-ups-mqtt.py\<close> (lines 59-109): the configuration, the device info
  and client settings built from it, and the poll loop. The configuration file is read by
  \<open>load_config\<close>; here it is a record \<open>config\<close> whose optional keys (read with
  \<open>.get\<close>) are options. The body of \<open>while True\<close> is \<open>poll_cycle\<close>: one call of
  \<open>read_ups\<close>, the \<open>for\<close> loop over the sensors (\<open>poll_sensors\<close>, one equation per
  branch of its body) and the sleep. The loop never ends by itself; \<open>run_loop\<close> runs it over
  the outcomes of the \<open>upsc\<close> calls of any finite number of cycles and stops early only when
  an exception escapes \<open>read_ups\<close> or \<open>time.sleep\<close> (\<open>time_sleep\<close>: CPython's
  \<open>OverflowError\<close> for an interval beyond 9223372036 seconds, which does not fit in
  nanoseconds of an int64), which ends the process. What the loop does is a list of
  events: publish calls and sleeps. The bus receives the publishes through \<open>publish_all\<close>,
  and the loop never looks at what the bus answers.
\<close>

record mqtt_conf =
  broker :: string
  port :: nat
  base_topic :: string
  client_id :: "string option"
  username :: "string option"
  password :: "string option"

record ups_conf =
  ups_name :: string
  ups_friendly_name :: string
  ups_sw_version :: "string option"
  poll_interval :: "nat option"

record config =
  mqtt :: mqtt_conf
  ups :: ups_conf
  sensors :: "sensor list"

text \<open>Lines 66-72.\<close>

definition device_info_of :: "ups_conf \<Rightarrow> device_info" where
  "device_info_of u =
     \<lparr>identifiers = [ups_name u],
      name = ups_friendly_name u,
      model = ''model'',
      manufacturer = ''manufacturer'',
      sw_version = (case ups_sw_version u of None \<Rightarrow> ''nut-upsc-bridge-1'' | Some v \<Rightarrow> v)\<rparr>"

text \<open>Lines 74-83: the client id, the credentials (set only when both the user name and the
  password are present and non-empty, Python's truth test on strings), the broker address
  and the keep-alive of 60 seconds.\<close>

record client_settings =
  cs_client_id :: string
  cs_credentials :: "(string \<times> string) option"
  cs_host :: string
  cs_port :: nat
  cs_keepalive :: nat

definition client_settings_of :: "mqtt_conf \<Rightarrow> client_settings" where
  "client_settings_of m =
     \<lparr>cs_client_id = (case client_id m of None \<Rightarrow> [] | Some c \<Rightarrow> c),
      cs_credentials =
        (case (username m, password m) of
           (Some u, Some p) \<Rightarrow> if u \<noteq> [] \<and> p \<noteq> [] then Some (u, p) else None
         | _ \<Rightarrow> None),
      cs_host = broker m,
      cs_port = port m,
      cs_keepalive = 60\<rparr>"

text \<open>Line 109: \<open>ups_conf.get("poll_interval", 30)\<close>.\<close>

definition poll_seconds :: "ups_conf \<Rightarrow> nat" where
  "poll_seconds u = (case poll_interval u of None \<Rightarrow> 30 | Some n \<Rightarrow> n)"

datatype event = Publish message | Sleep nat

definition discovery_message :: "discovery_payload \<Rightarrow> message" where
  "discovery_message p =
     \<lparr>topic = build_discovery_topic (pl_unique_id p), payload = json_dumps (payload_json p),
      retain = True\<rparr>"

definition state_message :: "string \<Rightarrow> string \<Rightarrow> string \<Rightarrow> message" where
  "state_message base eid value = \<lparr>topic = build_state_topic base eid, payload = value, retain = True\<rparr>"

text \<open>Lines 91-107, the \<open>for\<close> loop over the configured sensors.\<close>

fun poll_sensors ::
  "string \<Rightarrow> device_info \<Rightarrow> str_dict \<Rightarrow> sensor list \<Rightarrow> last_values \<Rightarrow> message list \<times> last_values"
where
  "poll_sensors base dev ups_data [] lv = ([], lv)"
| "poll_sensors base dev ups_data (s # ss) lv =
     (case build_payload base s ups_data dev of
        None \<Rightarrow> poll_sensors base dev ups_data ss lv
      | Some (p, value) \<Rightarrow>
          let eid = pl_unique_id p;
              disc = discovery_message p
          in if lv eid \<noteq> Some value
             then (let (ms, lv') = poll_sensors base dev ups_data ss (lv(eid \<mapsto> value))
                   in (disc # state_message base eid value # ms, lv'))
             else (let (ms, lv') = poll_sensors base dev ups_data ss lv
                   in (disc # ms, lv')))"

text \<open>Line 109, \<open>time.sleep(secs)\<close> on an \<open>int\<close> (CPython 3.11,
  \<open>_PyTime_FromSecondsObject\<close>): the seconds are first converted to nanoseconds in a
  signed 64-bit \<open>_PyTime_t\<close>, which raises \<open>OverflowError\<close> when
  \<open>secs * 10^9\<close> leaves the range, that is when \<open>secs\<close> is above
  \<open>9223372036\<close> or below \<open>-9223372036\<close>; only then is a negative value rejected with
  \<open>ValueError\<close>.\<close>

definition sleep_limit :: int where
  "sleep_limit = 9223372036"

definition time_sleep :: "int \<Rightarrow> nat py_result" where
  "time_sleep i =
     (if sleep_limit < i \<or> i < - sleep_limit then Inl OverflowError
      else if i < 0 then Inl ValueError
      else Inr (nat i))"

text \<open>Lines 89-109, one iteration of \<open>while True\<close>. An exception ends the process after the
  publishes made before it, so a cycle returns its events together with either the new
  \<open>last_values\<close> or the exception: the \<open>upsc\<close> call raises before anything is published,
  the sleep after all the publishes of the cycle.\<close>

definition poll_cycle ::
  "config \<Rightarrow> device_info \<Rightarrow> run_result \<Rightarrow> last_values \<Rightarrow> event list \<times> last_values py_result"
where
  "poll_cycle c dev r lv =
     (case read_ups r of
        Inl e \<Rightarrow> ([], Inl e)
      | Inr ups_data \<Rightarrow>
          let (ms, lv') = poll_sensors (base_topic (mqtt c)) dev ups_data (sensors c) lv
          in case time_sleep (int (poll_seconds (ups c))) of
               Inl e \<Rightarrow> (map Publish ms, Inl e)
             | Inr n \<Rightarrow> (map Publish ms @ [Sleep n], Inr lv'))"

datatype loop_status = Running last_values | Crashed py_error

fun run_loop ::
  "config \<Rightarrow> device_info \<Rightarrow> run_result list \<Rightarrow> last_values \<Rightarrow> event list \<times> loop_status"
where
  "run_loop c dev [] lv = ([], Running lv)"
| "run_loop c dev (r # rs) lv =
     (case poll_cycle c dev r lv of
        (evs, Inl e) \<Rightarrow> (evs, Crashed e)
      | (evs, Inr lv') \<Rightarrow> let (evs', st) = run_loop c dev rs lv' in (evs @ evs', st))"

text \<open>Lines 60-88 and the loop: the device info and the empty \<open>last_values\<close> of the start,
  then the cycles.\<close>

definition bridge_main :: "config \<Rightarrow> run_result list \<Rightarrow> event list \<times> loop_status" where
  "bridge_main c rs = run_loop c (device_info_of (ups c)) rs Map.empty"

fun published :: "event list \<Rightarrow> message list" where
  "published [] = []"
| "published (Publish m # evs) = m # published evs"
| "published (Sleep n # evs) = published evs"

text \<open>The poll intervals that \<open>time.sleep\<close> accepts.\<close>

definition interval_ok :: "ups_conf \<Rightarrow> bool" where
  "interval_ok u \<longleftrightarrow> int (poll_seconds u) \<le> sleep_limit"

subsection \<open>What a cycle promises\<close>

text \<open>The specification of one pass over the sensors (section 4.5 of the specification),
  stated without the loop: every sensor with data gets its discovery message, followed by its
  state message when the value differs from the one \<open>last_values\<close> held when the pass
  began; afterwards \<open>last_values\<close> holds the values of the sensors with data.\<close>

definition sensor_eid :: "device_info \<Rightarrow> sensor \<Rightarrow> string" where
  "sensor_eid dev s = entity_id (name dev) (key s)"

definition present_sensors :: "str_dict \<Rightarrow> sensor list \<Rightarrow> sensor list" where
  "present_sensors d ss = filter (\<lambda>s. d (key s) \<noteq> None) ss"

definition distinct_ids :: "device_info \<Rightarrow> str_dict \<Rightarrow> sensor list \<Rightarrow> bool" where
  "distinct_ids dev d ss \<longleftrightarrow> distinct (map (sensor_eid dev) (present_sensors d ss))"

definition sensor_messages ::
  "string \<Rightarrow> device_info \<Rightarrow> str_dict \<Rightarrow> last_values \<Rightarrow> sensor \<Rightarrow> message list" where
  "sensor_messages base dev d lv s =
     (case build_payload base s d dev of
        None \<Rightarrow> []
      | Some (p, v) \<Rightarrow>
          discovery_message p #
          (if lv (pl_unique_id p) \<noteq> Some v then [state_message base (pl_unique_id p) v] else []))"

definition cycle_messages ::
  "string \<Rightarrow> device_info \<Rightarrow> str_dict \<Rightarrow> last_values \<Rightarrow> sensor list \<Rightarrow> message list" where
  "cycle_messages base dev d lv ss = concat (map (sensor_messages base dev d lv) ss)"

definition discovery_messages ::
  "string \<Rightarrow> device_info \<Rightarrow> str_dict \<Rightarrow> sensor list \<Rightarrow> message list" where
  "discovery_messages base dev d ss =
     concat (map (\<lambda>s. case build_payload base s d dev of
                        None \<Rightarrow> [] | Some (p, v) \<Rightarrow> [discovery_message p]) ss)"

definition status_updates :: "device_info \<Rightarrow> str_dict \<Rightarrow> sensor list \<Rightarrow> (string \<times> string) list" where
  "status_updates dev d ss = List.map_filter (\<lambda>s. map_option (\<lambda>v. (sensor_eid dev s, v)) (d (key s))) ss"

definition cycle_store :: "device_info \<Rightarrow> str_dict \<Rightarrow> sensor list \<Rightarrow> last_values \<Rightarrow> last_values" where
  "cycle_store dev d ss lv = lv ++ map_of (rev (status_updates dev d ss))"

text \<open>The agreement between \<open>last_values\<close> and the retained state messages of the broker:
  every value the tracker remembers is the retained message of its state topic (an empty value
  is no retained message, as MQTT removes the retained message on an empty payload).\<close>

definition retained_consistent :: "string \<Rightarrow> bus_state \<Rightarrow> last_values \<Rightarrow> bool" where
  "retained_consistent base b lv \<longleftrightarrow>
     (\<forall>e v. lv e = Some v \<longrightarrow>
        retained b (build_state_topic base e) = (if v = [] then None else Some v))"

fun is_sleep :: "event \<Rightarrow> bool" where
  "is_sleep (Sleep n) = True"
| "is_sleep (Publish m) = False"

subsection \<open>Properties of the poll loop\<close>

lemma poll_sensors_absent:
  "poll_sensors base dev d ss lv = poll_sensors base dev d (present_sensors d ss) lv"
  unfolding present_sensors_def
proof (induction ss arbitrary: lv)
  case Nil
  then show ?case by simp
next
  case (Cons s ss)
  show ?case
  proof (cases "d (key s)")
    case None
    with Cons show ?thesis by (simp add: build_payload_absent)
  next
    case (Some v)
    then obtain p where "build_payload base s d dev = Some (p, v)"
      using build_payload_present by blast
    with Some Cons show ?thesis by (simp add: Let_def fun_upd_def)
  qed
qed

lemma cycle_messages_cong:
  "(\<And>s. s \<in> set (present_sensors d ss) \<Longrightarrow> lv1 (sensor_eid dev s) = lv2 (sensor_eid dev s)) \<Longrightarrow>
   cycle_messages base dev d lv1 ss = cycle_messages base dev d lv2 ss"
  unfolding cycle_messages_def present_sensors_def
  by (induction ss)
     (auto simp: sensor_messages_def build_payload_def sensor_eid_def Let_def split: option.splits)

lemma status_updates_Cons:
  "status_updates dev d (s # ss) =
     (case d (key s) of None \<Rightarrow> status_updates dev d ss
      | Some v \<Rightarrow> (sensor_eid dev s, v) # status_updates dev d ss)"
  by (simp add: status_updates_def List.map_filter_def split: option.split)

lemma cycle_store_Cons:
  "d (key s) = Some v \<Longrightarrow> cycle_store dev d (s # ss) lv = cycle_store dev d ss (lv(sensor_eid dev s \<mapsto> v))"
  by (simp add: cycle_store_def status_updates_Cons map_add_def fun_eq_iff split: option.split)

lemma cycle_store_Cons_None:
  "d (key s) = None \<Longrightarrow> cycle_store dev d (s # ss) lv = cycle_store dev d ss lv"
  by (simp add: cycle_store_def status_updates_Cons)

lemma poll_sensors_pass:
  "distinct_ids dev d ss \<Longrightarrow>
   poll_sensors base dev d ss lv = (cycle_messages base dev d lv ss, cycle_store dev d ss lv)"
proof (induction ss arbitrary: lv)
  case Nil
  then show ?case by (simp add: cycle_messages_def cycle_store_def status_updates_def)
next
  case (Cons s ss)
  show ?case
  proof (cases "d (key s)")
    case None
    with Cons show ?thesis
      by (simp add: build_payload_absent cycle_store_Cons_None cycle_messages_def sensor_messages_def
          distinct_ids_def present_sensors_def)
  next
    case (Some v)
    let ?e = "sensor_eid dev s"
    obtain p where p: "build_payload base s d dev = Some (p, v)" and e: "pl_unique_id p = ?e"
      using build_payload_present [of d s v base dev] Some by (auto simp: sensor_eid_def)
    from Cons.prems Some have dist: "distinct_ids dev d ss"
      by (simp add: distinct_ids_def present_sensors_def)
    from Cons.prems Some have notin: "?e \<notin> set (map (sensor_eid dev) (present_sensors d ss))"
      by (simp add: distinct_ids_def present_sensors_def)
    have fresh: "sensor_eid dev s' \<noteq> ?e" if "s' \<in> set (present_sensors d ss)" for s'
      using that notin by (metis image_eqI set_map)
    have same: "cycle_messages base dev d (lv(?e \<mapsto> v)) ss = cycle_messages base dev d lv ss"
      by (rule cycle_messages_cong) (use fresh in auto)
    show ?thesis
    proof (cases "lv ?e = Some v")
      case True
      then have "lv(?e \<mapsto> v) = lv" by auto
      with True Cons.IH [OF dist] show ?thesis
        by (simp add: p e cycle_messages_def sensor_messages_def cycle_store_Cons Some)
    next
      case False
      have ih: "poll_sensors base dev d ss (lv(?e \<mapsto> v)) =
          (cycle_messages base dev d lv ss, cycle_store dev d ss (lv(?e \<mapsto> v)))"
        using Cons.IH [OF dist, of "lv(?e \<mapsto> v)"] same by (simp add: fun_upd_def)
      from False show ?thesis
        by (simp add: p e ih Let_def cycle_messages_def sensor_messages_def cycle_store_Cons Some)
    qed
  qed
qed

text \<open>C1: when the sensors with data have distinct entity ids, one pass of the loop over the
  sensors does what the specification describes: in configuration order, each sensor with
  data gets its discovery message and then, if its value differs from the value remembered at
  the start of the pass, its state message; sensors without data get nothing; and
  \<open>last_values\<close> ends up holding every value read.\<close>

theorem poll_sensors_refines:
  "distinct_ids dev d ss \<Longrightarrow>
   poll_sensors base dev d ss lv = (cycle_messages base dev d lv ss, cycle_store dev d ss lv)"
  by (rule poll_sensors_pass)

lemma status_updates_Nil [simp]: "status_updates dev d [] = []"
  by (simp add: status_updates_def List.map_filter_def)

lemma status_updates_keys:
  "map fst (status_updates dev d ss) = map (sensor_eid dev) (present_sensors d ss)"
  by (induction ss) (auto simp: status_updates_Cons present_sensors_def split: option.split)

lemma cycle_store_present:
  assumes "distinct_ids dev d ss" and "s \<in> set ss" and "d (key s) = Some v"
  shows "cycle_store dev d ss lv (sensor_eid dev s) = Some v"
proof -
  have dist: "distinct (map fst (rev (status_updates dev d ss)))"
    using assms(1) by (simp add: status_updates_keys distinct_ids_def rev_map [symmetric])
  have "(sensor_eid dev s, v) \<in> set (rev (status_updates dev d ss))"
    using assms(2,3) by (force simp: status_updates_def List.map_filter_def)
  with dist have "map_of (rev (status_updates dev d ss)) (sensor_eid dev s) = Some v"
    by (rule map_of_is_SomeI)
  then show ?thesis by (simp add: cycle_store_def)
qed

lemma cycle_store_idem: "cycle_store dev d ss (cycle_store dev d ss lv) = cycle_store dev d ss lv"
  by (simp add: cycle_store_def map_add_def fun_eq_iff split: option.split)

lemma cycle_messages_seen:
  "(\<And>s v. s \<in> set ss \<Longrightarrow> d (key s) = Some v \<Longrightarrow> lv (sensor_eid dev s) = Some v) \<Longrightarrow>
   cycle_messages base dev d lv ss = discovery_messages base dev d ss"
proof (induction ss)
  case Nil
  then show ?case by (simp add: cycle_messages_def discovery_messages_def)
next
  case (Cons s ss)
  then have IH: "cycle_messages base dev d lv ss = discovery_messages base dev d ss" by simp
  show ?case
  proof (cases "d (key s)")
    case None
    with IH show ?thesis
      by (simp add: cycle_messages_def discovery_messages_def sensor_messages_def build_payload_absent)
  next
    case (Some v)
    then obtain p where p: "build_payload base s d dev = Some (p, v)" and e: "pl_unique_id p = sensor_eid dev s"
      using build_payload_present [of d s v base dev] by (auto simp: sensor_eid_def)
    from Cons.prems Some have "lv (sensor_eid dev s) = Some v" by simp
    with IH p e show ?thesis
      by (simp add: cycle_messages_def discovery_messages_def sensor_messages_def)
  qed
qed

lemma poll_sensors_repeat:
  assumes "distinct_ids dev d ss"
  shows "poll_sensors base dev d ss (snd (poll_sensors base dev d ss lv)) =
           (discovery_messages base dev d ss, snd (poll_sensors base dev d ss lv))"
proof -
  let ?lv1 = "cycle_store dev d ss lv"
  have snd1: "snd (poll_sensors base dev d ss lv) = ?lv1"
    using poll_sensors_pass [OF assms] by simp
  have "cycle_messages base dev d ?lv1 ss = discovery_messages base dev d ss"
    using cycle_store_present [OF assms] by (rule cycle_messages_seen)
  then show ?thesis
    using poll_sensors_pass [OF assms, of base ?lv1] by (simp add: snd1 cycle_store_idem)
qed

text \<open>C2: deduplication is stable: when the sensors with data have distinct entity ids, a
  second pass over the same status dict publishes only the discovery messages, one per sensor
  with data, and no state message, and leaves \<open>last_values\<close> unchanged.\<close>

theorem poll_sensors_dedup:
  assumes "distinct_ids dev d ss"
  shows "poll_sensors base dev d ss (snd (poll_sensors base dev d ss lv)) =
           (discovery_messages base dev d ss, snd (poll_sensors base dev d ss lv))"
  using assms by (rule poll_sensors_repeat)

lemma json_dumps_nonempty: "json_dumps j \<noteq> []"
  by (cases j) (simp_all add: json_str_def)

lemma consistent_discovery:
  assumes "connected b" and "retained_consistent base b lv"
  shows "retained_consistent base (snd (publish b (discovery_message p))) lv"
  using assms discovery_neq_state_topic [symmetric]
  by (simp add: retained_consistent_def publish_retained retain_update_def discovery_message_def
      json_dumps_nonempty)

lemma consistent_state:
  assumes "connected b" and "retained_consistent base b lv"
  shows "retained_consistent base (snd (publish b (state_message base e v))) (lv(e \<mapsto> v))"
  using assms
  by (auto simp: retained_consistent_def publish_retained retain_update_def state_message_def
      build_state_topic_inj)

lemma poll_sensors_consistent:
  assumes "connected b" and "retained_consistent base b lv"
  shows "retained_consistent base (publish_all b (fst (poll_sensors base dev d ss lv)))
           (snd (poll_sensors base dev d ss lv))"
  using assms
proof (induction ss arbitrary: lv b)
  case Nil
  then show ?case by simp
next
  case (Cons s ss)
  show ?case
  proof (cases "build_payload base s d dev")
    case None
    with Cons show ?thesis by simp
  next
    case (Some pv)
    obtain p v where pv: "pv = (p, v)" by fastforce
    let ?e = "pl_unique_id p"
    let ?b1 = "snd (publish b (discovery_message p))"
    have c1: "connected ?b1" and r1: "retained_consistent base ?b1 lv"
      using Cons.prems consistent_discovery by simp_all
    show ?thesis
    proof (cases "lv ?e = Some v")
      case True
      with Cons.IH [OF c1 r1] Some pv show ?thesis by (simp add: Let_def case_prod_beta)
    next
      case False
      let ?b2 = "snd (publish ?b1 (state_message base ?e v))"
      have c2: "connected ?b2" and r2: "retained_consistent base ?b2 (lv(?e \<mapsto> v))"
        using c1 r1 consistent_state by simp_all
      with Cons.IH [OF c2 r2] False Some pv show ?thesis
        by (simp add: Let_def case_prod_beta fun_upd_def)
    qed
  qed
qed

lemma time_sleep_ok: "interval_ok u \<Longrightarrow> time_sleep (int (poll_seconds u)) = Inr (poll_seconds u)"
  by (simp add: interval_ok_def time_sleep_def sleep_limit_def)

lemma time_sleep_over: "\<not> interval_ok u \<Longrightarrow> time_sleep (int (poll_seconds u)) = Inl OverflowError"
  by (simp add: interval_ok_def time_sleep_def sleep_limit_def)

lemma poll_sensors_empty: "poll_sensors base dev Map.empty ss lv = ([], lv)"
  by (subst poll_sensors_absent) (simp add: present_sensors_def)


lemma poll_cycle_completed:
  "interval_ok (ups c) \<Longrightarrow>
   \<exists>evs lv'. poll_cycle c dev (Completed rc out) lv = (evs, Inr lv') \<and> length (filter is_sleep evs) = 1"
  by (cases "rc = 0")
     (auto simp: poll_cycle_def read_ups_def parse_lines_spec case_prod_beta filter_map comp_def
        time_sleep_ok)



text \<open>C12: a poll interval that \<open>time.sleep\<close> rejects (9223372037 seconds or more) is not
  noticed at the start: the first cycle whose \<open>upsc\<close> call returns makes all its publishes
  and then ends the process with \<open>OverflowError\<close>, so no second cycle runs.\<close>

theorem run_loop_interval_overflow:
  assumes "\<not> interval_ok (ups c)" and "read_ups r = Inr d"
  shows "run_loop c dev (r # rs) lv =
           (map Publish (fst (poll_sensors (base_topic (mqtt c)) dev d (sensors c) lv)), Crashed OverflowError)"
  using assms by (simp add: poll_cycle_def time_sleep_over case_prod_beta)

text \<open>C32: the client is given credentials exactly when the configuration has both a user
  name and a password and neither is empty.\<close>

theorem client_credentials:
  "cs_credentials (client_settings_of m) = Some (u, p) \<longleftrightarrow>
   username m = Some u \<and> password m = Some p \<and> u \<noteq> [] \<and> p \<noteq> []"
  by (auto simp: client_settings_of_def split: option.splits)

lemma published_append [simp]: "published (evs @ evs') = published evs @ published evs'"
  by (induction evs rule: published.induct) simp_all

lemma published_map_Publish [simp]: "published (map Publish ms) = ms"
  by (induction ms) simp_all

lemma poll_cycle_Inr:
  "poll_cycle c dev r lv = (evs, Inr lv') \<Longrightarrow>
   \<exists>d. evs = map Publish (fst (poll_sensors (base_topic (mqtt c)) dev d (sensors c) lv)) @
          [Sleep (poll_seconds (ups c))] \<and>
        lv' = snd (poll_sensors (base_topic (mqtt c)) dev d (sensors c) lv)"
  by (auto simp: poll_cycle_def case_prod_beta time_sleep_def split: sum.splits if_splits)

text \<open>C3: over any run of the loop that is still going, if the client was connected for
  all of it, every value in \<open>last_values\<close> is the broker's retained message on its state
  topic: the deduplication never withholds a value that the broker does not already hold.\<close>

theorem run_loop_retained_consistent:
  assumes "connected b" and "retained_consistent (base_topic (mqtt c)) b lv"
    and "run_loop c dev rs lv = (evs, Running lv')"
  shows "retained_consistent (base_topic (mqtt c)) (publish_all b (published evs)) lv'"
  using assms
proof (induction rs arbitrary: b lv evs)
  case Nil
  then show ?case by simp
next
  case (Cons r rs)
  obtain evs1 res where cyc: "poll_cycle c dev r lv = (evs1, res)" by fastforce
  show ?case
  proof (cases res)
    case (Inl e)
    with Cons.prems(3) cyc show ?thesis by simp
  next
    case (Inr lv1)
    obtain evs2 where rest: "run_loop c dev rs lv1 = (evs2, Running lv')" and evs: "evs = evs1 @ evs2"
      using Cons.prems(3) cyc Inr by (auto simp: case_prod_beta split: prod.splits)
        (metis prod.collapse)
    obtain d where evs1: "evs1 = map Publish (fst (poll_sensors (base_topic (mqtt c)) dev d (sensors c) lv)) @
          [Sleep (poll_seconds (ups c))]"
      and lv1: "lv1 = snd (poll_sensors (base_topic (mqtt c)) dev d (sensors c) lv)"
      using poll_cycle_Inr [of c dev r lv evs1 lv1] cyc Inr by blast
    let ?b1 = "publish_all b (published evs1)"
    have "retained_consistent (base_topic (mqtt c)) ?b1 lv1"
      using poll_sensors_consistent [OF Cons.prems(1,2)] by (simp add: evs1 lv1)
    moreover have "connected ?b1" using Cons.prems(1) by simp
    ultimately have "retained_consistent (base_topic (mqtt c)) (publish_all ?b1 (published evs2)) lv'"
      using Cons.IH rest by blast
    then show ?thesis by (simp add: evs publish_all_append)
  qed
qed

subsection \<open>What the loop does to the broker\<close>

lemma retained_untouched:
  "t \<notin> topic ` set ms \<Longrightarrow> retained (publish_all b ms) t = retained b t"
  by (induction ms arbitrary: b) (auto simp: publish_def retain_update_def)

lemma retained_last:
  assumes "connected b" and "retain m" and "topic m \<notin> topic ` set ms2"
  shows "retained (publish_all b (ms1 @ m # ms2)) (topic m) = (if payload m = [] then None else Some (payload m))"
proof -
  let ?b1 = "snd (publish (publish_all b ms1) m)"
  have "retained (publish_all b (ms1 @ m # ms2)) (topic m) = retained ?b1 (topic m)"
    using retained_untouched [OF assms(3)] by (simp add: publish_all_append)
  also have "\<dots> = (if payload m = [] then None else Some (payload m))"
    using assms(1,2) by (simp add: publish_retained retain_update_def)
  finally show ?thesis .
qed

lemma discovery_messages_topics:
  "m \<in> set (discovery_messages base dev d ss) \<Longrightarrow> \<exists>e. topic m = build_discovery_topic e"
  by (auto simp: discovery_messages_def discovery_message_def split: option.splits)

lemma sensor_messages_topics:
  "m \<in> set (sensor_messages base dev d lv s) \<Longrightarrow>
   d (key s) \<noteq> None \<and> (topic m = build_discovery_topic (sensor_eid dev s) \<or>
                      topic m = build_state_topic base (sensor_eid dev s))"
  by (auto simp: sensor_messages_def build_payload_def discovery_message_def state_message_def
      sensor_eid_def Let_def split: option.splits if_splits)

lemma cycle_messages_topics:
  assumes "m \<in> set (cycle_messages base dev d lv ss)"
  shows "\<exists>s\<in>set (present_sensors d ss). topic m = build_discovery_topic (sensor_eid dev s) \<or>
                                   topic m = build_state_topic base (sensor_eid dev s)"
proof -
  obtain s where s: "s \<in> set ss" and m: "m \<in> set (sensor_messages base dev d lv s)"
    using assms by (auto simp: cycle_messages_def)
  have "s \<in> set (present_sensors d ss)"
    using s sensor_messages_topics [OF m] by (simp add: present_sensors_def)
  then show ?thesis using sensor_messages_topics [OF m] by blast
qed

lemma cycle_messages_append:
  "cycle_messages base dev d lv (xs @ ys) = cycle_messages base dev d lv xs @ cycle_messages base dev d lv ys"
  by (simp add: cycle_messages_def)

lemma pass_retained_state:
  assumes dist: "distinct_ids dev d ss" and s: "s \<in> set ss" and v: "d (key s) = Some v"
    and new: "lv (sensor_eid dev s) \<noteq> Some v" and conn: "connected b"
  shows "retained (publish_all b (fst (poll_sensors base dev d ss lv))) (build_state_topic base (sensor_eid dev s)) =
           (if v = [] then None else Some v)"
proof -
  let ?e = "sensor_eid dev s"
  obtain ss1 ss2 where ss: "ss = ss1 @ s # ss2" using split_list [OF s] by blast
  obtain p where p: "build_payload base s d dev = Some (p, v)" and pe: "pl_unique_id p = ?e"
    using build_payload_present [of d s v base dev] v by (auto simp: sensor_eid_def)
  have sm: "sensor_messages base dev d lv s = [discovery_message p, state_message base ?e v]"
    using p pe new by (simp add: sensor_messages_def)
  have "distinct (map (sensor_eid dev) (present_sensors d ss1 @ s # present_sensors d ss2))"
    using dist v by (simp add: distinct_ids_def present_sensors_def ss)
  then have "?e \<notin> sensor_eid dev ` set (present_sensors d ss2)" by simp
  then have fresh: "s' \<in> set (present_sensors d ss2) \<Longrightarrow> sensor_eid dev s' \<noteq> ?e" for s'
    by (metis image_eqI)
  have notin: "build_state_topic base ?e \<notin> topic ` set (cycle_messages base dev d lv ss2)"
  proof
    assume "build_state_topic base ?e \<in> topic ` set (cycle_messages base dev d lv ss2)"
    then obtain m where m: "m \<in> set (cycle_messages base dev d lv ss2)" and t: "topic m = build_state_topic base ?e"
      by (metis imageE)
    from cycle_messages_topics [OF m] obtain s' where s': "s' \<in> set (present_sensors d ss2)"
      and "topic m = build_discovery_topic (sensor_eid dev s') \<or> topic m = build_state_topic base (sensor_eid dev s')"
      by blast
    then show False
      using t fresh [OF s'] discovery_neq_state_topic build_state_topic_inj by metis
  qed
  let ?m = "state_message base ?e v"
  have ms: "fst (poll_sensors base dev d ss lv) =
          (cycle_messages base dev d lv ss1 @ [discovery_message p]) @ ?m # cycle_messages base dev d lv ss2"
    using poll_sensors_pass [OF dist] by (simp add: ss cycle_messages_append sm)
       (simp add: cycle_messages_def sm)
  have "retained (publish_all b ((cycle_messages base dev d lv ss1 @ [discovery_message p]) @
          ?m # cycle_messages base dev d lv ss2)) (topic ?m) =
        (if payload ?m = [] then None else Some (payload ?m))"
    by (rule retained_last [OF conn]) (simp_all add: state_message_def notin)
  then show ?thesis by (simp add: ms state_message_def)
qed

text \<open>C14: a pass made while the client is disconnected reaches no broker, yet
  \<open>last_values\<close> records every value read; the next pass over the same data, connected or
  not, publishes no state message, so the state topic of a sensor keeps whatever the broker
  held before: the update is lost until the value changes.\<close>

theorem disconnect_loses_update:
  assumes "distinct_ids dev d ss" and "s \<in> set ss" and "d (key s) = Some v" and "\<not> connected b"
  shows "publish_all b (fst (poll_sensors base dev d ss lv)) = b \<and>
         snd (poll_sensors base dev d ss lv) (sensor_eid dev s) = Some v \<and>
         retained (publish_all b' (fst (poll_sensors base dev d ss (snd (poll_sensors base dev d ss lv)))))
           (build_state_topic base (sensor_eid dev s)) =
         retained b' (build_state_topic base (sensor_eid dev s))"
proof (intro conjI)
  show "publish_all b (fst (poll_sensors base dev d ss lv)) = b"
    using assms(4) by (rule publish_all_disconnected)
  show "snd (poll_sensors base dev d ss lv) (sensor_eid dev s) = Some v"
    using poll_sensors_pass [OF assms(1)] cycle_store_present [OF assms(1-3)] by simp
  have "build_state_topic base (sensor_eid dev s) \<notin> topic ` set (discovery_messages base dev d ss)"
    using discovery_messages_topics discovery_neq_state_topic by (metis imageE)
  then show "retained (publish_all b' (fst (poll_sensors base dev d ss (snd (poll_sensors base dev d ss lv)))))
      (build_state_topic base (sensor_eid dev s)) = retained b' (build_state_topic base (sensor_eid dev s))"
    using poll_sensors_repeat [OF assms(1)] by (simp add: retained_untouched)
qed

text \<open>C15: a status line with nothing after the colon gives the empty value; when it is new, a
  connected pass publishes it as a retained state message with an empty payload, which under
  MQTT 3.1.1 deletes the broker's retained state of the sensor, while \<open>last_values\<close>
  records the empty value.\<close>

theorem empty_value_clears_state:
  assumes "distinct_ids dev d ss" and "s \<in> set ss" and "d (key s) = Some []"
    and "lv (sensor_eid dev s) \<noteq> Some []" and "connected b"
  shows "retained (publish_all b (fst (poll_sensors base dev d ss lv))) (build_state_topic base (sensor_eid dev s)) = None \<and>
         snd (poll_sensors base dev d ss lv) (sensor_eid dev s) = Some []"
  using pass_retained_state [where d = d and s = s and dev = dev and lv = lv, OF assms] poll_sensors_pass [OF assms(1)] cycle_store_present [OF assms(1-3)]
  by simp

lemma collide_pass:
  assumes e: "sensor_eid dev sb = sensor_eid dev sa" and va: "d (key sa) = Some va"
    and vb: "d (key sb) = Some vb" and ne: "va \<noteq> vb" and lv: "lv (sensor_eid dev sa) \<noteq> Some va"
  shows "\<exists>pa pb. poll_sensors base dev d [sa, sb] lv =
           ([discovery_message pa, state_message base (sensor_eid dev sa) va,
             discovery_message pb, state_message base (sensor_eid dev sa) vb],
            lv(sensor_eid dev sa \<mapsto> vb))"
proof -
  obtain pa where pa: "build_payload base sa d dev = Some (pa, va)" "pl_unique_id pa = sensor_eid dev sa"
    using build_payload_present [of d sa va base dev] va by (auto simp: sensor_eid_def)
  obtain pb where pb: "build_payload base sb d dev = Some (pb, vb)" "pl_unique_id pb = sensor_eid dev sa"
    using build_payload_present [of d sb vb base dev] vb e by (auto simp: sensor_eid_def)
  show ?thesis using pa pb lv ne by (auto simp: Let_def)
qed

text \<open>C16: two sensors whose keys give the same entity id (such as \<open>a.b\<close> and \<open>a_b\<close>)
  and that read different values make the loop flap: unless the first value is already
  recorded, every pass over the same data, the first and each later one, publishes both values
  to the shared state topic, the first sensor's then the second's, so the deduplication never
  takes effect and the retained state alternates.\<close>

theorem collision_flaps:
  assumes "sensor_eid dev s2 = sensor_eid dev s1" and "d (key s1) = Some v1"
    and "d (key s2) = Some v2" and "v1 \<noteq> v2" and "lv (sensor_eid dev s1) \<noteq> Some v1"
  shows "filter (\<lambda>m. topic m = build_state_topic base (sensor_eid dev s1))
           (fst (poll_sensors base dev d [s1, s2] (((\<lambda>l. snd (poll_sensors base dev d [s1, s2] l)) ^^ n) lv))) =
         [state_message base (sensor_eid dev s1) v1, state_message base (sensor_eid dev s1) v2]"
proof -
  let ?f = "\<lambda>l. snd (poll_sensors base dev d [s1, s2] l)"
  have inv: "(?f ^^ n) lv (sensor_eid dev s1) \<noteq> Some v1"
  proof (induction n)
    case 0
    then show ?case using assms(5) by simp
  next
    case (Suc n)
    then show ?case using collide_pass [where d = d and dev = dev and sa = s1 and sb = s2 and lv = "(?f ^^ n) lv", OF assms(1-4) Suc.IH, of base] assms(4) by auto
  qed
  obtain p1 p2 where "poll_sensors base dev d [s1, s2] ((?f ^^ n) lv) =
           ([discovery_message p1, state_message base (sensor_eid dev s1) v1,
             discovery_message p2, state_message base (sensor_eid dev s1) v2],
            ((?f ^^ n) lv)(sensor_eid dev s1 \<mapsto> v2))"
    using collide_pass [where d = d and dev = dev and sa = s1 and sb = s2 and lv = "(?f ^^ n) lv", OF assms(1-4) inv, of base] by blast
  then show ?thesis
    by (simp add: discovery_message_def state_message_def discovery_neq_state_topic)
qed

end
