(* ===== verification/Loop_Machine.thy ===== *)
theory Loop_Machine
  imports Poll_Loop
begin

text \<open>
  The poll loop of \<open>main\<close> (\<open>src/ha-ups-mqtt.py\<close>, lines 86-109) as a state machine
  whose steps are the single statements that change state or talk to the outside: the
  \<open>upsc\<close> call, one sensor's discovery publish, its dedup test with the state publish and
  the update of \<open>last_values\<close>, the end of the \<open>for\<close> loop and the sleep. The phase
  records where the program counter is: \<open>Reading\<close> at the top of \<open>while True\<close> (the
  specification's IDLE state when the timer has expired), \<open>Publishing\<close> and
  \<open>Checking\<close> inside the \<open>for\<close> loop (POLLING), \<open>Sleeping\<close> at line 109, and
  \<open>Aborted\<close> once an exception has escaped. The outcome of the \<open>upsc\<close> call is chosen
  by the environment, so the steps are an inductive relation. Each step is labelled with the
  events it emits. Proved: an invariant of every
  reachable state by rule induction, and that every finite run of \<open>run_loop\<close> of
  \<open>Poll_Loop\<close> is a run of the machine with the same events.
\<close>

datatype phase =
    Reading
  | Publishing str_dict "sensor list"
  | Checking str_dict "sensor list" string string
  | Sleeping
  | Aborted py_error

record loop_state =
  phase :: phase
  seen :: last_values

inductive loop_step ::
  "config \<Rightarrow> device_info \<Rightarrow> loop_state \<Rightarrow> event list \<Rightarrow> loop_state \<Rightarrow> bool"
  for c :: config and dev :: device_info
where
  read_ok:
    "read_ups r = Inr d \<Longrightarrow>
     loop_step c dev \<lparr>phase = Reading, seen = lv\<rparr> []
       \<lparr>phase = Publishing d (sensors c), seen = lv\<rparr>"
| read_raise:
    "read_ups r = Inl e \<Longrightarrow>
     loop_step c dev \<lparr>phase = Reading, seen = lv\<rparr> [] \<lparr>phase = Aborted e, seen = lv\<rparr>"
| skip:
    "build_payload (base_topic (mqtt c)) s d dev = None \<Longrightarrow>
     loop_step c dev \<lparr>phase = Publishing d (s # ss), seen = lv\<rparr> []
       \<lparr>phase = Publishing d ss, seen = lv\<rparr>"
| discover:
    "build_payload (base_topic (mqtt c)) s d dev = Some (p, v) \<Longrightarrow>
     loop_step c dev \<lparr>phase = Publishing d (s # ss), seen = lv\<rparr>
       [Publish (discovery_message p)]
       \<lparr>phase = Checking d ss (pl_unique_id p) v, seen = lv\<rparr>"
| changed:
    "lv e \<noteq> Some v \<Longrightarrow>
     loop_step c dev \<lparr>phase = Checking d ss e v, seen = lv\<rparr>
       [Publish (state_message (base_topic (mqtt c)) e v)]
       \<lparr>phase = Publishing d ss, seen = lv(e \<mapsto> v)\<rparr>"
| unchanged:
    "lv e = Some v \<Longrightarrow>
     loop_step c dev \<lparr>phase = Checking d ss e v, seen = lv\<rparr> []
       \<lparr>phase = Publishing d ss, seen = lv\<rparr>"
| finish:
    "loop_step c dev \<lparr>phase = Publishing d [], seen = lv\<rparr> [] \<lparr>phase = Sleeping, seen = lv\<rparr>"
| sleep:
    "time_sleep (int (poll_seconds (ups c))) = Inr n \<Longrightarrow>
     loop_step c dev \<lparr>phase = Sleeping, seen = lv\<rparr> [Sleep n] \<lparr>phase = Reading, seen = lv\<rparr>"
| sleep_raise:
    "time_sleep (int (poll_seconds (ups c))) = Inl e \<Longrightarrow>
     loop_step c dev \<lparr>phase = Sleeping, seen = lv\<rparr> [] \<lparr>phase = Aborted e, seen = lv\<rparr>"

text \<open>Runs of the machine, with the events of all their steps.\<close>

inductive loop_steps ::
  "config \<Rightarrow> device_info \<Rightarrow> loop_state \<Rightarrow> event list \<Rightarrow> loop_state \<Rightarrow> bool"
  for c :: config and dev :: device_info
where
  refl: "loop_steps c dev s [] s"
| step: "loop_step c dev s evs t \<Longrightarrow> loop_steps c dev t evs' u \<Longrightarrow> loop_steps c dev s (evs @ evs') u"

definition initial_state :: loop_state where
  "initial_state = \<lparr>phase = Reading, seen = Map.empty\<rparr>"

definition reachable :: "config \<Rightarrow> device_info \<Rightarrow> loop_state \<Rightarrow> bool" where
  "reachable c dev s \<longleftrightarrow> (\<exists>evs. loop_steps c dev initial_state evs s)"

text \<open>The entity ids the configuration can produce on this device.\<close>

definition config_ids :: "config \<Rightarrow> device_info \<Rightarrow> string set" where
  "config_ids c dev = sensor_eid dev ` set (sensors c)"

text \<open>The invariant: \<open>last_values\<close> only tracks entity ids of configured sensors, the sensors
  still to visit are a suffix of the configuration, and a pending dedup test is about the
  entity id of a configured sensor.\<close>

definition suffix_of :: "'a list \<Rightarrow> 'a list \<Rightarrow> bool" where
  "suffix_of xs ys \<longleftrightarrow> length xs \<le> length ys \<and> drop (length ys - length xs) ys = xs"

fun phase_ok :: "config \<Rightarrow> device_info \<Rightarrow> phase \<Rightarrow> bool" where
  "phase_ok c dev (Publishing d ss) \<longleftrightarrow> suffix_of ss (sensors c)"
| "phase_ok c dev (Checking d ss e v) \<longleftrightarrow> suffix_of ss (sensors c) \<and> e \<in> config_ids c dev"
| "phase_ok c dev _ \<longleftrightarrow> True"

definition machine_inv :: "config \<Rightarrow> device_info \<Rightarrow> loop_state \<Rightarrow> bool" where
  "machine_inv c dev s \<longleftrightarrow> dom (seen s) \<subseteq> config_ids c dev \<and> phase_ok c dev (phase s)"

lemma loop_steps_trans:
  "loop_steps c dev s evs t \<Longrightarrow> loop_steps c dev t evs' u \<Longrightarrow> loop_steps c dev s (evs @ evs') u"
  by (induction rule: loop_steps.induct) (auto intro: loop_steps.step)

lemma loop_steps_one: "loop_step c dev s evs t \<Longrightarrow> loop_steps c dev s evs t"
  using loop_steps.step [OF _ loop_steps.refl] by fastforce

lemma suffix_of_refl [simp]: "suffix_of xs xs"
  by (simp add: suffix_of_def)

lemma suffix_of_Cons:
  assumes "suffix_of (x # xs) ys"
  shows "x \<in> set ys \<and> suffix_of xs ys"
proof -
  let ?k = "length ys - length (x # xs)"
  from assms have le: "Suc (length xs) \<le> length ys" and d: "drop ?k ys = x # xs"
    by (simp_all add: suffix_of_def)
  have "x \<in> set (drop ?k ys)" using d by simp
  then have "x \<in> set ys" by (rule in_set_dropD)
  moreover have "drop (Suc ?k) ys = xs" using d by (metis drop_Suc list.sel(3) tl_drop)
  moreover have "Suc ?k = length ys - length xs" using le by simp
  ultimately show ?thesis using le by (simp add: suffix_of_def)
qed

lemma loop_step_inv:
  assumes "loop_step c dev s evs t" and "machine_inv c dev s"
  shows "machine_inv c dev t"
  using assms
proof (induction rule: loop_step.induct)
  case (read_ok r d lv)
  then show ?case by (simp add: machine_inv_def)
next
  case (read_raise r e lv)
  then show ?case by (simp add: machine_inv_def)
next
  case (skip s d ss lv)
  then show ?case by (auto simp: machine_inv_def dest: suffix_of_Cons)
next
  case (discover s d p v ss lv)
  then have "s \<in> set (sensors c)" and "suffix_of ss (sensors c)"
    by (auto simp: machine_inv_def dest: suffix_of_Cons)
  moreover have "pl_unique_id p = sensor_eid dev s"
    using discover.hyps by (auto simp: build_payload_def Let_def sensor_eid_def split: option.splits)
  ultimately show ?case using discover.prems by (simp add: machine_inv_def config_ids_def)
next
  case (changed lv e v d ss)
  then show ?case by (auto simp: machine_inv_def)
next
  case (unchanged lv e v d ss)
  then show ?case by (simp add: machine_inv_def)
next
  case (finish d lv)
  then show ?case by (simp add: machine_inv_def)
next
  case (sleep n lv)
  then show ?case by (simp add: machine_inv_def)
next
  case (sleep_raise e lv)
  then show ?case by (simp add: machine_inv_def)
qed

lemma loop_steps_inv:
  "loop_steps c dev s evs t \<Longrightarrow> machine_inv c dev s \<Longrightarrow> machine_inv c dev t"
  by (induction rule: loop_steps.induct) (auto dest: loop_step_inv)

lemma initial_inv [simp]: "machine_inv c dev initial_state"
  by (simp add: machine_inv_def initial_state_def)

text \<open>C9: Every state the loop reaches from its start satisfies the invariant: \<open>last_values\<close> holds only entity ids of configured sensors, the sensors still to visit are a suffix of the configuration and a pending dedup test concerns a configured sensor.\<close>

theorem reachable_inv: "reachable c dev s \<Longrightarrow> machine_inv c dev s"
  unfolding reachable_def using loop_steps_inv initial_inv by blast

lemma pass_steps:
  "loop_steps c dev \<lparr>phase = Publishing d ss, seen = lv\<rparr>
     (map Publish (fst (poll_sensors (base_topic (mqtt c)) dev d ss lv)))
     \<lparr>phase = Publishing d [], seen = snd (poll_sensors (base_topic (mqtt c)) dev d ss lv)\<rparr>"
proof (induction ss arbitrary: lv)
  case Nil
  then show ?case by (simp add: loop_steps.refl)
next
  case (Cons s ss)
  let ?b = "base_topic (mqtt c)"
  show ?case
  proof (cases "build_payload ?b s d dev")
    case None
    then show ?thesis using loop_steps.step [OF loop_step.skip Cons.IH] by simp
  next
    case (Some pv)
    obtain p v where pv: "pv = (p, v)" by fastforce
    note disc = loop_step.discover [OF Some [unfolded pv]]
    show ?thesis
    proof (cases "lv (pl_unique_id p) = Some v")
      case True
      then show ?thesis using Some pv
        loop_steps.step [OF disc loop_steps.step [OF loop_step.unchanged [where lv = lv and e = "pl_unique_id p", OF True] Cons.IH]]
        by (simp add: case_prod_beta)
    next
      case False
      then show ?thesis using Some pv
        loop_steps.step [OF disc loop_steps.step [OF loop_step.changed [where lv = lv and e = "pl_unique_id p", OF False] Cons.IH]]
        by (simp add: case_prod_beta Let_def fun_upd_def)
    qed
  qed
qed

lemma pass_to_sleep:
  "loop_steps c dev \<lparr>phase = Publishing d ss, seen = lv\<rparr>
     (map Publish (fst (poll_sensors (base_topic (mqtt c)) dev d ss lv)))
     \<lparr>phase = Sleeping, seen = snd (poll_sensors (base_topic (mqtt c)) dev d ss lv)\<rparr>"
  using loop_steps_trans [OF pass_steps loop_steps_one [OF loop_step.finish]] by simp

lemma poll_cycle_sleeps:
  "poll_cycle c dev r lv = (evs, Inr lv') \<Longrightarrow>
   \<exists>d n. read_ups r = Inr d \<and> time_sleep (int (poll_seconds (ups c))) = Inr n \<and>
     evs = map Publish (fst (poll_sensors (base_topic (mqtt c)) dev d (sensors c) lv)) @ [Sleep n] \<and>
     lv' = snd (poll_sensors (base_topic (mqtt c)) dev d (sensors c) lv)"
  by (auto simp: poll_cycle_def case_prod_beta split: sum.splits)

lemma cycle_steps:
  assumes "poll_cycle c dev r lv = (evs, Inr lv')"
  shows "loop_steps c dev \<lparr>phase = Reading, seen = lv\<rparr> evs \<lparr>phase = Reading, seen = lv'\<rparr>"
proof -
  obtain d n where d: "read_ups r = Inr d" and n: "time_sleep (int (poll_seconds (ups c))) = Inr n"
    and evs: "evs = map Publish (fst (poll_sensors (base_topic (mqtt c)) dev d (sensors c) lv)) @ [Sleep n]"
    and lv': "lv' = snd (poll_sensors (base_topic (mqtt c)) dev d (sensors c) lv)"
    using poll_cycle_sleeps [OF assms] by blast
  have tail: "loop_steps c dev \<lparr>phase = Sleeping, seen = lv'\<rparr> [Sleep n] \<lparr>phase = Reading, seen = lv'\<rparr>"
    using loop_steps_one [OF loop_step.sleep [OF n]] by simp
  show ?thesis
    using loop_steps.step [OF loop_step.read_ok [OF d] loop_steps_trans [OF pass_to_sleep tail [unfolded lv']]]
    by (simp add: evs lv')
qed

lemma cycle_raise_steps:
  assumes "poll_cycle c dev r lv = (evs, Inl e)"
  shows "\<exists>lv'. loop_steps c dev \<lparr>phase = Reading, seen = lv\<rparr> evs \<lparr>phase = Aborted e, seen = lv'\<rparr>"
proof (cases "read_ups r")
  case (Inl e')
  then show ?thesis using assms
    by (auto simp: poll_cycle_def intro: loop_steps_one loop_step.read_raise)
next
  case (Inr d)
  let ?ps = "poll_sensors (base_topic (mqtt c)) dev d (sensors c) lv"
  have sl: "time_sleep (int (poll_seconds (ups c))) = Inl e" and evs: "evs = map Publish (fst ?ps)"
    using assms Inr by (auto simp: poll_cycle_def case_prod_beta split: sum.splits)
  have "loop_steps c dev \<lparr>phase = Reading, seen = lv\<rparr> ([] @ (map Publish (fst ?ps) @ []))
          \<lparr>phase = Aborted e, seen = snd ?ps\<rparr>"
    using loop_steps.step [OF loop_step.read_ok [OF Inr]
        loop_steps_trans [OF pass_to_sleep loop_steps_one [OF loop_step.sleep_raise [OF sl]]]] .
  then show ?thesis using evs by auto
qed

text \<open>Every finite run of \<open>while True\<close> (\<open>run_loop\<close>, one \<open>poll_cycle\<close> per
  \<open>upsc\<close> outcome) is a run of the statement-level machine from the top of the loop with the
  same events: back at the top of the loop with the same \<open>last_values\<close> while it is
  running, in the aborted state once an exception has escaped. So the invariant of the
  machine holds of every \<open>last_values\<close> the loop of \<open>main\<close> reaches.\<close>

lemma run_loop_simulation:
  "run_loop c dev rs lv = (evs, st) \<Longrightarrow>
   (case st of
      Running lv' \<Rightarrow> loop_steps c dev \<lparr>phase = Reading, seen = lv\<rparr> evs \<lparr>phase = Reading, seen = lv'\<rparr>
    | loop_status.Crashed e \<Rightarrow>
        (\<exists>lv'. loop_steps c dev \<lparr>phase = Reading, seen = lv\<rparr> evs \<lparr>phase = Aborted e, seen = lv'\<rparr>))"
proof (induction rs arbitrary: lv evs st)
  case Nil
  then show ?case by (auto intro: loop_steps.refl)
next
  case (Cons r rs)
  obtain evs1 res where cyc: "poll_cycle c dev r lv = (evs1, res)" by fastforce
  show ?case
  proof (cases res)
    case (Inl e)
    then show ?thesis using Cons.prems cycle_raise_steps [of c dev r lv evs1 e] cyc by auto
  next
    case (Inr lv1)
    obtain evs2 st2 where rest: "run_loop c dev rs lv1 = (evs2, st2)" by fastforce
    have evs: "evs = evs1 @ evs2" and st: "st = st2" using Cons.prems cyc Inr rest by auto
    note first = cycle_steps [OF cyc [unfolded Inr]]
    show ?thesis using Cons.IH [OF rest] unfolding evs st
      by (auto split: loop_status.splits intro: loop_steps_trans [OF first])
  qed
qed

end
