(* ===== verification/Py_Value.thy ===== *)
theory Py_Value
  imports Json
begin

text \<open>
  The Python values that \<open>yaml.safe_load\<close> builds from the configuration file
  (\<open>src/ha-ups-mqtt.py\<close>, \<open>load_config\<close>, lines 11-13) and the operations that
  \<open>main\<close> and \<open>build_payload\<close> apply to them: subscription \<open>d[k]\<close>,
  \<open>d.get(k, default)\<close>, the membership test \<open>k in d\<close>, truth tests, iteration by
  \<open>for\<close>, \<open>str()\<close> as f-strings call it, and \<open>json.dumps\<close>. Each operation has the
  CPython outcome on every kind of value, exceptions included: subscripting something that is
  not a dict with a string raises \<open>TypeError\<close>, \<open>.get\<close> on it raises
  \<open>AttributeError\<close>. A dict is the list of its items in insertion order, with distinct keys
  (YAML mappings with string keys, as in the configuration); floats and non-string keys do
  not occur in the model.
\<close>

datatype pyval =
    PyNone
  | PyBool bool
  | PyInt int
  | PyStr string
  | PyList "pyval list"
  | PyDict "(string \<times> pyval) list"

text \<open>\<open>d[k]\<close> for a string \<open>k\<close>.\<close>

fun py_getitem :: "pyval \<Rightarrow> string \<Rightarrow> pyval py_result" where
  "py_getitem (PyDict kvs) k = (case map_of kvs k of None \<Rightarrow> Inl (KeyError k) | Some v \<Rightarrow> Inr v)"
| "py_getitem _ k = Inl TypeError"

text \<open>\<open>d.get(k, default)\<close>; \<open>d.get(k)\<close> is the default \<open>None\<close>.\<close>

fun py_get :: "pyval \<Rightarrow> string \<Rightarrow> pyval \<Rightarrow> pyval py_result" where
  "py_get (PyDict kvs) k dflt = Inr (case map_of kvs k of None \<Rightarrow> dflt | Some v \<Rightarrow> v)"
| "py_get _ k dflt = Inl AttributeError"

text \<open>\<open>k in v\<close> for a string \<open>k\<close>: a key of a dict, an element of a list, a substring of a
  string; other values are not iterable.\<close>

fun py_contains :: "pyval \<Rightarrow> string \<Rightarrow> bool py_result" where
  "py_contains (PyDict kvs) k = Inr (k \<in> fst ` set kvs)"
| "py_contains (PyList xs) k = Inr (PyStr k \<in> set xs)"
| "py_contains (PyStr s) k = Inr (py_in k s)"
| "py_contains _ k = Inl TypeError"

text \<open>Python's truth value.\<close>

fun py_truthy :: "pyval \<Rightarrow> bool" where
  "py_truthy PyNone = False"
| "py_truthy (PyBool b) = b"
| "py_truthy (PyInt i) = (i \<noteq> 0)"
| "py_truthy (PyStr s) = (s \<noteq> [])"
| "py_truthy (PyList xs) = (xs \<noteq> [])"
| "py_truthy (PyDict kvs) = (kvs \<noteq> [])"

text \<open>What \<open>for x in v\<close> visits: the elements of a list, the keys of a dict, the characters of
  a string.\<close>

fun py_iter :: "pyval \<Rightarrow> pyval list py_result" where
  "py_iter (PyList xs) = Inr xs"
| "py_iter (PyDict kvs) = Inr (map (PyStr \<circ> fst) kvs)"
| "py_iter (PyStr s) = Inr (map (\<lambda>c. PyStr [c]) s)"
| "py_iter _ = Inl TypeError"

text \<open>\<open>repr\<close> of a string, after CPython's \<open>unicode_repr\<close>: single quotes unless the string
  contains a single and no double quote; the quote and the backslash escaped; tab, line feed
  and carriage return as short escapes; other non-printable code points as \<open>\xhh\<close>.
  Between U+0080 and U+00FF the non-printable ones are U+0080-U+00A0 and U+00AD.\<close>

definition hex2 :: "nat \<Rightarrow> string" where
  "hex2 n = [hex_digit (n div 16 mod 16), hex_digit (n mod 16)]"

definition repr_printable :: "char \<Rightarrow> bool" where
  "repr_printable c \<longleftrightarrow>
     (let n = (of_char c :: nat) in (32 \<le> n \<and> n < 127) \<or> (161 \<le> n \<and> n \<noteq> 173))"

definition repr_escape :: "char \<Rightarrow> char \<Rightarrow> string" where
  "repr_escape q c =
     (if c = q \<or> c = CHR 0x5C then [CHR 0x5C, c]
      else if c = CHR 0x09 then [CHR 0x5C, CHR ''t'']
      else if c = CHR 0x0A then [CHR 0x5C, CHR ''n'']
      else if c = CHR 0x0D then [CHR 0x5C, CHR ''r'']
      else if repr_printable c then [c]
      else CHR 0x5C # CHR ''x'' # hex2 (of_char c))"

definition repr_quote :: "string \<Rightarrow> char" where
  "repr_quote s = (if CHR 0x27 \<in> set s \<and> CHR 0x22 \<notin> set s then CHR 0x22 else CHR 0x27)"

definition py_repr_str :: "string \<Rightarrow> string" where
  "py_repr_str s = (let q = repr_quote s in q # concat (map (repr_escape q) s) @ [q])"

fun py_repr :: "pyval \<Rightarrow> string" where
  "py_repr PyNone = ''None''"
| "py_repr (PyBool b) = (if b then ''True'' else ''False'')"
| "py_repr (PyInt i) = py_str_int i"
| "py_repr (PyStr s) = py_repr_str s"
| "py_repr (PyList xs) = ''['' @ join_sep '', '' (map py_repr xs) @ '']''"
| "py_repr (PyDict kvs) =
     ''{'' @ join_sep '', '' (map (\<lambda>(k, v). py_repr_str k @ '': '' @ py_repr v) kvs) @ ''}''"

text \<open>A method of \<open>str\<close> called on a value: other values have no such attribute.\<close>

fun str_method :: "pyval \<Rightarrow> string py_result" where
  "str_method (PyStr s) = Inr s"
| "str_method _ = Inl AttributeError"

text \<open>\<open>str(v)\<close>, which an f-string replacement field \<open>{v}\<close> inserts.\<close>

fun py_format :: "pyval \<Rightarrow> string" where
  "py_format (PyStr s) = s"
| "py_format v = py_repr v"

text \<open>The argument that \<open>json.dumps\<close> serialises.\<close>

fun json_of :: "pyval \<Rightarrow> json" where
  "json_of PyNone = JNull"
| "json_of (PyBool b) = JBool b"
| "json_of (PyInt i) = JInt i"
| "json_of (PyStr s) = JString s"
| "json_of (PyList xs) = JArray (map json_of xs)"
| "json_of (PyDict kvs) = JObject (map (\<lambda>(k, v). (k, json_of v)) kvs)"

text \<open>Optional items of a dict literal built from an option.\<close>

definition opt_item :: "string \<Rightarrow> string option \<Rightarrow> (string \<times> pyval) list" where
  "opt_item k v = (case v of None \<Rightarrow> [] | Some x \<Rightarrow> [(k, PyStr x)])"

lemmas py_value_defs [py_simps] =
  hex2_def repr_printable_def repr_escape_def repr_quote_def py_repr_str_def opt_item_def

lemma py_getitem_Inr:
  "py_getitem v k = Inr x \<longleftrightarrow> (\<exists>kvs. v = PyDict kvs \<and> map_of kvs k = Some x)"
  by (cases v) (auto split: option.splits)

lemma py_getitem_KeyError:
  "py_getitem v k = Inl (KeyError k') \<longleftrightarrow> (\<exists>kvs. v = PyDict kvs \<and> map_of kvs k = None \<and> k' = k)"
  by (cases v) (auto split: option.splits)

lemma map_of_opt_item_other [simp]:
  "k' \<noteq> k \<Longrightarrow> map_of (opt_item k s @ kvs) k' = map_of kvs k'"
  by (simp add: opt_item_def split: option.splits)

lemma repr_example: \<open>py_repr (PyList [PyStr ''it's'', PyInt 3, PyNone]) = ''["it's", 3, None]''\<close>
  by (simp add: py_simps Let_def)

end
