(* ===== verification/Config_Setup.thy ===== *)
theory Config_Setup
  imports Py_Value Poll_Loop
begin

text \<open>
  The start of \<open>main\<close> (\<open>src/ha-ups-mqtt.py\<close>, lines 61-83) on the configuration as
  \<open>yaml.safe_load\<close> returns it, a Python value: the lookups \<open>config["mqtt"]\<close>,
  \<open>config["ups"]\<close>, the device info dict, the client id, the credentials test and the
  broker address, in the order the code evaluates them, each raising what CPython raises on a
  missing key or a value of the wrong kind. The outcome of \<open>client.connect\<close> is an input.
  The encoders \<open>yaml_of_config\<close> and the like write a record of \<open>Poll_Loop\<close> as the
  configuration file it stands for; the refinement lemma shows that on such a file the
  record-level \<open>device_info_of\<close> and \<open>client_settings_of\<close> are what the code computes.
\<close>

text \<open>What lines 61-83 leave behind for the loop.\<close>

record startup =
  su_mqtt :: pyval
  su_ups :: pyval
  su_device :: pyval
  su_client_id :: pyval
  su_credentials :: "(pyval \<times> pyval) option"
  su_broker :: pyval
  su_port :: pyval

text \<open>Lines 80-81: \<open>mqtt_conf.get("username") and mqtt_conf.get("password")\<close>, evaluated
  with short circuit, then the two subscriptions of the arguments of
  \<open>client.username_pw_set\<close>, which (paho-mqtt 2.x) encodes the user name with
  \<open>username.encode("utf-8")\<close>, an \<open>AttributeError\<close> on a value that is not a string,
  and stores a password that is not a string as it is.\<close>

definition credentials :: "pyval \<Rightarrow> (pyval \<times> pyval) option py_result" where
  "credentials mq =
     py_bind (py_get mq ''username'' PyNone) (\<lambda>u.
       if \<not> py_truthy u then Inr None
       else py_bind (py_get mq ''password'' PyNone) (\<lambda>p.
         if \<not> py_truthy p then Inr None
         else py_bind (py_getitem mq ''username'') (\<lambda>u'.
                py_bind (py_getitem mq ''password'') (\<lambda>p'.
                py_bind (str_method u') (\<lambda>_. Inr (Some (u', p')))))))"

text \<open>Lines 61-83 up to the arguments of \<open>client.connect\<close>.\<close>

definition main_setup :: "pyval \<Rightarrow> startup py_result" where
  "main_setup cfg =
     py_bind (py_getitem cfg ''mqtt'') (\<lambda>mq.
     py_bind (py_getitem cfg ''ups'') (\<lambda>uc.
     py_bind (py_getitem uc ''name'') (\<lambda>nm.
     py_bind (py_getitem uc ''friendly_name'') (\<lambda>fn.
     py_bind (py_get uc ''sw_version'' (PyStr ''nut-upsc-bridge-1'')) (\<lambda>sw.
     py_bind (py_get mq ''client_id'' (PyStr '''')) (\<lambda>cid.
     py_bind (credentials mq) (\<lambda>cr.
     py_bind (py_getitem mq ''broker'') (\<lambda>br.
     py_bind (py_getitem mq ''port'') (\<lambda>pt.
       Inr \<lparr>su_mqtt = mq, su_ups = uc,
            su_device = PyDict [(''identifiers'', PyList [nm]), (''name'', fn),
                                (''model'', PyStr ''model''), (''manufacturer'', PyStr ''manufacturer''),
                                (''sw_version'', sw)],
            su_client_id = cid, su_credentials = cr, su_broker = br, su_port = pt\<rparr>)))))))))"

text \<open>Lines 83-84 with the outcome of \<open>client.connect\<close>: \<open>None\<close> when it returns, the
  exception it raises otherwise (a refused or unreachable broker raises \<open>OSError\<close>);
  \<open>client.loop_start()\<close> only starts paho's network thread and raises nothing.\<close>

definition main_start :: "pyval \<Rightarrow> py_error option \<Rightarrow> startup py_result" where
  "main_start cfg conn = py_bind (main_setup cfg) (\<lambda>su. case conn of None \<Rightarrow> Inr su | Some e \<Rightarrow> Inl e)"

subsection \<open>The configuration file of a record\<close>

definition yaml_of_sensor :: "sensor \<Rightarrow> pyval" where
  "yaml_of_sensor s =
     PyDict ([(''key'', PyStr (key s)), (''friendly_name'', PyStr (friendly_name s))]
             @ opt_item ''unit'' (unit s) @ opt_item ''icon'' (icon s)
             @ opt_item ''device_class'' (device_class s))"

definition yaml_of_mqtt :: "mqtt_conf \<Rightarrow> pyval" where
  "yaml_of_mqtt m =
     PyDict ([(''broker'', PyStr (broker m)), (''port'', PyInt (int (port m))),
              (''base_topic'', PyStr (base_topic m))]
             @ opt_item ''client_id'' (client_id m) @ opt_item ''username'' (username m)
             @ opt_item ''password'' (password m))"

definition yaml_of_ups :: "ups_conf \<Rightarrow> pyval" where
  "yaml_of_ups u =
     PyDict ([(''name'', PyStr (ups_name u)), (''friendly_name'', PyStr (ups_friendly_name u))]
             @ opt_item ''sw_version'' (ups_sw_version u)
             @ (case poll_interval u of None \<Rightarrow> [] | Some n \<Rightarrow> [(''poll_interval'', PyInt (int n))]))"

definition yaml_of_config :: "config \<Rightarrow> pyval" where
  "yaml_of_config c =
     PyDict [(''mqtt'', yaml_of_mqtt (mqtt c)), (''ups'', yaml_of_ups (ups c)),
             (''sensors'', PyList (map yaml_of_sensor (sensors c)))]"

definition pyval_of_device :: "device_info \<Rightarrow> pyval" where
  "pyval_of_device d =
     PyDict [(''identifiers'', PyList (map PyStr (identifiers d))), (''name'', PyStr (name d)),
             (''model'', PyStr (model d)), (''manufacturer'', PyStr (manufacturer d)),
             (''sw_version'', PyStr (sw_version d))]"

definition setup_of :: "config \<Rightarrow> startup" where
  "setup_of c =
     (let cs = client_settings_of (mqtt c) in
      \<lparr>su_mqtt = yaml_of_mqtt (mqtt c), su_ups = yaml_of_ups (ups c),
       su_device = pyval_of_device (device_info_of (ups c)),
       su_client_id = PyStr (cs_client_id cs),
       su_credentials = map_option (\<lambda>(u, p). (PyStr u, PyStr p)) (cs_credentials cs),
       su_broker = PyStr (cs_host cs), su_port = PyInt (int (cs_port cs))\<rparr>)"

lemmas yaml_defs [model_simps] =
  yaml_of_sensor_def yaml_of_mqtt_def yaml_of_ups_def yaml_of_config_def pyval_of_device_def

lemma credentials_yaml:
  "credentials (yaml_of_mqtt m) =
     Inr (map_option (\<lambda>(u, p). (PyStr u, PyStr p)) (cs_credentials (client_settings_of m)))"
  by (auto simp: credentials_def yaml_of_mqtt_def client_settings_of_def opt_item_def
           split: option.splits)

lemma main_setup_yaml: "main_setup (yaml_of_config c) = Inr (setup_of c)"
  by (simp add: main_setup_def setup_of_def credentials_yaml yaml_of_config_def
      yaml_of_ups_def device_info_of_def pyval_of_device_def opt_item_def Let_def
      split: option.splits)
      (simp add: yaml_of_mqtt_def client_settings_of_def opt_item_def split: option.splits)

text \<open>C29: On the configuration file of any configuration record, the start of \<open>main\<close> with
  a successful \<open>client.connect\<close> computes exactly the record-level device info
  (\<open>device_info_of\<close>) and client settings (\<open>client_settings_of\<close>): the same client
  id, credentials, broker and port.\<close>

theorem main_start_refines: "main_start (yaml_of_config c) None = Inr (setup_of c)"
  by (simp add: main_start_def main_setup_yaml)

end
