(* ===== verification/Dict_Loop.thy ===== *)
theory Dict_Loop
  imports Config_Setup
begin

text \<open>
  \<open>build_payload\<close> (\<open>src/ha-ups-mqtt.py\<close>, lines 34-57) and the loop of \<open>main\<close>
  (lines 88-109) on the configuration as a Python value, with every lookup that can raise:
  \<open>config["sensors"]\<close> and the iteration over it, \<open>sensor["key"]\<close>, the hash of the
  key in \<open>ups_data.get\<close>, \<open>.lower()\<close> of the device name,
  \<open>sensor["friendly_name"]\<close>, \<open>config["mqtt"]["base_topic"]\<close>, the optional keys and
  the argument of \<open>time.sleep\<close>. An exception in the middle of the \<open>for\<close> loop ends the
  process after the publishes made before it, so a cycle returns its events together with
  either the new \<open>last_values\<close> or the exception. On the configuration file of a record
  (\<open>yaml_of_config\<close>) the whole program is the record-level \<open>bridge_main\<close>.
\<close>

text \<open>\<open>ups_data.get(key)\<close> (line 36): a key that is a list or a dict is unhashable; a key of
  another kind than \<open>str\<close> is hashable and absent, since the keys of \<open>ups_data\<close> are
  strings. The result pairs the key as a string with the value.\<close>

fun data_get :: "str_dict \<Rightarrow> pyval \<Rightarrow> (string \<times> string) option py_result" where
  "data_get d (PyStr k) = Inr (map_option (Pair k) (d k))"
| "data_get d (PyList xs) = Inl TypeError"
| "data_get d (PyDict kvs) = Inl TypeError"
| "data_get d _ = Inr None"

text \<open>Lines 50-55: \<open>if k in sensor: payload[pk] = sensor[k]\<close>.\<close>

definition opt_key :: "pyval \<Rightarrow> string \<Rightarrow> string \<Rightarrow> (string \<times> pyval) list py_result" where
  "opt_key s k pk =
     py_bind (py_contains s k) (\<lambda>b. if b then py_bind (py_getitem s k) (\<lambda>v. Inr [(pk, v)]) else Inr [])"

text \<open>Lines 34-57.\<close>

definition build_payload_py ::
  "pyval \<Rightarrow> pyval \<Rightarrow> str_dict \<Rightarrow> pyval \<Rightarrow> (pyval \<times> string) option py_result"
where
  "build_payload_py cfg s ups_data dev =
     py_bind (py_getitem s ''key'') (\<lambda>k.
     py_bind (data_get ups_data k) (\<lambda>found.
     case found of
       None \<Rightarrow> Inr None
     | Some (ks, value) \<Rightarrow>
         py_bind (py_getitem dev ''name'') (\<lambda>dn.
         py_bind (str_method dn) (\<lambda>dname.
         let eid = entity_id dname ks in
         py_bind (py_getitem s ''friendly_name'') (\<lambda>fn.
         py_bind (py_getitem cfg ''mqtt'') (\<lambda>mq.
         py_bind (py_getitem mq ''base_topic'') (\<lambda>bt.
         py_bind (opt_key s ''unit'' ''unit_of_measurement'') (\<lambda>u.
         py_bind (opt_key s ''icon'' ''icon'') (\<lambda>ic.
         py_bind (opt_key s ''device_class'' ''device_class'') (\<lambda>dc.
           Inr (Some (PyDict ([(''name'', PyStr (py_format dn @ '' '' @ py_format fn)),
                               (''state_topic'', PyStr (build_state_topic (py_format bt) eid)),
                               (''unique_id'', PyStr eid),
                               (''device'', dev)] @ u @ ic @ dc), value))))))))))))"

text \<open>Lines 91-107: the sensor loop. \<open>mq\<close> is \<open>mqtt_conf\<close>, \<open>dev\<close> the device info.\<close>

fun poll_sensors_py ::
  "pyval \<Rightarrow> pyval \<Rightarrow> pyval \<Rightarrow> str_dict \<Rightarrow> pyval list \<Rightarrow> last_values
   \<Rightarrow> message list \<times> last_values py_result"
where
  "poll_sensors_py cfg mq dev d [] lv = ([], Inr lv)"
| "poll_sensors_py cfg mq dev d (s # ss) lv =
     (case build_payload_py cfg s d dev of
        Inl e \<Rightarrow> ([], Inl e)
      | Inr None \<Rightarrow> poll_sensors_py cfg mq dev d ss lv
      | Inr (Some (p, value)) \<Rightarrow>
          (case py_bind (py_getitem p ''unique_id'') (\<lambda>e.
                  py_bind (py_getitem mq ''base_topic'') (\<lambda>bt. Inr (py_format e, py_format bt))) of
             Inl e \<Rightarrow> ([], Inl e)
           | Inr (eid, bt) \<Rightarrow>
               let disc = \<lparr>topic = build_discovery_topic eid, payload = json_dumps (json_of p),
                           retain = True\<rparr>
               in if lv eid \<noteq> Some value
                  then (let (ms, r) = poll_sensors_py cfg mq dev d ss (lv(eid \<mapsto> value))
                        in (disc # state_message bt eid value # ms, r))
                  else (let (ms, r) = poll_sensors_py cfg mq dev d ss lv in (disc # ms, r))))"

text \<open>Line 109: \<open>time.sleep\<close> takes an \<open>int\<close> (or a \<open>bool\<close>, a subclass of
  \<open>int\<close>) with the checks of \<open>time_sleep\<close>, and raises \<open>TypeError\<close> on
  \<open>None\<close>, a string, a list or a dict.\<close>

fun sleep_arg :: "pyval \<Rightarrow> nat py_result" where
  "sleep_arg (PyInt i) = time_sleep i"
| "sleep_arg (PyBool b) = time_sleep (if b then 1 else 0)"
| "sleep_arg _ = Inl TypeError"

text \<open>Lines 89-109, one iteration of \<open>while True\<close>.\<close>

definition poll_cycle_py ::
  "pyval \<Rightarrow> startup \<Rightarrow> run_result \<Rightarrow> last_values \<Rightarrow> event list \<times> last_values py_result"
where
  "poll_cycle_py cfg su r lv =
     (case read_ups r of
        Inl e \<Rightarrow> ([], Inl e)
      | Inr d \<Rightarrow>
          (case py_bind (py_getitem cfg ''sensors'') py_iter of
             Inl e \<Rightarrow> ([], Inl e)
           | Inr ss \<Rightarrow>
               (let (ms, res) = poll_sensors_py cfg (su_mqtt su) (su_device su) d ss lv
                in case res of
                     Inl e \<Rightarrow> (map Publish ms, Inl e)
                   | Inr lv' \<Rightarrow>
                       (case py_bind (py_get (su_ups su) ''poll_interval'' (PyInt 30)) sleep_arg of
                          Inl e \<Rightarrow> (map Publish ms, Inl e)
                        | Inr n \<Rightarrow> (map Publish ms @ [Sleep n], Inr lv')))))"

fun run_loop_py ::
  "pyval \<Rightarrow> startup \<Rightarrow> run_result list \<Rightarrow> last_values \<Rightarrow> event list \<times> loop_status"
where
  "run_loop_py cfg su [] lv = ([], Running lv)"
| "run_loop_py cfg su (r # rs) lv =
     (case poll_cycle_py cfg su r lv of
        (evs, Inl e) \<Rightarrow> (evs, Crashed e)
      | (evs, Inr lv') \<Rightarrow> let (evs', st) = run_loop_py cfg su rs lv' in (evs @ evs', st))"

text \<open>Lines 59-109: the start, then the loop from an empty \<open>last_values\<close>.\<close>

definition bridge_main_py ::
  "pyval \<Rightarrow> py_error option \<Rightarrow> run_result list \<Rightarrow> event list \<times> loop_status"
where
  "bridge_main_py cfg conn rs =
     (case main_start cfg conn of
        Inl e \<Rightarrow> ([], Crashed e)
      | Inr su \<Rightarrow> run_loop_py cfg su rs Map.empty)"

text \<open>The payload dict of a record-level payload.\<close>

definition pyval_of_payload :: "discovery_payload \<Rightarrow> pyval" where
  "pyval_of_payload p =
     PyDict ([(''name'', PyStr (pl_name p)), (''state_topic'', PyStr (pl_state_topic p)),
              (''unique_id'', PyStr (pl_unique_id p)), (''device'', pyval_of_device (pl_device p))]
             @ opt_item ''unit_of_measurement'' (pl_unit_of_measurement p)
             @ opt_item ''icon'' (pl_icon p) @ opt_item ''device_class'' (pl_device_class p))"

text \<open>The configurations on which the code raises nothing of its own: \<open>mqtt\<close> a dict with
  broker, port and base topic and a user name that is a string when it is used, \<open>ups\<close> a
  dict with a name, a string as friendly name and a poll interval that \<open>time.sleep\<close>
  accepts (from 0 to 9223372036 seconds), \<open>sensors\<close> a list of dicts each with a
  hashable key and a friendly name.\<close>

fun hashable :: "pyval \<Rightarrow> bool" where
  "hashable (PyList xs) = False"
| "hashable (PyDict kvs) = False"
| "hashable _ = True"

fun wt_sensor :: "pyval \<Rightarrow> bool" where
  "wt_sensor (PyDict kvs) \<longleftrightarrow>
     (case map_of kvs ''key'' of Some k \<Rightarrow> hashable k | None \<Rightarrow> False) \<and>
     map_of kvs ''friendly_name'' \<noteq> None"
| "wt_sensor _ \<longleftrightarrow> False"

fun wt_interval :: "pyval option \<Rightarrow> bool" where
  "wt_interval None = True"
| "wt_interval (Some (PyInt i)) = (0 \<le> i \<and> i \<le> sleep_limit)"
| "wt_interval (Some (PyBool b)) = True"
| "wt_interval (Some _) = False"

fun is_str :: "pyval option \<Rightarrow> bool" where
  "is_str (Some (PyStr s)) = True"
| "is_str _ = False"

text \<open>A user name that reaches \<open>username.encode\<close> is a string.\<close>

fun wt_username :: "pyval option \<Rightarrow> bool" where
  "wt_username None = True"
| "wt_username (Some u) = (\<not> py_truthy u \<or> is_str (Some u))"

fun wt_mqtt :: "pyval \<Rightarrow> bool" where
  "wt_mqtt (PyDict m) \<longleftrightarrow>
     map_of m ''broker'' \<noteq> None \<and> map_of m ''port'' \<noteq> None \<and> map_of m ''base_topic'' \<noteq> None \<and>
     wt_username (map_of m ''username'')"
| "wt_mqtt _ \<longleftrightarrow> False"

fun wt_ups :: "pyval \<Rightarrow> bool" where
  "wt_ups (PyDict u) \<longleftrightarrow>
     map_of u ''name'' \<noteq> None \<and> is_str (map_of u ''friendly_name'') \<and> wt_interval (map_of u ''poll_interval'')"
| "wt_ups _ \<longleftrightarrow> False"

fun wt_sensors :: "pyval option \<Rightarrow> bool" where
  "wt_sensors (Some (PyList ss)) = list_all wt_sensor ss"
| "wt_sensors _ = False"

fun wt_config :: "pyval \<Rightarrow> bool" where
  "wt_config (PyDict kvs) \<longleftrightarrow>
     (case (map_of kvs ''mqtt'', map_of kvs ''ups'') of
        (Some m, Some u) \<Rightarrow> wt_mqtt m \<and> wt_ups u \<and> wt_sensors (map_of kvs ''sensors'')
      | _ \<Rightarrow> False)"
| "wt_config _ \<longleftrightarrow> False"

lemma json_of_opt_item [simp]:
  "map (\<lambda>(k, v). (k, json_of v)) (opt_item k s) = opt_field k s"
  by (simp add: opt_item_def opt_field_def split: option.splits)

lemma json_of_device [simp]: "json_of (pyval_of_device d) = device_json d"
  by (simp add: pyval_of_device_def device_json_def comp_def)

lemma json_of_payload [simp]: "json_of (pyval_of_payload p) = payload_json p"
  by (simp add: pyval_of_payload_def payload_json_def)

lemma opt_key_sensor:
  assumes "k \<in> {''unit'', ''icon'', ''device_class''}"
  shows "opt_key (yaml_of_sensor s) k pk =
           Inr (opt_item pk (if k = ''unit'' then unit s else if k = ''icon'' then icon s else device_class s))"
  using assms by (auto simp: opt_key_def yaml_of_sensor_def opt_item_def split: option.splits)

lemma getitem_sensor [simp]:
  "py_getitem (yaml_of_sensor s) ''key'' = Inr (PyStr (key s))"
  "py_getitem (yaml_of_sensor s) ''friendly_name'' = Inr (PyStr (friendly_name s))"
  by (simp_all add: yaml_of_sensor_def)

lemma getitem_mqtt_base [simp]:
  "py_getitem (yaml_of_mqtt m) ''base_topic'' = Inr (PyStr (base_topic m))"
  by (simp add: yaml_of_mqtt_def)

lemma getitem_config_mqtt [simp]: "py_getitem (yaml_of_config c) ''mqtt'' = Inr (yaml_of_mqtt (mqtt c))"
  by (simp add: yaml_of_config_def)

text \<open>\<open>build_payload\<close> reads the configuration only through \<open>config["mqtt"]\<close>.\<close>

lemma build_payload_py_refines:
  assumes "py_getitem cfg ''mqtt'' = Inr (yaml_of_mqtt m)"
  shows "build_payload_py cfg (yaml_of_sensor s) d (pyval_of_device dev) =
     Inr (map_option (\<lambda>(p, v). (pyval_of_payload p, v)) (build_payload (base_topic m) s d dev))"
  using assms
  by (auto simp: build_payload_py_def build_payload_def opt_key_sensor
        pyval_of_device_def pyval_of_payload_def Let_def split: option.splits)

lemma getitem_payload_uid [simp]:
  "py_getitem (pyval_of_payload p) ''unique_id'' = Inr (PyStr (pl_unique_id p))"
  by (simp add: pyval_of_payload_def)

lemma poll_sensors_py_refines:
  assumes "py_getitem cfg ''mqtt'' = Inr (yaml_of_mqtt m)"
  shows "poll_sensors_py cfg (yaml_of_mqtt m) (pyval_of_device dev) d (map yaml_of_sensor ss) lv =
     (fst (poll_sensors (base_topic m) dev d ss lv), Inr (snd (poll_sensors (base_topic m) dev d ss lv)))"
proof (induction ss arbitrary: lv)
  case Nil
  then show ?case by simp
next
  case (Cons s ss)
  then show ?case
    by (auto simp: build_payload_py_refines [OF assms] discovery_message_def case_prod_beta Let_def
        fun_upd_def split: option.splits)
qed

lemma setup_of_sel [simp]:
  "su_mqtt (setup_of c) = yaml_of_mqtt (mqtt c)"
  "su_ups (setup_of c) = yaml_of_ups (ups c)"
  "su_device (setup_of c) = pyval_of_device (device_info_of (ups c))"
  by (simp_all add: setup_of_def Let_def)

lemma sensors_yaml [simp]:
  "py_bind (py_getitem (yaml_of_config c) ''sensors'') py_iter = Inr (map yaml_of_sensor (sensors c))"
  by (simp add: yaml_of_config_def)

lemma sleep_yaml [simp]:
  "py_bind (py_get (yaml_of_ups u) ''poll_interval'' (PyInt 30)) sleep_arg = time_sleep (int (poll_seconds u))"
  by (simp add: yaml_of_ups_def poll_seconds_def opt_item_def split: option.splits)

lemma poll_cycle_py_refines:
  "poll_cycle_py (yaml_of_config c) (setup_of c) r lv = poll_cycle c (device_info_of (ups c)) r lv"
  by (simp add: poll_cycle_py_def poll_cycle_def poll_sensors_py_refines case_prod_beta
      split: sum.splits)

lemma run_loop_py_refines:
  "run_loop_py (yaml_of_config c) (setup_of c) rs lv = run_loop c (device_info_of (ups c)) rs lv"
  by (induction rs arbitrary: lv) (simp_all add: poll_cycle_py_refines)


lemma credentials_wt: "wt_mqtt m \<Longrightarrow> \<exists>cr. credentials m = Inr cr"
  by (cases m) (auto simp: credentials_def elim!: is_str.elims split: option.splits)

lemma main_setup_wt:
  assumes "wt_config cfg"
  shows "\<exists>su. main_setup cfg = Inr su \<and> py_getitem cfg ''mqtt'' = Inr (su_mqtt su) \<and>
           wt_mqtt (su_mqtt su) \<and> wt_ups (su_ups su) \<and>
           (\<exists>n. py_getitem (su_device su) ''name'' = Inr (PyStr n))"
proof -
  obtain kvs where cfg: "cfg = PyDict kvs" using assms by (cases cfg) auto
  obtain m0 u0 where m0: "map_of kvs ''mqtt'' = Some m0" and u0: "map_of kvs ''ups'' = Some u0"
    and wm0: "wt_mqtt m0" and wu0: "wt_ups u0"
    using assms unfolding cfg by (auto split: option.splits)
  obtain m where m0m: "m0 = PyDict m" using wm0 by (cases m0) auto
  obtain u where u0u: "u0 = PyDict u" using wu0 by (cases u0) auto
  have m: "map_of kvs ''mqtt'' = Some (PyDict m)" and u: "map_of kvs ''ups'' = Some (PyDict u)"
    and wm: "wt_mqtt (PyDict m)" and wu: "wt_ups (PyDict u)"
    using m0 u0 wm0 wu0 m0m u0u by simp_all
  obtain br pt where br: "map_of m ''broker'' = Some br" and pt: "map_of m ''port'' = Some pt"
    using wm by auto
  obtain nm n where nm: "map_of u ''name'' = Some nm" and n: "map_of u ''friendly_name'' = Some (PyStr n)"
    using wu by (auto elim!: is_str.elims)
  obtain cr where cr: "credentials (PyDict m) = Inr cr" using credentials_wt [OF wm] by blast
  show ?thesis using m u wm wu br pt nm n cr by (simp add: cfg main_setup_def)
qed

lemma opt_key_dict: "\<exists>r. opt_key (PyDict kvs) k pk = Inr r"
  by (auto simp: opt_key_def dest: weak_map_of_SomeI split: option.splits)

lemma build_payload_py_wt:
  assumes "wt_sensor s" and "py_getitem cfg ''mqtt'' = Inr mq" and "wt_mqtt mq"
    and "py_getitem dev ''name'' = Inr (PyStr n)"
  shows "build_payload_py cfg s d dev = Inr None \<or>
         (\<exists>p v. build_payload_py cfg s d dev = Inr (Some (p, v)) \<and>
                (\<exists>e. py_getitem p ''unique_id'' = Inr e))"
proof -
  obtain kvs k where s: "s = PyDict kvs" and k: "map_of kvs ''key'' = Some k" and hk: "hashable k"
    and fn: "map_of kvs ''friendly_name'' \<noteq> None"
    using assms(1) by (cases s) (auto split: option.splits)
  obtain m where mq: "mq = PyDict m" and bt: "map_of m ''base_topic'' \<noteq> None"
    using assms(3) by (cases mq) auto
  obtain r where r: "data_get d k = Inr r" using hk by (cases k) auto
  obtain f where f: "map_of kvs ''friendly_name'' = Some f" using fn by auto
  obtain b where b: "map_of m ''base_topic'' = Some b" using bt by auto
  obtain u ic dc where "opt_key (PyDict kvs) ''unit'' ''unit_of_measurement'' = Inr u"
    "opt_key (PyDict kvs) ''icon'' ''icon'' = Inr ic"
    "opt_key (PyDict kvs) ''device_class'' ''device_class'' = Inr dc"
    using opt_key_dict [of kvs] by metis
  then show ?thesis
    using assms(2,4) r f b
    by (cases r) (auto simp: build_payload_py_def s k mq Let_def)
qed

lemma poll_sensors_py_wt:
  assumes "list_all wt_sensor ss" and "py_getitem cfg ''mqtt'' = Inr mq" and "wt_mqtt mq"
    and "py_getitem dev ''name'' = Inr (PyStr n)"
  shows "\<exists>lv'. snd (poll_sensors_py cfg mq dev d ss lv) = Inr lv'"
  using assms(1)
proof (induction ss arbitrary: lv)
  case Nil
  then show ?case by simp
next
  case (Cons s ss)
  obtain m where mq: "mq = PyDict m" and bt: "map_of m ''base_topic'' \<noteq> None"
    using assms(3) by (cases mq) auto
  from Cons.prems have ws: "wt_sensor s" and wss: "list_all wt_sensor ss" by simp_all
  from build_payload_py_wt [OF ws assms(2,3,4), of d]
  show ?case
  proof
    assume "build_payload_py cfg s d dev = Inr None"
    then show ?thesis using Cons.IH [OF wss] by simp
  next
    assume "\<exists>p v. build_payload_py cfg s d dev = Inr (Some (p, v)) \<and> (\<exists>e. py_getitem p ''unique_id'' = Inr e)"
    then obtain p v e where "build_payload_py cfg s d dev = Inr (Some (p, v))" "py_getitem p ''unique_id'' = Inr e"
      by blast
    then show ?thesis using Cons.IH [OF wss] bt
      by (auto simp: mq case_prod_beta Let_def split: option.splits)
  qed
qed

lemma sensors_wt:
  "wt_sensors (map_of kvs ''sensors'') \<Longrightarrow>
   \<exists>ss. py_bind (py_getitem (PyDict kvs) ''sensors'') py_iter = Inr ss \<and> list_all wt_sensor ss"
  by (cases "map_of kvs ''sensors''" rule: wt_sensors.cases) auto

lemma sleep_wt: "wt_ups u \<Longrightarrow> \<exists>n. py_bind (py_get u ''poll_interval'' (PyInt 30)) sleep_arg = Inr n"
  by (cases u) (auto elim!: wt_interval.elims simp: time_sleep_def sleep_limit_def split: option.splits)

lemma read_ups_Inl: "read_ups r = Inl e \<Longrightarrow> r = Raised e"
  by (cases r) (auto simp: read_ups_def parse_lines_spec split: if_splits)

lemma poll_cycle_py_wt:
  assumes "wt_config cfg" and "main_setup cfg = Inr su" and "py_getitem cfg ''mqtt'' = Inr (su_mqtt su)"
    and "wt_mqtt (su_mqtt su)" and "wt_ups (su_ups su)"
    and "py_getitem (su_device su) ''name'' = Inr (PyStr n)"
    and "poll_cycle_py cfg su r lv = (evs, Inl e)"
  shows "r = Raised e"
proof (cases "read_ups r")
  case (Inl e')
  then show ?thesis using assms(7) read_ups_Inl by (simp add: poll_cycle_py_def)
next
  case (Inr d)
  obtain kvs where cfg: "cfg = PyDict kvs" using assms(1) by (cases cfg) auto
  obtain ss where ss: "py_bind (py_getitem cfg ''sensors'') py_iter = Inr ss" "list_all wt_sensor ss"
    using sensors_wt [of kvs] assms(1) unfolding cfg by (auto split: option.splits)
  obtain lv' where lv': "snd (poll_sensors_py cfg (su_mqtt su) (su_device su) d ss lv) = Inr lv'"
    using poll_sensors_py_wt [OF ss(2) assms(3,4,6)] by blast
  obtain k where k: "py_bind (py_get (su_ups su) ''poll_interval'' (PyInt 30)) sleep_arg = Inr k"
    using sleep_wt [OF assms(5)] by blast
  show ?thesis using assms(7) Inr ss lv' k by (simp add: poll_cycle_py_def case_prod_beta)
qed


text \<open>A sensor whose key the UPS does not report produces nothing and looks at nothing else:
  \<open>build_payload\<close> returns \<open>None\<close> whether or not the sensor has a friendly name, the
  device name is a string or the MQTT settings have a base topic.\<close>

lemma build_payload_py_absent:
  "py_getitem s ''key'' = Inr (PyStr k) \<Longrightarrow> d k = None \<Longrightarrow> build_payload_py cfg s d dev = Inr None"
  by (simp add: build_payload_py_def)

text \<open>C28: A sensor without a friendly name makes \<open>build_payload\<close> raise
  \<open>KeyError('friendly_name')\<close> as soon as the UPS reports its key.\<close>

theorem build_payload_py_missing_name:
  assumes "py_getitem s ''key'' = Inr (PyStr k)" and "py_getitem s ''friendly_name'' = Inl (KeyError ''friendly_name'')"
    and "d k = Some v" and "py_getitem dev ''name'' = Inr (PyStr n)"
  shows "build_payload_py cfg s d dev = Inl (KeyError ''friendly_name'')"
  using assms by (simp add: build_payload_py_def)

text \<open>C27: A configuration without a \<open>sensors\<close> entry starts exactly as one with it, and the
  first cycle whose \<open>upsc\<close> call returns ends the program with \<open>KeyError('sensors')\<close>
  before publishing anything.\<close>

theorem sensors_checked_late:
  assumes "''sensors'' \<notin> fst ` set kvs" and "read_ups r = Inr d"
  shows "main_setup (PyDict (kvs @ [(''sensors'', x)])) = main_setup (PyDict kvs) \<and>
         poll_cycle_py (PyDict kvs) su r lv = ([], Inl (KeyError ''sensors''))"
proof
  have "map_of (kvs @ [(''sensors'', x)]) k = map_of kvs k" if "k \<noteq> ''sensors''" for k
    using that by (simp add: map_add_def split: option.splits)
  then show "main_setup (PyDict (kvs @ [(''sensors'', x)])) = main_setup (PyDict kvs)"
    by (simp add: main_setup_def)
  have "map_of kvs ''sensors'' = None" using assms(1) by (simp add: map_of_eq_None_iff)
  then show "poll_cycle_py (PyDict kvs) su r lv = ([], Inl (KeyError ''sensors''))"
    using assms(2) by (simp add: poll_cycle_py_def)
qed

text \<open>C13: a poll interval that \<open>time.sleep\<close> rejects passes the start unnoticed: a
  cycle whose reading and sensor loop succeed makes all its publishes and then ends the
  program, with \<open>ValueError\<close> for a negative interval down to \<open>-9223372036\<close> and with
  \<open>OverflowError\<close> for one beyond \<open>9223372036\<close> seconds either way, so the loop
  never reaches a second cycle.\<close>

theorem interval_rejected_crash:
  assumes "py_get (su_ups su) ''poll_interval'' (PyInt 30) = Inr (PyInt i)"
    and "\<not> (0 \<le> i \<and> i \<le> sleep_limit)"
    and "read_ups r = Inr d" and "py_bind (py_getitem cfg ''sensors'') py_iter = Inr ss"
    and "snd (poll_sensors_py cfg (su_mqtt su) (su_device su) d ss lv) = Inr lv'"
  shows "poll_cycle_py cfg su r lv =
           (map Publish (fst (poll_sensors_py cfg (su_mqtt su) (su_device su) d ss lv)),
            Inl (if i < 0 \<and> - sleep_limit \<le> i then ValueError else OverflowError))"
  using assms by (auto simp: poll_cycle_py_def case_prod_beta time_sleep_def)

lemma poll_sensors_py_append:
  "poll_sensors_py cfg mq dev d (xs @ ys) lv =
     (case poll_sensors_py cfg mq dev d xs lv of
        (ms, Inl e) \<Rightarrow> (ms, Inl e)
      | (ms, Inr lv') \<Rightarrow> let (ms', r) = poll_sensors_py cfg mq dev d ys lv' in (ms @ ms', r))"
  by (induction xs arbitrary: lv)
     (auto simp: Let_def case_prod_beta split: sum.splits option.splits prod.splits)

text \<open>C26: a sensor without a friendly name is a late configuration error: while the UPS does
  not report its key, the sensor loop runs as if the sensor were not configured; in the first
  pass that finds the key, the loop makes the publishes of the sensors before it and then ends
  the program with \<open>KeyError('friendly_name')\<close>.\<close>

theorem late_config_crash:
  assumes "py_getitem s ''key'' = Inr (PyStr k)"
    and "py_getitem s ''friendly_name'' = Inl (KeyError ''friendly_name'')"
    and "py_getitem dev ''name'' = Inr (PyStr n)"
    and "snd (poll_sensors_py cfg mq dev d ss1 lv) = Inr lv1"
  shows "poll_sensors_py cfg mq dev d (ss1 @ s # ss2) lv =
           (if d k = None then poll_sensors_py cfg mq dev d (ss1 @ ss2) lv
            else (fst (poll_sensors_py cfg mq dev d ss1 lv), Inl (KeyError ''friendly_name'')))"
proof -
  obtain ms1 where p1: "poll_sensors_py cfg mq dev d ss1 lv = (ms1, Inr lv1)"
    using assms(4) by (metis prod.collapse)
  show ?thesis
    using assms(1-3)
    by (simp add: poll_sensors_py_append p1 build_payload_py_def case_prod_beta split: option.splits)
qed

end
