(* ===== verification/Config_Load.thy ===== *)
theory Config_Load
  imports Dict_Loop
begin

text \<open>
  \<open>load_config\<close> (\<open>src/ha-ups-mqtt.py\<close>, lines 9-13) and the entry point (lines 59-61
  and 111-112). The file system and the YAML parser are parameters: \<open>files\<close> gives, for a
  path, nothing when there is no such file (\<open>open\<close> raises \<open>FileNotFoundError\<close>, an
  \<open>OSError\<close>), or the text \<open>open\<close> and \<open>read\<close> deliver, or the exception they raise
  (\<open>PermissionError\<close>, \<open>UnicodeDecodeError\<close>); \<open>yaml_parser\<close> is \<open>yaml.safe_load\<close>,
  returning the Python value of a text or raising \<open>YAMLError\<close>. The lemmas hold for every
  parser; the refinement lemma needs only that the parser reads the configuration file as the
  value the bridge expects.
\<close>

type_synonym files = "string \<rightharpoonup> string py_result"

type_synonym yaml_parser = "string \<Rightarrow> pyval py_result"

text \<open>Line 9.\<close>

definition config_file :: string where
  "config_file = ''config.yaml''"

text \<open>Lines 11-13.\<close>

definition load_config :: "files \<Rightarrow> yaml_parser \<Rightarrow> pyval py_result" where
  "load_config fs parse =
     (case fs config_file of
        None \<Rightarrow> Inl OSError
      | Some content \<Rightarrow> py_bind content parse)"

text \<open>Lines 111-112 calling \<open>main\<close>, whose first statement (line 61) loads the
  configuration; an exception anywhere ends the process with it.\<close>

definition program ::
  "files \<Rightarrow> yaml_parser \<Rightarrow> py_error option \<Rightarrow> run_result list \<Rightarrow> event list \<times> loop_status"
where
  "program fs parse conn rs =
     (case load_config fs parse of
        Inl e \<Rightarrow> ([], Crashed e)
      | Inr cfg \<Rightarrow> bridge_main_py cfg conn rs)"

lemma program_loaded:
  "fs config_file = Some (Inr src) \<Longrightarrow> parse src = Inr cfg \<Longrightarrow>
   program fs parse conn rs = bridge_main_py cfg conn rs"
  by (simp add: program_def load_config_def)

lemma program_load_error:
  "load_config fs parse = Inl e \<Longrightarrow> program fs parse conn rs = ([], Crashed e)"
  by (simp add: program_def)

text \<open>An empty configuration file: \<open>yaml.safe_load\<close> returns \<open>None\<close>, and
  \<open>config["mqtt"]\<close> raises \<open>TypeError\<close> before anything is published or connected.\<close>

lemma program_empty_config:
  "fs config_file = Some (Inr src) \<Longrightarrow> parse src = Inr PyNone \<Longrightarrow>
   program fs parse conn rs = ([], Crashed TypeError)"
  by (simp add: program_loaded bridge_main_py_def main_start_def main_setup_def)

text \<open>For every YAML parser that reads the configuration file as the file of a
  configuration record, the program started by line 112 with a successful connect emits
  exactly the events of the record-level \<open>bridge_main\<close> for that record and ends in the same
  state, for every sequence of \<open>upsc\<close> outcomes.\<close>

lemma program_refines:
  assumes "fs config_file = Some (Inr src)" and "parse src = Inr (yaml_of_config c)"
  shows "program fs parse None rs = bridge_main c rs"
  using assms
  by (simp add: program_loaded bridge_main_py_def main_start_def main_setup_yaml run_loop_py_refines
      bridge_main_def)

end
