(* ===== verification/Process.thy ===== *)
theory Process
  imports Config_Load "HOL-Library.Sublist"
begin

text \<open>
  The process as a whole: the publish calls of the program go through the argument checks
  of paho's \<open>Client.publish\<close> (\<open>publish_check\<close> of \<open>Bus\<close>). A call that fails them
  raises \<open>ValueError\<close> out of \<open>main\<close> (lines 102 and 106 are not guarded), so the process
  ends there: \<open>paho_run\<close> cuts the program's trace at the first rejected publish. The lemmas
  give the configurations under which no topic can be rejected for a wildcard, bound the
  sizes of the topics and payloads the bridge builds (\<open>json_bound\<close> of \<open>Json\<close>, the
  value lengths of \<open>Status_Reader\<close>), and compose the whole process: configuration
  loading, \<open>main\<close> and paho's checks. Conversely, a friendly name with a wildcard
  ends the process at the first sensor the UPS reports, before anything reaches the broker.
\<close>

fun paho_run :: "event list \<Rightarrow> event list \<times> py_error option" where
  "paho_run [] = ([], None)"
| "paho_run (Publish m # evs) =
     (case publish_check m of
        Some e \<Rightarrow> ([], Some e)
      | None \<Rightarrow> let (t, r) = paho_run evs in (Publish m # t, r))"
| "paho_run (Sleep n # evs) = (let (t, r) = paho_run evs in (Sleep n # t, r))"

definition process ::
  "files \<Rightarrow> yaml_parser \<Rightarrow> py_error option \<Rightarrow> run_result list \<Rightarrow> event list \<times> loop_status"
where
  "process fs parse conn rs =
     (let (evs, st) = program fs parse conn rs in
      case paho_run evs of
        (t, None) \<Rightarrow> (t, st)
      | (t, Some e) \<Rightarrow> (t, Crashed e))"

text \<open>A string without the MQTT wildcards.\<close>

definition no_wild :: "string \<Rightarrow> bool" where
  "no_wild s \<longleftrightarrow> CHR ''+'' \<notin> set s \<and> CHR ''#'' \<notin> set s"

text \<open>The strings of a configuration that end up in a topic or a payload.\<close>

definition opt_strs :: "string option \<Rightarrow> string list" where
  "opt_strs v = (case v of None \<Rightarrow> [] | Some x \<Rightarrow> [x])"

definition sensor_strings :: "sensor \<Rightarrow> string list" where
  "sensor_strings s =
     [key s, friendly_name s] @ opt_strs (unit s) @ opt_strs (icon s) @ opt_strs (device_class s)"

definition ups_strings :: "ups_conf \<Rightarrow> string list" where
  "ups_strings u = [ups_name u, ups_friendly_name u] @ opt_strs (ups_sw_version u)"

definition config_strings :: "config \<Rightarrow> string list" where
  "config_strings c =
     base_topic (mqtt c) # ups_strings (ups c) @ concat (map sensor_strings (sensors c))"

lemma paho_run_prefix: "prefix (fst (paho_run evs)) evs"
  by (induction evs rule: paho_run.induct) (auto simp: case_prod_beta split: option.splits)

lemma paho_run_ok:
  "\<forall>m\<in>set (published evs). publish_check m = None \<Longrightarrow> paho_run evs = (evs, None)"
  by (induction evs rule: paho_run.induct) auto

lemma process_ok:
  "\<forall>m\<in>set (published (fst (program fs parse conn rs))). publish_check m = None \<Longrightarrow>
   process fs parse conn rs = program fs parse conn rs"
  by (simp add: process_def paho_run_ok case_prod_beta)

lemma no_wild_append [simp]: "no_wild (xs @ ys) \<longleftrightarrow> no_wild xs \<and> no_wild ys"
  by (auto simp: no_wild_def)

lemma no_wild_Nil [simp]: "no_wild []"
  by (simp add: no_wild_def)

lemma no_wild_Cons [simp]: "no_wild (c # s) \<longleftrightarrow> c \<noteq> CHR ''+'' \<and> c \<noteq> CHR ''#'' \<and> no_wild s"
  by (auto simp: no_wild_def)

lemma lower_shift_not_wild:
  assumes "65 \<le> n" and "n \<le> (222::nat)"
  shows "char_of (n + 32) \<noteq> CHR ''+''" and "char_of (n + 32) \<noteq> CHR ''#''"
proof -
  have oc: "of_char (char_of (n + 32) :: char) = n + 32"
    using assms by (simp add: of_char_of)
  show "char_of (n + 32) \<noteq> CHR ''+''"
  proof
    assume "char_of (n + 32) = CHR ''+''"
    then have "n + 32 = of_char CHR ''+''" using oc by metis
    then show False using assms by simp
  qed
  show "char_of (n + 32) \<noteq> CHR ''#''"
  proof
    assume "char_of (n + 32) = CHR ''#''"
    then have "n + 32 = of_char CHR ''#''" using oc by metis
    then show False using assms by simp
  qed
qed

lemma py_lower_char_wild:
  "py_lower_char c = CHR ''+'' \<Longrightarrow> c = CHR ''+''" "py_lower_char c = CHR ''#'' \<Longrightarrow> c = CHR ''#''"
  using lower_shift_not_wild [of "of_char c"]
  by (auto simp: py_lower_char_def Let_def split: if_splits)

lemma no_wild_lower: "no_wild s \<Longrightarrow> no_wild (py_lower s)"
  unfolding no_wild_def py_lower_def by (auto dest: py_lower_char_wild sym)

lemma no_wild_underscore: "no_wild s \<Longrightarrow> no_wild (py_replace s [a] ''_'')"
  by (auto simp: no_wild_def py_replace_char)

lemma no_wild_entity_id: "no_wild n \<Longrightarrow> no_wild k \<Longrightarrow> no_wild (entity_id n k)"
proof -
  assume n: "no_wild n" and k: "no_wild k"
  have "no_wild (py_replace (py_lower n) [CHR '' ''] ''_'')" using no_wild_underscore no_wild_lower n by blast
  moreover have "no_wild (py_replace k [CHR ''.''] ''_'')" using no_wild_underscore k by blast
  ultimately show ?thesis by (simp add: entity_id_def)
qed

text \<open>The topics of one message of the bridge.\<close>

lemma discovery_topic_ok:
  "no_wild eid \<Longrightarrow> no_wild (topic (discovery_message p)) \<and> topic (discovery_message p) \<noteq> []"
  if "pl_unique_id p = eid"
  using that by (simp add: discovery_message_def build_discovery_topic_def)

lemma state_topic_ok:
  "no_wild base \<Longrightarrow> no_wild eid \<Longrightarrow>
   no_wild (topic (state_message base eid v)) \<and> topic (state_message base eid v) \<noteq> []"
  by (simp add: state_message_def build_state_topic_def)

lemma poll_sensors_topics:
  assumes "no_wild base" and "no_wild (name dev)" and "\<forall>s\<in>set ss. no_wild (key s)"
  shows "\<forall>m\<in>set (fst (poll_sensors base dev d ss lv)). no_wild (topic m) \<and> topic m \<noteq> []"
  using assms(3)
proof (induction ss arbitrary: lv)
  case Nil
  then show ?case by simp
next
  case (Cons s ss)
  show ?case
  proof (cases "build_payload base s d dev")
    case None
    then show ?thesis using Cons by simp
  next
    case (Some pv)
    obtain p v where pv: "pv = (p, v)" by fastforce
    have eid: "pl_unique_id p = entity_id (name dev) (key s)"
      using Some pv build_payload_Some by simp
    have ok: "no_wild (entity_id (name dev) (key s))"
      using Cons.prems assms(2) by (simp add: no_wild_entity_id)
    show ?thesis
      using Cons Some pv discovery_topic_ok [OF eid ok] state_topic_ok [OF assms(1) ok]
      by (auto simp: eid Let_def case_prod_beta)
  qed
qed

lemma run_loop_topics:
  assumes "no_wild (base_topic (mqtt c))" and "no_wild (name dev)" and "\<forall>s\<in>set (sensors c). no_wild (key s)"
  shows "\<forall>m\<in>set (published (fst (run_loop c dev rs lv))). no_wild (topic m) \<and> topic m \<noteq> []"
proof (induction rs arbitrary: lv)
  case Nil
  then show ?case by simp
next
  case (Cons r rs)
  show ?case
  proof (cases "read_ups r")
    case (Inl e)
    then show ?thesis by (simp add: poll_cycle_def)
  next
    case (Inr d)
    then show ?thesis
      using Cons.IH poll_sensors_topics [OF assms(1,2,3), of d]
      by (auto simp: poll_cycle_def case_prod_beta split: sum.splits)
  qed
qed

subsection \<open>Sizes of the messages\<close>

lemma payload_json_bound:
  assumes "build_payload base s d (device_info_of u) = Some (p, v)"
    and "length base \<le> 10000" and "\<forall>x\<in>set (ups_strings u @ sensor_strings s). length x \<le> 10000"
  shows "json_bound (payload_json p) \<le> 1000000"
  using assms
  by (auto simp: build_payload_Some payload_json_def device_json_def opt_field_def device_info_of_def
      length_entity_id build_state_topic_def ups_strings_def sensor_strings_def opt_strs_def
      split: option.splits)

text \<open>Both messages of one sensor pass paho's checks when the strings they are built from
  are at most 10000 characters and the value at most 134217727: the topics then have at most
  60016 bytes in UTF-8, the discovery payload at most 2000000.\<close>

lemma bridge_messages_ok:
  assumes bp: "build_payload base s d (device_info_of u) = Some (p, v)"
    and wild: "no_wild base" "no_wild (ups_friendly_name u)" "no_wild (key s)"
    and len: "length base \<le> 10000" "\<forall>x\<in>set (ups_strings u @ sensor_strings s). length x \<le> 10000"
    and val: "length v \<le> 134217727"
  shows "publish_check (discovery_message p) = None \<and>
         publish_check (state_message base (pl_unique_id p) v) = None"
proof -
  have eid: "pl_unique_id p = entity_id (ups_friendly_name u) (key s)"
    using bp by (simp add: build_payload_Some device_info_of_def)
  have nw: "no_wild (entity_id (ups_friendly_name u) (key s))"
    using wild by (simp add: no_wild_entity_id)
  have le: "length (entity_id (ups_friendly_name u) (key s)) \<le> 20001"
    using len by (simp add: length_entity_id ups_strings_def sensor_strings_def)
  have "utf8_len (json_dumps (payload_json p)) \<le> 2000000"
    using utf8_len_le [of "json_dumps (payload_json p)"] json_dumps_len [of "payload_json p"]
      payload_json_bound [OF bp len] by linarith
  moreover have "utf8_len (topic (discovery_message p)) \<le> 65535"
    using utf8_len_le [of "topic (discovery_message p)"] le eid
    by (simp add: discovery_message_def build_discovery_topic_def)
  moreover have "utf8_len (topic (state_message base (pl_unique_id p) v)) \<le> 65535"
    using utf8_len_le [of "topic (state_message base (pl_unique_id p) v)"] le eid len(1)
    by (simp add: state_message_def build_state_topic_def)
  moreover have "utf8_len v \<le> 268435455"
    using utf8_len_le [of v] val by linarith
  ultimately show ?thesis
    using discovery_topic_ok [OF eid nw] state_topic_ok [OF wild(1) nw, of v] eid
    by (simp add: publish_check_def no_wild_def state_message_def discovery_message_def)
qed

text \<open>C30: When the base topic, the UPS friendly name and the sensor keys of the configuration
  contain no MQTT wildcard, every topic the bridge publishes to is non-empty and free of
  wildcards, whatever the UPS reports: paho can reject a publish of the bridge only for its
  size.\<close>

theorem topics_wildcard_free:
  assumes "no_wild (base_topic (mqtt c))" and "no_wild (ups_friendly_name (ups c))"
    and "\<forall>s\<in>set (sensors c). no_wild (key s)"
  shows "\<forall>m\<in>set (published (fst (bridge_main c rs))). no_wild (topic m) \<and> topic m \<noteq> []"
proof -
  have "no_wild (name (device_info_of (ups c)))" using assms(2) by (simp add: device_info_of_def)
  from run_loop_topics [OF assms(1) this assms(3)] show ?thesis by (simp add: bridge_main_def)
qed

lemma poll_sensors_ok:
  assumes "no_wild base" and "no_wild (ups_friendly_name u)" and "\<forall>s\<in>set ss. no_wild (key s)"
    and "length base \<le> 10000"
    and "\<forall>x\<in>set (ups_strings u @ concat (map sensor_strings ss)). length x \<le> 10000"
    and "\<forall>k v. d k = Some v \<longrightarrow> length v \<le> 134217727"
  shows "\<forall>m\<in>set (fst (poll_sensors base (device_info_of u) d ss lv)). publish_check m = None"
  using assms(3,5)
proof (induction ss arbitrary: lv)
  case Nil
  then show ?case by simp
next
  case (Cons s ss)
  show ?case
  proof (cases "build_payload base s d (device_info_of u)")
    case None
    then show ?thesis using Cons by auto
  next
    case (Some pv)
    obtain p v where pv: "pv = (p, v)" by fastforce
    have bp: "build_payload base s d (device_info_of u) = Some (p, v)" using Some pv by simp
    then have "d (key s) = Some v" by (simp add: build_payload_Some)
    then have "length v \<le> 134217727" using assms(6) by blast
    then have ok: "publish_check (discovery_message p) = None \<and>
                   publish_check (state_message base (pl_unique_id p) v) = None"
      using bridge_messages_ok [OF bp assms(1,2)] Cons.prems assms(4) by auto
    show ?thesis
      using Cons ok Some pv by (auto simp: Let_def case_prod_beta)
  qed
qed

lemma run_loop_ok:
  assumes "no_wild (base_topic (mqtt c))" and "no_wild (ups_friendly_name (ups c))"
    and "\<forall>s\<in>set (sensors c). no_wild (key s)"
    and "\<forall>x\<in>set (config_strings c). length x \<le> 10000"
    and "\<forall>rc out. Completed rc out \<in> set rs \<longrightarrow> length out \<le> 134217727"
  shows "\<forall>m\<in>set (published (fst (run_loop c (device_info_of (ups c)) rs lv))). publish_check m = None"
  using assms(5)
proof (induction rs arbitrary: lv)
  case Nil
  then show ?case by simp
next
  case (Cons r rs)
  show ?case
  proof (cases "read_ups r")
    case (Inl e)
    then show ?thesis by (simp add: poll_cycle_def)
  next
    case (Inr d)
    have "\<forall>k v. d k = Some v \<longrightarrow> length v \<le> 134217727"
    proof (cases r)
      case (Completed rc out)
      then show ?thesis using Inr Cons.prems read_ups_len by fastforce
    next
      case (Raised e)
      then show ?thesis using Inr by (simp add: read_ups_def)
    qed
    then show ?thesis
      using Cons Inr poll_sensors_ok [OF assms(1,2,3), where d = d] assms(4)
      by (auto simp: poll_cycle_def case_prod_beta config_strings_def split: sum.splits)
  qed
qed


lemma wild_entity_id: "\<not> no_wild n \<Longrightarrow> \<not> no_wild (entity_id n k)"
proof -
  assume "\<not> no_wild n"
  then obtain c where c: "c \<in> set n" and w: "c = CHR ''+'' \<or> c = CHR ''#''"
    by (auto simp: no_wild_def)
  have "py_lower_char c = c" using w by (auto simp: py_lower_char_def)
  then have "underscore_of CHR '' '' (py_lower_char c) = c" using w by (auto simp: underscore_of_def)
  then have "c \<in> set (entity_id n k)" using c by (force simp: entity_id_chars py_lower_def)
  then show ?thesis using w by (auto simp: no_wild_def)
qed

lemma poll_sensors_first:
  assumes "s \<in> set ss" and "d (key s) \<noteq> None"
  shows "\<exists>p ms. fst (poll_sensors base dev d ss lv) = discovery_message p # ms \<and>
           (\<exists>s'\<in>set ss. pl_unique_id p = entity_id (name dev) (key s'))"
  using assms
proof (induction ss arbitrary: lv)
  case Nil
  then show ?case by simp
next
  case (Cons s0 ss)
  show ?case
  proof (cases "build_payload base s0 d dev")
    case None
    then have "d (key s0) = None" by (simp add: build_payload_none)
    then have "s \<in> set ss" using Cons.prems by auto
    then show ?thesis using Cons.IH [of lv] Cons.prems(2) None by auto
  next
    case (Some pv)
    obtain p v where pv: "pv = (p, v)" by fastforce
    have "pl_unique_id p = entity_id (name dev) (key s0)" using Some pv build_payload_Some by simp
    then show ?thesis using Some pv by (auto simp: Let_def case_prod_beta)
  qed
qed

lemma run_loop_first_publish:
  "read_ups r = Inr d \<Longrightarrow> fst (poll_sensors (base_topic (mqtt c)) dev d (sensors c) lv) = m # ms \<Longrightarrow>
   \<exists>evs. fst (run_loop c dev (r # rs) lv) = Publish m # evs"
  by (auto simp: poll_cycle_def case_prod_beta split: sum.splits)

text \<open>C31: a UPS friendly name with an MQTT wildcard (\<open>+\<close> or \<open>#\<close>) crashes the process
  at its first publish: \<open>lower()\<close> and the space replacement keep the wildcard in every
  entity id, so the first cycle that reports any configured sensor makes paho's
  \<open>publish\<close> reject its first discovery topic with \<open>ValueError\<close>, which \<open>main\<close> does
  not catch; nothing is published, whatever the rest of the configuration and the poll
  interval.\<close>

theorem wildcard_name_crash:
  assumes "fs config_file = Some (Inr src)" and "parse src = Inr (yaml_of_config c)"
    and "\<not> no_wild (ups_friendly_name (ups c))"
    and "read_ups r = Inr d" and "s \<in> set (sensors c)" and "d (key s) \<noteq> None"
  shows "process fs parse None (r # rs) = ([], Crashed ValueError)"
proof -
  let ?dev = "device_info_of (ups c)"
  obtain p ms where ps: "fst (poll_sensors (base_topic (mqtt c)) ?dev d (sensors c) Map.empty) = discovery_message p # ms"
    and s': "\<exists>s'\<in>set (sensors c). pl_unique_id p = entity_id (name ?dev) (key s')"
    using poll_sensors_first [where d = d and s = s, OF assms(5,6)] by blast
  obtain evs where run: "fst (run_loop c ?dev (r # rs) Map.empty) = Publish (discovery_message p) # evs"
    using run_loop_first_publish [OF assms(4) ps] by blast
  have "\<not> no_wild (pl_unique_id p)"
    using s' wild_entity_id assms(3) by (auto simp: device_info_of_def)
  then have chk: "publish_check (discovery_message p) = Some ValueError"
    by (auto simp: publish_check_def no_wild_def discovery_message_def build_discovery_topic_def)
  have "program fs parse None (r # rs) = bridge_main c (r # rs)"
    using assms(1,2) by (rule program_refines)
  then show ?thesis using run chk
    by (simp add: process_def bridge_main_def case_prod_beta)
qed

end
