(* ===== verification/Spec2Isabelle.thy ===== *)
theory Spec2Isabelle
  imports Loop_Machine Process
begin

text \<open>
  \<^bold>\<open>A verified model of ha-ups-mqtt.\<close>
  The repository is one Python script, \<open>src/ha-ups-mqtt.py\<close>. It polls a UPS through the
  NUT command \<open>upsc\<close> and republishes selected status fields over MQTT with Home
  Assistant's discovery convention. Its parts and how they interact:
  \<^item> the status reader \<open>read_ups\<close> (lines 15-25) runs \<open>upsc <name>\<close> and parses
    its \<open>key: value\<close> lines into a dict;
  \<^item> the field mapper \<open>build_payload\<close>, \<open>build_discovery_topic\<close> and
    \<open>build_state_topic\<close> (lines 27-57) turn one configured sensor and the dict into a
    discovery payload, an entity id and a state value;
  \<^item> the change tracker, the dict \<open>last_values\<close> of \<open>main\<close> (lines 86, 105-107),
    decides whether a state message is due;
  \<^item> the publisher, paho-mqtt's \<open>client.publish\<close> (lines 102, 106) with
    \<open>json.dumps\<close> for discovery payloads;
  \<^item> the poll loop, \<open>main\<close> (lines 59-109), which builds the device info and client
    settings from the configuration and then, forever, reads the status, walks the sensors in
    configuration order and sleeps.

  \<^bold>\<open>Theories.\<close>
  \<^item> \<open>Prelude\<close>: the Python exception type \<open>py_error\<close>, results \<open>py_error + 'a\<close>
    (\<open>Inl\<close> an exception), dicts as maps, the lemma collections \<open>py_simps\<close> and
    \<open>model_simps\<close>, and list and map lemmas shared by the components.
  \<^item> \<open>Py_Str\<close>: the \<open>str\<close> built-ins the script calls, with CPython's semantics on
    code points up to U+00FF (\<open>char\<close> is a Latin-1 code point): \<open>isspace\<close>,
    \<open>strip\<close>, \<open>lower\<close>, \<open>splitlines\<close> (with \<open>\r\n\<close> and every Latin-1 line
    boundary), \<open>in\<close>, \<open>split(sep, 1)\<close> (raising \<open>ValueError\<close> on an empty
    separator) and \<open>replace\<close> (including the empty pattern). Lemmas: \<open>splitlines\<close>
    inverts joining lines, \<open>strip\<close> removes exactly the surrounding white space,
    \<open>replace\<close> of one character is a \<open>map\<close>, \<open>lower\<close> is idempotent.
  \<^item> \<open>Status_Reader\<close>: \<open>read_ups\<close> with the outcome of \<open>subprocess.run\<close> as input
    (\<open>Completed rc stdout\<close>, or \<open>Raised e\<close> for \<open>OSError\<close> and
    \<open>UnicodeDecodeError\<close>), the loop \<open>parse_lines\<close> and the unpacking \<open>unpack2\<close>.
    Proved: refinement of the specification \<open>parse_spec\<close>, the round trip with
    \<open>upsc\<close>'s output format, and the well-formedness of every dict returned.
  \<^item> \<open>Json\<close>: \<open>json.dumps\<close> with its default arguments for strings, lists, dicts,
    \<open>None\<close>, booleans and integers, and a decoder of string bodies. Proved: the escaping round trip and that the output is
    printable ASCII.
  \<^item> \<open>Field_Mapper\<close>: the sensor, device info and discovery payload records, the topics,
    \<open>entity_id\<close> (line 41) and \<open>build_payload\<close>; \<open>payload_json\<close> is the dict that
    \<open>json.dumps\<close> receives; \<open>spec_entity_id\<close> is the specification's formula for
    the entity id. Proved: absent keys give no payload; the unique id, the tracker key and
    the state topic agree; the key order of the discovery object; the code's entity id is the
    specification's exactly for friendly names without a space; two keys collide exactly when
    they differ only by \<open>.\<close> against \<open>_\<close>; injectivity on keys without underscores.
  \<^item> \<open>Change_Tracker\<close>: \<open>should_publish\<close>, \<open>record_value\<close> and their sequencing
    over the values of one entity. Proved: a publish at the first value and at every change.
  \<^item> \<open>Bus\<close>: paho's \<open>publish\<close> and the broker's retained messages, from paho's
    documentation and MQTT 3.1.1 (not code of the repository): \<open>MQTT_ERR_NO_CONN\<close> and a
    dropped QoS 0 message when disconnected, retained-message replacement, and removal on an
    empty payload; the argument checks of paho 2.x \<open>Client.publish\<close>
    (\<open>publish_check\<close>: empty topic, wildcards, topic and payload sizes raise
    \<open>ValueError\<close>).
  \<^item> \<open>Poll_Loop\<close>: the configuration records, \<open>device_info_of\<close>,
    \<open>client_settings_of\<close>, the sensor loop \<open>poll_sensors\<close>, \<open>time_sleep\<close>
    (CPython's \<open>time.sleep\<close> on an int: \<open>OverflowError\<close> beyond 9223372036
    seconds, \<open>ValueError\<close> below zero), the cycle \<open>poll_cycle\<close> (the events of the
    cycle and either the new \<open>last_values\<close> or the exception that escapes), \<open>run_loop\<close>
    over any finite sequence of \<open>upsc\<close> outcomes and \<open>bridge_main\<close>; the
    specification of a pass (\<open>cycle_messages\<close>, \<open>cycle_store\<close>) and the agreement
    \<open>retained_consistent\<close> between the tracker and the broker. Proved: refinement of
    the pass, stability of deduplication, that the tracker never withholds a value the broker
    lacks while connected; non-zero exit codes, exceptions of \<open>upsc\<close> and an interval
    \<open>time.sleep\<close> rejects, each at every cycle of every run; survival of the loop; the
    credentials rule; and what the loop does to the broker's retained messages: an update
    made while disconnected is lost for good, an empty value deletes the retained state, and
    two sensors with one entity id republish both values on every cycle.
  \<^item> \<open>Loop_Machine\<close>: the same loop at the level of single statements, as the
    inductive step relation \<open>loop_step\<close> on a program point (\<open>phase\<close>: before
    \<open>read_ups\<close>, before a sensor, at the dedup test of line 105, at the sleep, or after an
    escaped exception) and \<open>last_values\<close>, each step labelled with the events it emits;
    the outcome of \<open>upsc\<close> is chosen by the environment. Proved: an invariant of all
    reachable states by rule induction (\<open>last_values\<close> tracks configured sensors only),
    and that every finite run of \<open>run_loop\<close> is a run of the machine with the same events,
    ending in the aborted state when an exception escapes.
  \<^item> \<open>Py_Value\<close>: the value \<open>yaml.safe_load\<close> returns (\<open>pyval\<close>: \<open>None\<close>,
    \<open>bool\<close>, \<open>int\<close>, \<open>str\<close>, lists and dicts with string keys in insertion order)
    and the operations the script applies to the configuration: \<open>d[k]\<close>,
    \<open>d.get\<close>, \<open>in\<close>, truth tests, iteration, \<open>str\<close>/\<open>repr\<close> as f-strings
    call them, and the argument of \<open>json.dumps\<close>, each with the exception CPython raises
    on a value of the wrong kind.
  \<^item> \<open>Config_Setup\<close>: lines 61-83 of \<open>main\<close> on such a value (\<open>main_setup\<close>,
    \<open>credentials\<close>, \<open>main_start\<close> with the outcome of \<open>client.connect\<close> as input),
    and the encoders \<open>yaml_of_config\<close> that write a configuration record as its file.
    Proved: on the file of a record the start computes \<open>device_info_of\<close> and
    \<open>client_settings_of\<close>.
  \<^item> \<open>Dict_Loop\<close>: \<open>build_payload\<close> and the loop on the configuration's Python values
    (\<open>build_payload_py\<close>, \<open>poll_sensors_py\<close>, \<open>poll_cycle_py\<close>,
    \<open>run_loop_py\<close>, \<open>bridge_main_py\<close>), where an exception in the middle of a cycle
    keeps the publishes made before it. Proved: on the file of a record the whole program is
    the record-level \<open>bridge_main\<close> (so every theorem about \<open>bridge_main\<close> holds of
    the code with its lookups); type soundness (on a configuration of the shape
    \<open>wt_config\<close>, which includes an interval \<open>time.sleep\<close> accepts and a user name
    that is a string when it is truthy, every exception comes from \<open>upsc\<close>); and where
    configuration errors surface: \<open>sensors\<close>, \<open>friendly_name\<close>,
    \<open>base_topic\<close> and \<open>poll_interval\<close> are first used in the loop, a sensor without a
    friendly name only once the UPS reports its key, and a rejected interval only after the
    first cycle's publishes.
  \<^item> \<open>Config_Load\<close>: \<open>CONFIG_FILE\<close>, \<open>load_config\<close> and the entry point
    (\<open>program\<close>, lines 111-112), over a file system and a YAML parser given as
    parameters. Proved: for every parser that reads the file as the file of a configuration
    record, the program is the record-level \<open>bridge_main\<close>; a missing, unreadable or
    empty file ends it before anything is connected or published.
  \<^item> \<open>Process\<close>: the program together with paho's publish checks (\<open>paho_run\<close> cuts
    the trace at the first rejected publish, whose \<open>ValueError\<close> ends \<open>main\<close>;
    \<open>process\<close>). Proved: with wildcard-free base topic, friendly name and keys, every
    published topic is non-empty and wildcard-free; with, in addition, configuration strings
    of at most 10000 characters (\<open>config_strings\<close>), an interval \<open>time.sleep\<close>
    accepts and \<open>upsc\<close> outputs of at most 134217727, every publish passes paho's checks
    and the whole process (loading, \<open>main\<close>, paho) emits exactly the events of
    \<open>bridge_main\<close>; a friendly name with a wildcard ends the process at the first sensor
    the UPS reports, with nothing published. The size lemmas it rests on are
    shared: \<open>json_bound\<close> bounds what \<open>json.dumps\<close> writes (\<open>Json\<close>), a value
    read by \<open>read_ups\<close> is no longer than the output it comes from (\<open>Status_Reader\<close>),
    UTF-8 takes at most two bytes per Latin-1 character (\<open>Bus\<close>).
  \<^item> This theory: the specification's end-to-end scenario (\<open>spec_end_to_end\<close>) and,
    for each property with a hypothesis, a concrete configuration, status dict and broker
    state where the hypotheses hold.

  \<^bold>\<open>Loops and fuel.\<close> \<open>while True\<close> has no end; it is modelled by \<open>run_loop\<close>
  over a finite list of \<open>upsc\<close> outcomes, one per cycle, so every property of the loop is
  a property of every finite prefix of a run, and properties of every cycle (such as
  \<open>collision_flaps\<close>) quantify over the number of cycles already run. No fuel is
  needed: every function is total by structural recursion, except \<open>splitlines_from\<close>,
  whose termination is proved with the length of the unread input as measure. Sleeping is an
  event \<open>Sleep n\<close>; the time that passes is not modelled, the exceptions of
  \<open>time.sleep\<close> are.

  \<^bold>\<open>Bounds.\<close> The sizes in \<open>process_refines\<close> are sufficient, not tight: with
  strings of at most 10000 characters a topic has at most 60016 bytes (limit 65535) and a
  discovery payload at most 2000000 (limit 268435455); a state payload is a value of the
  \<open>upsc\<close> output, hence at most twice 134217727 bytes.

  \<^bold>\<open>Not modelled.\<close> The YAML parser itself (\<open>yaml.safe_load\<close> is a parameter of
  \<open>load_config\<close>, so every lemma holds for any parser) and the imports of lines 1-7,
  which bind library modules; the model starts from the Python value the parser returns,
  without floats (a float \<open>poll_interval\<close>, which \<open>time.sleep\<close> accepts) and without
  non-string dict keys; the arguments that paho's \<open>mqtt.Client\<close> and \<open>connect\<close>
  check themselves (a client id, port or password of the wrong type) are passed on
  unchecked, their outcome being the input of \<open>main_start\<close>; the socket and thread of
  paho-mqtt (\<open>connect\<close>, \<open>loop_start\<close>; the connection status is an input of the bus
  model); code points above U+00FF in strings; the wall-clock time of \<open>time.sleep\<close>.
\<close>

definition ex_charge :: sensor where
  "ex_charge = \<lparr>key = ''battery.charge'', friendly_name = ''Battery Charge'', unit = Some ''%'',
                icon = None, device_class = Some ''battery''\<rparr>"

definition ex_voltage :: sensor where
  "ex_voltage = \<lparr>key = ''battery.voltage'', friendly_name = ''Battery Voltage'', unit = Some ''V'',
                 icon = None, device_class = Some ''voltage''\<rparr>"

definition ex_config :: config where
  "ex_config =
     \<lparr>mqtt = \<lparr>broker = ''localhost'', port = 1883, base_topic = ''ups'', client_id = None,
              username = None, password = None\<rparr>,
      ups = \<lparr>ups_name = ''myups'', ups_friendly_name = ''Office UPS'', ups_sw_version = None,
             poll_interval = None\<rparr>,
      sensors = [ex_charge, ex_voltage]\<rparr>"

definition ex_device :: device_info where
  "ex_device = device_info_of (ups ex_config)"

definition ex_status :: str_dict where
  "ex_status = [''battery.charge'' \<mapsto> ''90'', ''battery.voltage'' \<mapsto> ''13.5'']"

definition spec_scenario :: "run_result list" where
  "spec_scenario =
     [Completed 0 ''battery.charge: 90\<newline>battery.voltage: 13.5\<newline>'',
      Completed 0 ''battery.charge: 90\<newline>battery.voltage: 13.5\<newline>'',
      Completed 0 ''battery.charge: 85\<newline>'']"

definition ex_bus :: bus_state where
  "ex_bus = \<lparr>connected = True, retained = Map.empty, delivered = []\<rparr>"

definition collide_a :: sensor where
  "collide_a = \<lparr>key = ''a.b'', friendly_name = ''A'', unit = None, icon = None, device_class = None\<rparr>"

definition collide_b :: sensor where
  "collide_b = \<lparr>key = ''a_b'', friendly_name = ''B'', unit = None, icon = None, device_class = None\<rparr>"

definition collide_status :: str_dict where
  "collide_status = [''a.b'' \<mapsto> ''1'', ''a_b'' \<mapsto> ''2'']"

text \<open>A sensor entry without a friendly name.\<close>

definition sensor_no_name :: pyval where
  "sensor_no_name = PyDict [(''key'', PyStr ''battery.voltage'')]"

text \<open>The example configuration with a poll interval that \<open>time.sleep\<close> rejects.\<close>

definition ex_big_config :: config where
  "ex_big_config = ex_config\<lparr>ups := (ups ex_config)\<lparr>poll_interval := Some 9223372037\<rparr>\<rparr>"

text \<open>A configuration file with a negative poll interval.\<close>

definition ups_neg :: pyval where
  "ups_neg = PyDict [(''name'', PyStr ''myups''), (''friendly_name'', PyStr ''Office UPS''),
                     (''poll_interval'', PyInt (-5))]"

definition cfg_neg :: pyval where
  "cfg_neg = PyDict [(''mqtt'', yaml_of_mqtt (mqtt ex_config)), (''ups'', ups_neg),
                     (''sensors'', PyList (map yaml_of_sensor (sensors ex_config)))]"

text \<open>The example configuration with a UPS whose friendly name contains \<open>#\<close>, and a file
  system holding a configuration file.\<close>

definition ex_hash_config :: config where
  "ex_hash_config = ex_config\<lparr>ups := (ups ex_config)\<lparr>ups_friendly_name := ''UPS #1''\<rparr>\<rparr>"

definition ex_files :: files where
  "ex_files = [config_file \<mapsto> Inr ''mqtt: ...'']"

lemmas example_defs [model_simps] =
  ex_charge_def ex_voltage_def ex_config_def ex_device_def ex_status_def spec_scenario_def ex_bus_def
  collide_a_def collide_b_def collide_status_def

lemmas run_simps [model_simps] =
  bridge_main_def poll_cycle_def read_ups_def build_payload_def device_info_of_def entity_id_def
  discovery_message_def state_message_def build_state_topic_def build_discovery_topic_def
  poll_seconds_def time_sleep_def sleep_limit_def Let_def

text \<open>The end-to-end scenario of the specification (section 8): two sensors, a first cycle
  reading \<open>battery.charge: 90\<close> and \<open>battery.voltage: 13.5\<close>, a second cycle with the
  same output, a third reading \<open>battery.charge: 85\<close>. The first cycle publishes two retained
  discovery and two retained state messages (90 and 13.5), the second only the two discovery
  messages, the third one discovery message and one state message (85); each cycle sleeps the
  default 30 seconds.\<close>

lemma spec_end_to_end:
  "map (\<lambda>m. (topic m, retain m)) (published (fst (bridge_main ex_config spec_scenario))) =
     [(''homeassistant/sensor/office_ups_battery_charge/config'', True),
      (''ups/office_ups_battery_charge/state'', True),
      (''homeassistant/sensor/office_ups_battery_voltage/config'', True),
      (''ups/office_ups_battery_voltage/state'', True),
      (''homeassistant/sensor/office_ups_battery_charge/config'', True),
      (''homeassistant/sensor/office_ups_battery_voltage/config'', True),
      (''homeassistant/sensor/office_ups_battery_charge/config'', True),
      (''ups/office_ups_battery_charge/state'', True)] \<and>
   map payload (filter (\<lambda>m. topic m \<in> {''ups/office_ups_battery_charge/state'',
                                        ''ups/office_ups_battery_voltage/state''})
      (published (fst (bridge_main ex_config spec_scenario)))) = [''90'', ''13.5'', ''85''] \<and>
   filter is_sleep (fst (bridge_main ex_config spec_scenario)) = [Sleep 30, Sleep 30, Sleep 30]"
  by (simp add: model_simps py_simps)

subsection \<open>Witnesses\<close>

text \<open>Each property with a hypothesis, applied to an example where the hypotheses hold.\<close>

lemma ex_distinct: "distinct_ids ex_device ex_status [ex_charge, ex_voltage]"
  by (simp add: distinct_ids_def present_sensors_def sensor_eid_def model_simps py_simps)

lemma ex_interval_ok: "interval_ok (ups ex_config)"
  by (simp add: interval_ok_def model_simps)

theorem poll_sensors_refines_witness:
  "distinct_ids ex_device ex_status [ex_charge, ex_voltage] \<and>
   poll_sensors ''ups'' ex_device ex_status [ex_charge, ex_voltage] Map.empty =
     (cycle_messages ''ups'' ex_device ex_status Map.empty [ex_charge, ex_voltage],
      cycle_store ex_device ex_status [ex_charge, ex_voltage] Map.empty)"
  using ex_distinct Poll_Loop.poll_sensors_refines [OF ex_distinct] by (intro conjI)

theorem poll_sensors_dedup_witness:
  "distinct_ids ex_device ex_status [ex_charge, ex_voltage] \<and>
   poll_sensors ''ups'' ex_device ex_status [ex_charge, ex_voltage]
     (snd (poll_sensors ''ups'' ex_device ex_status [ex_charge, ex_voltage] Map.empty)) =
   (discovery_messages ''ups'' ex_device ex_status [ex_charge, ex_voltage],
    snd (poll_sensors ''ups'' ex_device ex_status [ex_charge, ex_voltage] Map.empty))"
  using ex_distinct Poll_Loop.poll_sensors_dedup [OF ex_distinct] by (intro conjI)

theorem run_loop_retained_consistent_witness:
  "connected ex_bus \<and> retained_consistent (base_topic (mqtt ex_config)) ex_bus Map.empty \<and>
   run_loop ex_config ex_device spec_scenario Map.empty =
     (fst (run_loop ex_config ex_device spec_scenario Map.empty),
      Running [''office_ups_battery_voltage'' \<mapsto> ''13.5'', ''office_ups_battery_charge'' \<mapsto> ''85'']) \<and>
   retained_consistent (base_topic (mqtt ex_config))
     (publish_all ex_bus (published (fst (run_loop ex_config ex_device spec_scenario Map.empty))))
     [''office_ups_battery_voltage'' \<mapsto> ''13.5'', ''office_ups_battery_charge'' \<mapsto> ''85'']"
proof -
  have h1: "connected ex_bus" by (simp add: ex_bus_def)
  have h2: "retained_consistent (base_topic (mqtt ex_config)) ex_bus Map.empty"
    by (simp add: retained_consistent_def)
  have h3: "run_loop ex_config ex_device spec_scenario Map.empty =
     (fst (run_loop ex_config ex_device spec_scenario Map.empty),
      Running [''office_ups_battery_voltage'' \<mapsto> ''13.5'', ''office_ups_battery_charge'' \<mapsto> ''85''])"
    by (simp add: model_simps py_simps)
  show ?thesis using Poll_Loop.run_loop_retained_consistent [OF h1 h2 h3] h1 h2 h3 by (intro conjI)
qed



theorem reachable_inv_witness:
  "reachable ex_config ex_device \<lparr>phase = Reading, seen = [''office_ups_battery_charge'' \<mapsto> ''90'']\<rparr> \<and>
   machine_inv ex_config ex_device \<lparr>phase = Reading, seen = [''office_ups_battery_charge'' \<mapsto> ''90'']\<rparr>"
proof -
  let ?run = "run_loop ex_config ex_device [Completed 0 ''battery.charge: 90\<newline>''] Map.empty"
  have st: "snd ?run = Running [''office_ups_battery_charge'' \<mapsto> ''90'']"
    by (simp add: model_simps py_simps)
  have "loop_steps ex_config ex_device \<lparr>phase = Reading, seen = Map.empty\<rparr> (fst ?run)
          \<lparr>phase = Reading, seen = [''office_ups_battery_charge'' \<mapsto> ''90'']\<rparr>"
    using run_loop_simulation [OF prod.collapse [symmetric, of ?run]]
    by (simp only: st loop_status.case)
  then have r: "reachable ex_config ex_device
      \<lparr>phase = Reading, seen = [''office_ups_battery_charge'' \<mapsto> ''90'']\<rparr>"
    unfolding reachable_def initial_state_def by blast
  show ?thesis using r Loop_Machine.reachable_inv [OF r] by simp
qed


theorem run_loop_interval_overflow_witness:
  "\<not> interval_ok (ups ex_big_config) \<and>
   snd (run_loop ex_big_config ex_device [Completed 0 ''battery.charge: 90\<newline>'', Completed 0 []] Map.empty) =
     Crashed OverflowError \<and>
   map topic (published (fst (run_loop ex_big_config ex_device
     [Completed 0 ''battery.charge: 90\<newline>'', Completed 0 []] Map.empty))) =
     [''homeassistant/sensor/office_ups_battery_charge/config'', ''ups/office_ups_battery_charge/state'']"
proof -
  have h1: "\<not> interval_ok (ups ex_big_config)"
    by (simp add: interval_ok_def ex_big_config_def model_simps)
  have h2: "read_ups (Completed 0 ''battery.charge: 90\<newline>'') = Inr (parse_spec ''battery.charge: 90\<newline>'')"
    by (rule read_ups_zero)
  have "run_loop ex_big_config ex_device [Completed 0 ''battery.charge: 90\<newline>'', Completed 0 []] Map.empty =
     (map Publish (fst (poll_sensors (base_topic (mqtt ex_big_config)) ex_device
        (parse_spec ''battery.charge: 90\<newline>'') (sensors ex_big_config) Map.empty)), Crashed OverflowError)"
    by (rule Poll_Loop.run_loop_interval_overflow [OF h1 h2])
  then show ?thesis using h1
    by (simp add: ex_big_config_def parse_spec_def status_pairs_def split_line_def colon_line_def
        model_simps py_simps)
qed

theorem disconnect_loses_update_witness:
  "publish_all (ex_bus\<lparr>connected := False\<rparr>) (fst (poll_sensors ''ups'' ex_device ex_status [ex_charge, ex_voltage] Map.empty)) =
     ex_bus\<lparr>connected := False\<rparr> \<and>
   snd (poll_sensors ''ups'' ex_device ex_status [ex_charge, ex_voltage] Map.empty) ''office_ups_battery_charge'' = Some ''90'' \<and>
   retained (publish_all ex_bus (fst (poll_sensors ''ups'' ex_device ex_status [ex_charge, ex_voltage]
       (snd (poll_sensors ''ups'' ex_device ex_status [ex_charge, ex_voltage] Map.empty)))))
     ''ups/office_ups_battery_charge/state'' = None"
proof -
  have h2: "ex_charge \<in> set [ex_charge, ex_voltage]" by simp
  have h3: "ex_status (key ex_charge) = Some ''90''" by (simp add: ex_status_def ex_charge_def)
  have h4: "\<not> connected (ex_bus\<lparr>connected := False\<rparr>)" by simp
  have e: "sensor_eid ex_device ex_charge = ''office_ups_battery_charge''"
    by (simp add: sensor_eid_def model_simps py_simps)
  show ?thesis
    using Poll_Loop.disconnect_loses_update [OF ex_distinct h2 h3 h4, of "''ups''" Map.empty ex_bus] e
    by (simp add: ex_bus_def build_state_topic_def)
qed

theorem empty_value_clears_state_witness:
  "retained (publish_all ex_bus (fst (poll_sensors ''ups'' ex_device [''battery.charge'' \<mapsto> []] [ex_charge] Map.empty)))
     ''ups/office_ups_battery_charge/state'' = None \<and>
   snd (poll_sensors ''ups'' ex_device [''battery.charge'' \<mapsto> []] [ex_charge] Map.empty) ''office_ups_battery_charge'' = Some []"
proof -
  have h1: "distinct_ids ex_device [''battery.charge'' \<mapsto> []] [ex_charge]"
    by (simp add: distinct_ids_def present_sensors_def)
  have h2: "ex_charge \<in> set [ex_charge]" by simp
  have h3: "[''battery.charge'' \<mapsto> []] (key ex_charge) = Some []" by (simp add: ex_charge_def)
  have h4: "(Map.empty :: last_values) (sensor_eid ex_device ex_charge) \<noteq> Some []" by simp
  have h5: "connected ex_bus" by (simp add: ex_bus_def)
  have e: "sensor_eid ex_device ex_charge = ''office_ups_battery_charge''"
    by (simp add: sensor_eid_def model_simps py_simps)
  show ?thesis
    using Poll_Loop.empty_value_clears_state [OF h1 h2 h3 h4 h5, of "''ups''"] e
    by (simp add: build_state_topic_def fun_upd_def del: poll_sensors.simps)
qed

theorem collision_flaps_witness:
  "filter (\<lambda>m. topic m = ''ups/office_ups_a_b/state'')
     (fst (poll_sensors ''ups'' ex_device collide_status [collide_a, collide_b]
       (((\<lambda>l. snd (poll_sensors ''ups'' ex_device collide_status [collide_a, collide_b] l)) ^^ 3) Map.empty))) =
   [state_message ''ups'' ''office_ups_a_b'' ''1'', state_message ''ups'' ''office_ups_a_b'' ''2'']"
proof -
  have e: "sensor_eid ex_device collide_a = ''office_ups_a_b''"
    by (simp add: sensor_eid_def model_simps py_simps)
  have h1: "sensor_eid ex_device collide_b = sensor_eid ex_device collide_a"
    by (simp add: sensor_eid_def model_simps py_simps)
  have h2: "collide_status (key collide_a) = Some ''1''" by (simp add: model_simps)
  have h3: "collide_status (key collide_b) = Some ''2''" by (simp add: model_simps)
  have h4: "''1'' \<noteq> ''2''" by simp
  have h5: "(Map.empty :: last_values) (sensor_eid ex_device collide_a) \<noteq> Some ''1''" by simp
  show ?thesis
    using Poll_Loop.collision_flaps [OF h1 h2 h3 h4 h5, of "''ups''" 3] e
    by (simp add: build_state_topic_def)
qed


theorem build_payload_py_missing_name_witness:
  "build_payload_py (yaml_of_config ex_config) sensor_no_name ex_status
     (pyval_of_device ex_device) = Inl (KeyError ''friendly_name'') \<and>
   ex_status ''battery.voltage'' = Some ''13.5''"
proof -
  have h1: "py_getitem sensor_no_name ''key'' = Inr (PyStr ''battery.voltage'')"
    by (simp add: sensor_no_name_def)
  have h2: "py_getitem sensor_no_name ''friendly_name'' = Inl (KeyError ''friendly_name'')"
    by (simp add: sensor_no_name_def)
  have h3: "ex_status ''battery.voltage'' = Some ''13.5''" by (simp add: ex_status_def)
  have h4: "py_getitem (pyval_of_device ex_device) ''name'' = Inr (PyStr ''Office UPS'')"
    by (simp add: model_simps)
  show ?thesis using Dict_Loop.build_payload_py_missing_name
      [where s = sensor_no_name and k = "''battery.voltage''"
         and d = ex_status and dev = "pyval_of_device ex_device", OF h1 h2 h3 h4] h3 by (intro conjI)
qed

theorem late_config_crash_witness:
  "ex_status ''battery.voltage'' = Some ''13.5'' \<and>
   poll_sensors_py (yaml_of_config ex_config) (yaml_of_mqtt (mqtt ex_config)) (pyval_of_device ex_device) ex_status
     [yaml_of_sensor ex_charge, sensor_no_name] Map.empty =
   (fst (poll_sensors ''ups'' ex_device ex_status [ex_charge] Map.empty), Inl (KeyError ''friendly_name''))"
proof -
  let ?cfg = "yaml_of_config ex_config" and ?mq = "yaml_of_mqtt (mqtt ex_config)"
  have h1: "py_getitem sensor_no_name ''key'' = Inr (PyStr ''battery.voltage'')"
    by (simp add: sensor_no_name_def)
  have h2: "py_getitem sensor_no_name ''friendly_name'' = Inl (KeyError ''friendly_name'')"
    by (simp add: sensor_no_name_def)
  have h3: "py_getitem (pyval_of_device ex_device) ''name'' = Inr (PyStr ''Office UPS'')"
    by (simp add: model_simps)
  have ps: "poll_sensors_py ?cfg ?mq (pyval_of_device ex_device) ex_status [yaml_of_sensor ex_charge] Map.empty =
      (fst (poll_sensors ''ups'' ex_device ex_status [ex_charge] Map.empty),
       Inr (snd (poll_sensors ''ups'' ex_device ex_status [ex_charge] Map.empty)))"
    using poll_sensors_py_refines [of ?cfg "mqtt ex_config" ex_device ex_status "[ex_charge]" Map.empty]
    by (simp add: ex_config_def)
  have h4: "snd (poll_sensors_py ?cfg ?mq (pyval_of_device ex_device) ex_status [yaml_of_sensor ex_charge] Map.empty) =
      Inr (snd (poll_sensors ''ups'' ex_device ex_status [ex_charge] Map.empty))"
    using ps by simp
  have h5: "ex_status ''battery.voltage'' = Some ''13.5''" by (simp add: ex_status_def)
  show ?thesis
    using Dict_Loop.late_config_crash [OF h1 h2 h3 h4, of "[]"] ps h5 by simp
qed

theorem sensors_checked_late_witness:
  "main_setup (PyDict [(''mqtt'', yaml_of_mqtt (mqtt ex_config)), (''ups'', yaml_of_ups (ups ex_config)),
                       (''sensors'', PyList [])]) =
     main_setup (PyDict [(''mqtt'', yaml_of_mqtt (mqtt ex_config)), (''ups'', yaml_of_ups (ups ex_config))]) \<and>
   poll_cycle_py (PyDict [(''mqtt'', yaml_of_mqtt (mqtt ex_config)), (''ups'', yaml_of_ups (ups ex_config))])
     (setup_of ex_config) (Completed 0 ''battery.charge: 90\<newline>'') Map.empty =
     ([], Inl (KeyError ''sensors''))"
proof -
  have h1: "''sensors'' \<notin> fst ` set [(''mqtt'', yaml_of_mqtt (mqtt ex_config)), (''ups'', yaml_of_ups (ups ex_config))]"
    by simp
  have h2: "read_ups (Completed 0 ''battery.charge: 90\<newline>'') = Inr (parse_spec ''battery.charge: 90\<newline>'')"
    by (rule read_ups_zero)
  show ?thesis using Dict_Loop.sensors_checked_late [OF h1 h2, of "PyList []" "setup_of ex_config" Map.empty]
    by simp
qed

theorem interval_rejected_crash_witness:
  "main_setup cfg_neg = Inr ((setup_of ex_config)\<lparr>su_ups := ups_neg\<rparr>) \<and>
   poll_cycle_py cfg_neg ((setup_of ex_config)\<lparr>su_ups := ups_neg\<rparr>) (Completed 0 ''battery.charge: 90\<newline>'')
     Map.empty =
   (map Publish (fst (poll_sensors ''ups'' (device_info_of (ups ex_config)) [''battery.charge'' \<mapsto> ''90'']
      (sensors ex_config) Map.empty)), Inl ValueError)"
proof -
  let ?su = "(setup_of ex_config)\<lparr>su_ups := ups_neg\<rparr>"
  let ?d = "[''battery.charge'' \<mapsto> ''90'']"
  have h0: "main_setup cfg_neg = Inr ?su"
    by (simp add: main_setup_def cfg_neg_def ups_neg_def setup_of_def credentials_def
        client_settings_of_def model_simps py_simps)
  have h1: "py_get (su_ups ?su) ''poll_interval'' (PyInt 30) = Inr (PyInt (-5))" by (simp add: ups_neg_def)
  have h2: "\<not> (0 \<le> (-5::int) \<and> -5 \<le> sleep_limit)" by simp
  have h3: "read_ups (Completed 0 ''battery.charge: 90\<newline>'') = Inr ?d" by (simp add: model_simps py_simps)
  have h4: "py_bind (py_getitem cfg_neg ''sensors'') py_iter = Inr (map yaml_of_sensor (sensors ex_config))"
    by (simp add: cfg_neg_def)
  have ps: "poll_sensors_py cfg_neg (su_mqtt ?su) (su_device ?su) ?d (map yaml_of_sensor (sensors ex_config)) Map.empty =
      (fst (poll_sensors ''ups'' (device_info_of (ups ex_config)) ?d (sensors ex_config) Map.empty),
       Inr (snd (poll_sensors ''ups'' (device_info_of (ups ex_config)) ?d (sensors ex_config) Map.empty)))"
    using poll_sensors_py_refines [of cfg_neg "mqtt ex_config" "device_info_of (ups ex_config)" ?d
        "sensors ex_config" Map.empty]
    by (simp add: cfg_neg_def ex_config_def)
  have h5: "snd (poll_sensors_py cfg_neg (su_mqtt ?su) (su_device ?su) ?d (map yaml_of_sensor (sensors ex_config))
      Map.empty) = Inr (snd (poll_sensors ''ups'' (device_info_of (ups ex_config)) ?d (sensors ex_config) Map.empty))"
    using ps by simp
  show ?thesis using Dict_Loop.interval_rejected_crash [OF h1 h2 h3 h4 h5] h0 ps by (simp add: sleep_limit_def)
qed

theorem topics_wildcard_free_witness:
  "no_wild (base_topic (mqtt ex_config)) \<and> no_wild (ups_friendly_name (ups ex_config)) \<and>
   no_wild (key ex_charge) \<and> no_wild (key ex_voltage) \<and>
   list_all (\<lambda>m. no_wild (topic m) \<and> topic m \<noteq> []) (published (fst (bridge_main ex_config spec_scenario)))"
proof -
  have h1: "no_wild (base_topic (mqtt ex_config))" by (simp add: ex_config_def)
  have h2: "no_wild (ups_friendly_name (ups ex_config))" by (simp add: ex_config_def)
  have h3: "\<forall>s\<in>set (sensors ex_config). no_wild (key s)" by (simp add: ex_config_def ex_charge_def ex_voltage_def)
  have "no_wild (key ex_charge) \<and> no_wild (key ex_voltage)" using h3 by (simp add: ex_config_def)
  then show ?thesis using Process.topics_wildcard_free [OF h1 h2 h3] h1 h2 by (simp add: list_all_iff)
qed


theorem wildcard_name_crash_witness:
  "process ex_files (\<lambda>t. Inr (yaml_of_config ex_hash_config)) None
     [Completed 0 ''battery.charge: 90\<newline>''] = ([], Crashed ValueError) \<and>
   ups_friendly_name (ups ex_hash_config) = ''UPS #1''"
proof -
  have h1: "ex_files config_file = Some (Inr ''mqtt: ...'')" by (simp add: ex_files_def)
  have h3: "\<not> no_wild (ups_friendly_name (ups ex_hash_config))"
    by (simp add: ex_hash_config_def no_wild_def)
  have h4: "read_ups (Completed 0 ''battery.charge: 90\<newline>'') = Inr (parse_spec ''battery.charge: 90\<newline>'')"
    by (rule read_ups_zero)
  have h5: "ex_charge \<in> set (sensors ex_hash_config)" by (simp add: ex_hash_config_def ex_config_def)
  have h6: "parse_spec ''battery.charge: 90\<newline>'' (key ex_charge) \<noteq> None"
    by (simp add: parse_spec_def status_pairs_def split_line_def colon_line_def model_simps py_simps)
  show ?thesis
    using Process.wildcard_name_crash [where fs = ex_files and src = "''mqtt: ...''" and
        parse = "\<lambda>t. Inr (yaml_of_config ex_hash_config)" and c = ex_hash_config and rs = "[]",
        OF h1 _ h3 h4 h5 h6]
    by (simp add: ex_hash_config_def)
qed

end
